theory Spec2Isabelle
  imports Complex_Main "HOL-Library.Sublist" "HOL-Library.Char_ord" "HOL-Library.List_Lexorder"
begin

section \<open>JavaScript values\<close>

text \<open>
  Conventions of the embedding.
  \<^item> A JavaScript number is a \<open>number\<close>: \<open>NaN\<close>, an infinity, or a finite value, which is a real.
    Arithmetic on finite values is exact: the rounding and the overflow of binary64 are not
    modelled, and zero has no sign. A number that the code only computes from counts,
    identifiers and constants (so that it is finite) is an \<^typ>\<open>int\<close>, a \<^typ>\<open>nat\<close> or a
    \<^typ>\<open>real\<close> directly.
  \<^item> A string is the list of its code units; the type \<^typ>\<open>char\<close> holds the code units below
    256, so the strings of the model are the strings of Latin-1 characters.
  \<^item> A property that may be missing is an \<open>option\<close>; \<open>None\<close> is \<open>undefined\<close> or \<open>null\<close>.
  \<^item> A thrown exception is the left summand of a sum type.
  \<^item> Objects are records with the fields the code reads. An object literal that the code
    indexes with a computed key is an association list of its own properties, followed on a
    miss by the members that every object inherits from \<open>Object.prototype\<close>.
  \<^item> An \<open>async\<close> function is the function of its result: the code awaits every call in
    sequence, and a rejected promise is a thrown exception.
  \<^item> The values returned by \<open>Math.random()\<close> are an argument of the function that reads them.
\<close>

datatype error = TypeError

subsection \<open>Numbers\<close>

datatype number = NaN | Num real | Infinity | NegInfinity

text \<open>The infinity of the sign of \<open>s\<close>; \<open>NaN\<close> when \<open>s\<close> is zero (\<open>0 * Infinity\<close>, \<open>0 / 0\<close>).\<close>

definition signedInfinity :: "real \<Rightarrow> number" where
  "signedInfinity s = (if 0 < s then Infinity else if s < 0 then NegInfinity else NaN)"

instantiation number :: "{uminus, plus, minus, times, inverse, ord}"
begin

definition uminus_number :: "number \<Rightarrow> number" where
  "uminus_number a =
     (case a of NaN \<Rightarrow> NaN | Num x \<Rightarrow> Num (- x) | Infinity \<Rightarrow> NegInfinity
      | NegInfinity \<Rightarrow> Infinity)"

definition plus_number :: "number \<Rightarrow> number \<Rightarrow> number" where
  "plus_number a b =
     (case a of
        NaN \<Rightarrow> NaN
      | Num x \<Rightarrow> (case b of Num y \<Rightarrow> Num (x + y) | other \<Rightarrow> other)
      | Infinity \<Rightarrow> (case b of NaN \<Rightarrow> NaN | NegInfinity \<Rightarrow> NaN | other \<Rightarrow> Infinity)
      | NegInfinity \<Rightarrow> (case b of NaN \<Rightarrow> NaN | Infinity \<Rightarrow> NaN | other \<Rightarrow> NegInfinity))"

definition minus_number :: "number \<Rightarrow> number \<Rightarrow> number" where
  "minus_number a b = a + (- b)"

definition times_number :: "number \<Rightarrow> number \<Rightarrow> number" where
  "times_number a b =
     (case a of
        NaN \<Rightarrow> NaN
      | Num x \<Rightarrow>
          (case b of NaN \<Rightarrow> NaN | Num y \<Rightarrow> Num (x * y) | Infinity \<Rightarrow> signedInfinity x
           | NegInfinity \<Rightarrow> signedInfinity (- x))
      | Infinity \<Rightarrow>
          (case b of NaN \<Rightarrow> NaN | Num y \<Rightarrow> signedInfinity y | Infinity \<Rightarrow> Infinity
           | NegInfinity \<Rightarrow> NegInfinity)
      | NegInfinity \<Rightarrow>
          (case b of NaN \<Rightarrow> NaN | Num y \<Rightarrow> signedInfinity (- y) | Infinity \<Rightarrow> NegInfinity
           | NegInfinity \<Rightarrow> Infinity))"

definition divide_number :: "number \<Rightarrow> number \<Rightarrow> number" where
  "divide_number a b =
     (case a of
        NaN \<Rightarrow> NaN
      | Num x \<Rightarrow>
          (case b of NaN \<Rightarrow> NaN | Num y \<Rightarrow> if y = 0 then signedInfinity x else Num (x / y)
           | other \<Rightarrow> Num 0)
      | Infinity \<Rightarrow>
          (case b of Num y \<Rightarrow> if y < 0 then NegInfinity else Infinity | other \<Rightarrow> NaN)
      | NegInfinity \<Rightarrow>
          (case b of Num y \<Rightarrow> if y < 0 then Infinity else NegInfinity | other \<Rightarrow> NaN))"

definition inverse_number :: "number \<Rightarrow> number" where
  "inverse_number a = divide (Num 1) a"

definition less_number :: "number \<Rightarrow> number \<Rightarrow> bool" where
  "less_number a b =
     (case a of
        NaN \<Rightarrow> False
      | Num x \<Rightarrow> (case b of Num y \<Rightarrow> x < y | Infinity \<Rightarrow> True | other \<Rightarrow> False)
      | Infinity \<Rightarrow> False
      | NegInfinity \<Rightarrow> (case b of Num y \<Rightarrow> True | Infinity \<Rightarrow> True | other \<Rightarrow> False))"

definition less_eq_number :: "number \<Rightarrow> number \<Rightarrow> bool" where
  "less_eq_number a b = (a < b \<or> a = b \<and> a \<noteq> NaN)"

instance ..

end

text \<open>\<open>a % b\<close>: the remainder has the sign of the dividend.\<close>

definition rem :: "number \<Rightarrow> number \<Rightarrow> number" where
  "rem a b =
     (case a of
        Num x \<Rightarrow>
          (case b of
             Num y \<Rightarrow>
               if y = 0 then NaN
               else Num (x - y * (if 0 \<le> x / y then real_of_int \<lfloor>x / y\<rfloor>
                                  else - real_of_int \<lfloor>- (x / y)\<rfloor>))
           | NaN \<Rightarrow> NaN
           | other \<Rightarrow> Num x)
      | other \<Rightarrow> NaN)"

text \<open>\<open>Math.floor\<close>, \<open>Math.round\<close>, \<open>Math.abs\<close>, \<open>Math.max\<close> and \<open>Math.min\<close> of numbers.\<close>

definition floor_num :: "number \<Rightarrow> number" where
  "floor_num a = (case a of Num x \<Rightarrow> Num (real_of_int \<lfloor>x\<rfloor>) | other \<Rightarrow> other)"

definition round_num :: "number \<Rightarrow> number" where
  "round_num a = (case a of Num x \<Rightarrow> Num (real_of_int \<lfloor>x + 1 / 2\<rfloor>) | other \<Rightarrow> other)"

definition abs_num :: "number \<Rightarrow> number" where
  "abs_num a = (case a of Num x \<Rightarrow> Num \<bar>x\<bar> | NegInfinity \<Rightarrow> Infinity | other \<Rightarrow> other)"

definition max_num :: "number \<Rightarrow> number \<Rightarrow> number" where
  "max_num a b = (if a = NaN \<or> b = NaN then NaN else if a < b then b else a)"

definition min_num :: "number \<Rightarrow> number \<Rightarrow> number" where
  "min_num a b = (if a = NaN \<or> b = NaN then NaN else if b < a then b else a)"

text \<open>\<open>Math.round\<close> of a finite number, as an integer.\<close>

definition Math_round :: "real \<Rightarrow> int" where
  "Math_round x = \<lfloor>x + 1 / 2\<rfloor>"

text \<open>A number as a condition, \<open>a === b\<close> on numbers, and an integer or a missing number read
  as a number.\<close>

definition truthy_num :: "number \<Rightarrow> bool" where
  "truthy_num a = (a \<noteq> NaN \<and> a \<noteq> Num 0)"

definition eq_num :: "number \<Rightarrow> number \<Rightarrow> bool" where
  "eq_num a b = (a = b \<and> a \<noteq> NaN)"

definition of_integer :: "int \<Rightarrow> number" where
  "of_integer i = Num (real_of_int i)"

definition of_optional :: "int option \<Rightarrow> number" where
  "of_optional i = (case i of None \<Rightarrow> NaN | Some n \<Rightarrow> of_integer n)"

subsection \<open>Strings\<close>

definition truthy :: "string option \<Rightarrow> bool" where
  "truthy s = (s \<noteq> None \<and> s \<noteq> Some [])"

text \<open>\<open>a || b\<close> on optional strings, and \<open>a || 'literal'\<close>.\<close>

definition or_else :: "string option \<Rightarrow> string option \<Rightarrow> string option" where
  "or_else a b = (if truthy a then a else b)"

definition or_default :: "string option \<Rightarrow> string \<Rightarrow> string" where
  "or_default a d = (case a of None \<Rightarrow> d | Some s \<Rightarrow> if s = [] then d else s)"

text \<open>
  \<open>s.toLowerCase()\<close>: among the characters of Latin-1 the capitals are \<open>A\<close> to \<open>Z\<close> and the
  accented capitals \<open>U+00C0\<close> to \<open>U+00DE\<close> without the multiplication sign \<open>U+00D7\<close>; the small
  letter of each lies 32 further.
\<close>

definition lowerChar :: "char \<Rightarrow> char" where
  "lowerChar c =
     (let n = (of_char c :: nat)
      in if 0x41 \<le> n \<and> n \<le> 0x5A \<or> 0xC0 \<le> n \<and> n \<le> 0xDE \<and> n \<noteq> 0xD7 then char_of (n + 32)
         else c)"

definition toLowerCase :: "string \<Rightarrow> string" where
  "toLowerCase s = map lowerChar s"

text \<open>\<open>s.split(':')\<close>.\<close>

fun split_colon :: "string \<Rightarrow> string list" where
  "split_colon [] = [[]]"
| "split_colon (c # cs) =
     (if c = CHR '':'' then [] # split_colon cs
      else (case split_colon cs of [] \<Rightarrow> [[c]] | p # ps \<Rightarrow> (c # p) # ps))"

definition padStart2 :: "string \<Rightarrow> string" where
  "padStart2 s = replicate (2 - length s) CHR ''0'' @ s"

text \<open>
  \<open>a.localeCompare(b)\<close> is the collation of the host, which ECMAScript leaves open. The model
  orders strings by code unit with the colon before the digits: on strings of digits and
  colons, as the times \<open>HH:MM\<close> are, this is the order of the root collation of Unicode
  (punctuation sorts before digits, a prefix before its extensions). On other strings a host
  may order differently from the model.
\<close>

definition collationKey :: "char \<Rightarrow> nat" where
  "collationKey c = (if c = CHR '':'' then 0 else Suc (of_char c))"

definition localeCompare :: "string \<Rightarrow> string \<Rightarrow> int" where
  "localeCompare a b =
     (if map collationKey a < map collationKey b then - 1
      else if map collationKey a = map collationKey b then 0 else 1)"

subsection \<open>Strings read as numbers\<close>

definition is_digit :: "char \<Rightarrow> bool" where
  "is_digit c = (c \<in> set ''0123456789'')"

text \<open>The value of a digit: its position in \<open>0123456789\<close>.\<close>

definition digit_val :: "char \<Rightarrow> nat" where
  "digit_val c = length (takeWhile (\<lambda>d. d \<noteq> c) ''0123456789'')"

definition digits_val :: "string \<Rightarrow> nat" where
  "digits_val s = foldl (\<lambda>a c. 10 * a + digit_val c) 0 s"

text \<open>The digits of a radix up to 16, in either case, and the value of a run of them.\<close>

definition radix_val :: "char \<Rightarrow> nat" where
  "radix_val c = length (takeWhile (\<lambda>d. d \<noteq> lowerChar c) ''0123456789abcdef'')"

definition is_radix_digit :: "nat \<Rightarrow> char \<Rightarrow> bool" where
  "is_radix_digit r c = (radix_val c < r)"

definition radix_digits_val :: "nat \<Rightarrow> string \<Rightarrow> nat" where
  "radix_digits_val r s = foldl (\<lambda>a c. r * a + radix_val c) 0 s"

text \<open>
  White space and line terminators (\<open>StrWhiteSpaceChar\<close>) among the characters of Latin-1:
  tab, line feed, vertical tab, form feed, carriage return, space and no-break space.
\<close>

definition isWhiteSpace :: "char \<Rightarrow> bool" where
  "isWhiteSpace c = (c \<in> set [CHR 0x09, CHR 0x0A, CHR 0x0B, CHR 0x0C, CHR 0x0D, CHR 0x20, CHR 0xA0])"

definition trimStart :: "string \<Rightarrow> string" where
  "trimStart s = dropWhile isWhiteSpace s"

definition trim :: "string \<Rightarrow> string" where
  "trim s = rev (dropWhile isWhiteSpace (rev (dropWhile isWhiteSpace s)))"

text \<open>
  The literals \<open>0x\<close>, \<open>0o\<close> and \<open>0b\<close> (\<open>NonDecimalIntegerLiteral\<close>): the radix prefix in either
  case, then at least one digit of the radix and nothing else.
\<close>

definition nonDecimalLiteral :: "string \<Rightarrow> nat option" where
  "nonDecimalLiteral s =
     (case s of
        z # p # ds \<Rightarrow>
          (let r = (if z \<noteq> CHR ''0'' then 0
                    else if p = CHR ''x'' \<or> p = CHR ''X'' then 16
                    else if p = CHR ''o'' \<or> p = CHR ''O'' then 8
                    else if p = CHR ''b'' \<or> p = CHR ''B'' then 2
                    else 0)
           in if r \<noteq> 0 \<and> ds \<noteq> [] \<and> list_all (is_radix_digit r) ds
              then Some (radix_digits_val r ds) else None)
      | other \<Rightarrow> None)"

text \<open>The exponent part \<open>e\<close>, \<open>e+\<close> or \<open>e-\<close> with at least one digit: the power of ten to
  multiply by, or \<open>None\<close> when the text is not an exponent part.\<close>

definition exponentPart :: "string \<Rightarrow> real option" where
  "exponentPart s =
     (case s of
        [] \<Rightarrow> None
      | e # rest \<Rightarrow>
          if e \<noteq> CHR ''e'' \<and> e \<noteq> CHR ''E'' then None
          else (let negative = (case rest of [] \<Rightarrow> False | sg # ds \<Rightarrow> sg = CHR ''-'');
                    ds = (case rest of
                            [] \<Rightarrow> []
                          | sg # ds' \<Rightarrow> if sg = CHR ''-'' \<or> sg = CHR ''+'' then ds' else rest)
                in if ds \<noteq> [] \<and> list_all is_digit ds
                   then Some (if negative then 1 / 10 ^ digits_val ds else 10 ^ digits_val ds)
                   else None))"

text \<open>
  An unsigned decimal literal other than \<open>Infinity\<close>: digits with an optional fraction, or a
  fraction alone, then an optional exponent part.
\<close>

definition unsignedDecimal :: "string \<Rightarrow> real option" where
  "unsignedDecimal s =
     (let ip = takeWhile is_digit s;
          afterInt = dropWhile is_digit s;
          hasPoint = (case afterInt of [] \<Rightarrow> False | c # cs \<Rightarrow> c = CHR ''.'');
          fp = (if hasPoint then takeWhile is_digit (tl afterInt) else []);
          afterFraction = (if hasPoint then dropWhile is_digit (tl afterInt) else afterInt);
          mantissa = real (digits_val ip) + real (digits_val fp) / 10 ^ length fp
      in if ip = [] \<and> fp = [] then None
         else if afterFraction = [] then Some mantissa
         else (case exponentPart afterFraction of
                 None \<Rightarrow> None
               | Some p \<Rightarrow> Some (mantissa * p)))"

text \<open>
  \<open>Number(s)\<close> on a string (\<open>StringToNumber\<close>): the text without the white space around it;
  the empty text is 0; a literal with a radix prefix; otherwise an optional sign and
  \<open>Infinity\<close> or a decimal literal; any other text is \<open>NaN\<close>.
\<close>

definition Number :: "string \<Rightarrow> number" where
  "Number s =
     (let t = trim s
      in if t = [] then Num 0
         else case nonDecimalLiteral t of
                Some n \<Rightarrow> Num (real n)
              | None \<Rightarrow>
                  (let negative = (hd t = CHR ''-'');
                       body = (if hd t = CHR ''-'' \<or> hd t = CHR ''+'' then tl t else t)
                   in if body = ''Infinity'' then (if negative then NegInfinity else Infinity)
                      else case unsignedDecimal body of
                             None \<Rightarrow> NaN
                           | Some x \<Rightarrow> Num (if negative then - x else x)))"

text \<open>
  \<open>parseInt(s)\<close> without a radix: leading white space is skipped, then an optional sign, then
  the longest run of decimal digits, or of hexadecimal digits after \<open>0x\<close>; \<open>NaN\<close> when the
  run is empty.
\<close>

definition parseInt :: "string \<Rightarrow> number" where
  "parseInt s =
     (let t = trimStart s;
          negative = (case t of [] \<Rightarrow> False | c # cs \<Rightarrow> c = CHR ''-'');
          u = (case t of [] \<Rightarrow> [] | c # cs \<Rightarrow> if c = CHR ''-'' \<or> c = CHR ''+'' then cs else t);
          hex = (case u of z # p # ds \<Rightarrow> z = CHR ''0'' \<and> (p = CHR ''x'' \<or> p = CHR ''X'')
                 | other \<Rightarrow> False);
          r = (if hex then 16 else 10);
          z = takeWhile (is_radix_digit r) (if hex then drop 2 u else u)
      in if z = [] then NaN
         else Num (if negative then - real (radix_digits_val r z) else real (radix_digits_val r z)))"

text \<open>\<open>const [hours, minutes] = timeStr.split(':').map(Number); hours * 60 + minutes\<close>: the
  second part is \<open>undefined\<close> when the text has no colon, and the sum is \<open>NaN\<close> then.\<close>

definition hoursMinutes :: "string \<Rightarrow> number" where
  "hoursMinutes timeStr =
     (case split_colon timeStr of
        hours # minutes # rest \<Rightarrow> Number hours * Num 60 + Number minutes
      | other \<Rightarrow> NaN)"

subsection \<open>Numbers written as strings\<close>

fun digits :: "nat \<Rightarrow> string" where
  "digits n =
     (if n < 10 then [''0123456789'' ! n] else digits (n div 10) @ [''0123456789'' ! (n mod 10)])"

declare digits.simps [simp del]

text \<open>
  The decimal exponent \<open>n\<close> of a positive number \<open>x\<close>, with \<open>10 ^ (n - 1) \<le> x < 10 ^ n\<close>, read
  off the number of digits of the integer part of \<open>x\<close> or of \<open>1 / x\<close>.
\<close>

definition power10 :: "int \<Rightarrow> real" where
  "power10 n = (if 0 \<le> n then 10 ^ nat n else 1 / 10 ^ nat (- n))"

definition decimalExponent :: "real \<Rightarrow> int" where
  "decimalExponent x =
     (if 1 \<le> x then int (length (digits (nat \<lfloor>x\<rfloor>)))
      else (let j = int (length (digits (nat \<lfloor>1 / x\<rfloor>)))
            in if x = power10 (1 - j) then 2 - j else 1 - j))"

fun dropZeros :: "nat \<Rightarrow> nat \<Rightarrow> nat" where
  "dropZeros 0 s = s"
| "dropZeros (Suc fuel) s = (if s \<noteq> 0 \<and> s mod 10 = 0 then dropZeros fuel (s div 10) else s)"

text \<open>
  The text of a positive number that is not an integer below \<open>10 ^ 21\<close>
  (\<open>Number::toString\<close>): with \<open>s\<close> the significant digits of the number, \<open>k\<close> their count and
  \<open>n\<close> the decimal exponent, the digits with the point after the first \<open>n\<close> of them when
  \<open>0 < n \<le> 21\<close>, \<open>0.\<close> and zeros before them when \<open>-6 < n \<le> 0\<close>, and the exponent notation
  otherwise. The model takes the digits of the number rounded to 17 significant digits,
  which are its own digits when it has at most 17.
\<close>

definition decimalString :: "real \<Rightarrow> string" where
  "decimalString x =
     (let n0 = decimalExponent x;
          m = nat \<lfloor>x * power10 (17 - n0) + 1 / 2\<rfloor>;
          n = (if m = 10 ^ 17 then n0 + 1 else n0);
          ds = digits (dropZeros 17 m);
          k = int (length ds);
          e = n - 1
      in if k \<le> n \<and> n \<le> 21 then ds @ replicate (nat (n - k)) CHR ''0''
         else if 0 < n \<and> n \<le> 21 then take (nat n) ds @ ''.'' @ drop (nat n) ds
         else if - 6 < n \<and> n \<le> 0 then ''0.'' @ replicate (nat (- n)) CHR ''0'' @ ds
         else (if k = 1 then ds else take 1 ds @ ''.'' @ drop 1 ds) @ ''e'' @
              (if 0 \<le> e then ''+'' else ''-'') @ digits (nat \<bar>e\<bar>))"

text \<open>\<open>String(n)\<close> and \<open>n.toString()\<close>.\<close>

definition String :: "number \<Rightarrow> string" where
  "String a =
     (case a of
        NaN \<Rightarrow> ''NaN''
      | Infinity \<Rightarrow> ''Infinity''
      | NegInfinity \<Rightarrow> ''-Infinity''
      | Num x \<Rightarrow>
          if x = real_of_int \<lfloor>x\<rfloor> \<and> \<bar>x\<bar> < 10 ^ 21
          then (if x < 0 then CHR ''-'' # digits (nat (- \<lfloor>x\<rfloor>)) else digits (nat \<lfloor>x\<rfloor>))
          else if x < 0 then CHR ''-'' # decimalString (- x)
          else decimalString x)"

subsection \<open>Object literals indexed by a computed key\<close>

text \<open>
  The built-in objects that such a lookup can reach, as ECMAScript defines them (with its
  Annex B): the constructors \<open>Object\<close> and \<open>Function\<close>, their prototypes, and the built-in
  functions, each with its name and its \<open>length\<close>.
\<close>

datatype builtin =
  ObjectConstructor | FunctionConstructor | ObjectPrototype | FunctionPrototype
  | BuiltinFunction string nat

datatype jsvalue = Undefined | Null | Numeric number | Text string | Builtin builtin

definition builtinMethod :: "string \<times> nat \<Rightarrow> string \<times> jsvalue" where
  "builtinMethod m = (fst m, Builtin (BuiltinFunction (fst m) (snd m)))"

text \<open>The members of \<open>Object.prototype\<close> other than the accessor \<open>__proto__\<close>.\<close>

definition objectPrototypeMembers :: "(string \<times> jsvalue) list" where
  "objectPrototypeMembers =
     (''constructor'', Builtin ObjectConstructor) #
     map builtinMethod
       [(''hasOwnProperty'', 1), (''isPrototypeOf'', 1), (''propertyIsEnumerable'', 1),
        (''toLocaleString'', 0), (''toString'', 0), (''valueOf'', 0),
        (''__defineGetter__'', 2), (''__defineSetter__'', 2),
        (''__lookupGetter__'', 1), (''__lookupSetter__'', 1)]"

text \<open>The members of \<open>Function.prototype\<close> other than the accessors \<open>caller\<close> and
  \<open>arguments\<close>, whose getter throws.\<close>

definition functionPrototypeMembers :: "(string \<times> jsvalue) list" where
  "functionPrototypeMembers =
     [(''length'', Numeric (Num 0)), (''name'', Text []),
      (''constructor'', Builtin FunctionConstructor)] @
     map builtinMethod [(''apply'', 2), (''bind'', 1), (''call'', 1), (''toString'', 0)]"

text \<open>The function properties of the constructor \<open>Object\<close>.\<close>

definition objectConstructorMethods :: "(string \<times> nat) list" where
  "objectConstructorMethods =
     [(''assign'', 2), (''create'', 2), (''defineProperties'', 2), (''defineProperty'', 3),
      (''entries'', 1), (''freeze'', 1), (''fromEntries'', 1),
      (''getOwnPropertyDescriptor'', 2), (''getOwnPropertyDescriptors'', 1),
      (''getOwnPropertyNames'', 1), (''getOwnPropertySymbols'', 1), (''getPrototypeOf'', 1),
      (''groupBy'', 2), (''hasOwn'', 2), (''is'', 2), (''isExtensible'', 1), (''isFrozen'', 1),
      (''isSealed'', 1), (''keys'', 1), (''preventExtensions'', 1), (''seal'', 1),
      (''setPrototypeOf'', 2), (''values'', 1)]"

definition ownProperties :: "builtin \<Rightarrow> (string \<times> jsvalue) list" where
  "ownProperties b =
     (case b of
        ObjectConstructor \<Rightarrow>
          [(''length'', Numeric (Num 1)), (''name'', Text ''Object''),
           (''prototype'', Builtin ObjectPrototype)] @ map builtinMethod objectConstructorMethods
      | FunctionConstructor \<Rightarrow>
          [(''length'', Numeric (Num 1)), (''name'', Text ''Function''),
           (''prototype'', Builtin FunctionPrototype)]
      | ObjectPrototype \<Rightarrow> objectPrototypeMembers
      | FunctionPrototype \<Rightarrow> functionPrototypeMembers
      | BuiltinFunction name len \<Rightarrow> [(''length'', Numeric (Num (real len))), (''name'', Text name)])"

text \<open>The prototype of a built-in object, which is what its \<open>__proto__\<close> reads.\<close>

definition prototypeOf :: "builtin \<Rightarrow> jsvalue" where
  "prototypeOf b =
     (case b of
        ObjectPrototype \<Rightarrow> Null
      | FunctionPrototype \<Rightarrow> Builtin ObjectPrototype
      | other \<Rightarrow> Builtin FunctionPrototype)"

text \<open>
  \<open>b[key]\<close> on a built-in object: its own property, or the one found along its prototype
  chain, which for a function passes \<open>Function.prototype\<close> and ends at \<open>Object.prototype\<close>.
\<close>

definition builtinGet :: "builtin \<Rightarrow> string \<Rightarrow> error + jsvalue" where
  "builtinGet b key =
     (case map_of (ownProperties b) key of
        Some v \<Rightarrow> Inr v
      | None \<Rightarrow>
          if b \<noteq> ObjectPrototype \<and> (key = ''caller'' \<or> key = ''arguments'') then Inl TypeError
          else case (if b = ObjectPrototype then None else map_of functionPrototypeMembers key) of
                 Some v \<Rightarrow> Inr v
               | None \<Rightarrow>
                   if key = ''__proto__'' then Inr (prototypeOf b)
                   else (case map_of objectPrototypeMembers key of
                           Some v \<Rightarrow> Inr v
                         | None \<Rightarrow> Inr Undefined))"

text \<open>A missing key is the property name \<open>undefined\<close> (or \<open>null\<close>), which no object here has.\<close>

definition propertyKey :: "string option \<Rightarrow> string" where
  "propertyKey k = (case k of None \<Rightarrow> ''undefined'' | Some s \<Rightarrow> s)"

text \<open>
  \<open>table[key]\<close> on an object literal: an own property, a member inherited from
  \<open>Object.prototype\<close> (which is also what \<open>__proto__\<close> reads), or \<open>undefined\<close>.
\<close>

datatype 'a property = Own 'a | Inherited builtin | Missing

definition literalGet :: "(string \<times> 'a) list \<Rightarrow> string option \<Rightarrow> 'a property" where
  "literalGet table k =
     (case map_of table (propertyKey k) of
        Some v \<Rightarrow> Own v
      | None \<Rightarrow>
          if propertyKey k = ''__proto__'' then Inherited ObjectPrototype
          else (case map_of objectPrototypeMembers (propertyKey k) of
                  Some (Builtin b) \<Rightarrow> Inherited b
                | other \<Rightarrow> Missing))"

definition propertyValue :: "real property \<Rightarrow> jsvalue" where
  "propertyValue p =
     (case p of Own x \<Rightarrow> Numeric (Num x) | Inherited b \<Rightarrow> Builtin b | Missing \<Rightarrow> Undefined)"

text \<open>\<open>table[key1]?.[key2]\<close> on a literal of literals.\<close>

definition nestedGet ::
  "(string \<times> (string \<times> real) list) list \<Rightarrow> string option \<Rightarrow> string option \<Rightarrow> error + jsvalue" where
  "nestedGet table k1 k2 =
     (case literalGet table k1 of
        Own row \<Rightarrow> Inr (propertyValue (literalGet row k2))
      | Inherited b \<Rightarrow> builtinGet b (propertyKey k2)
      | Missing \<Rightarrow> Inr Undefined)"

text \<open>A value as a condition, \<open>v || d\<close> for a number \<open>d\<close>, and a value read as a number: an
  object or a function is \<open>NaN\<close>, a string is read by \<open>Number\<close>.\<close>

definition truthy_value :: "jsvalue \<Rightarrow> bool" where
  "truthy_value v =
     (case v of Undefined \<Rightarrow> False | Null \<Rightarrow> False | Numeric a \<Rightarrow> truthy_num a
      | Text s \<Rightarrow> s \<noteq> [] | Builtin b \<Rightarrow> True)"

definition or_number :: "jsvalue \<Rightarrow> real \<Rightarrow> jsvalue" where
  "or_number v d = (if truthy_value v then v else Numeric (Num d))"

definition toNumber :: "jsvalue \<Rightarrow> number" where
  "toNumber v =
     (case v of Undefined \<Rightarrow> NaN | Null \<Rightarrow> Num 0 | Numeric a \<Rightarrow> a | Text s \<Rightarrow> Number s
      | Builtin b \<Rightarrow> NaN)"

subsection \<open>Sorting and sequencing\<close>

text \<open>
  \<open>xs.sort(cmp)\<close>: a result of the comparator that is \<open>NaN\<close> counts as 0. The sort of
  JavaScript is stable, so for a comparator that is a consistent order the result is the
  one of insertion sort, an element staying before the later ones it compares equal to.
  For a comparator that is not a consistent order ECMAScript leaves the order to the
  implementation; the model keeps the insertion sort, and the properties proved for every
  input use only that the result is a permutation.
\<close>

fun insert_by :: "('a \<Rightarrow> 'a \<Rightarrow> number) \<Rightarrow> 'a \<Rightarrow> 'a list \<Rightarrow> 'a list" where
  "insert_by cmp x [] = [x]"
| "insert_by cmp x (y # ys) = (if Num 0 < cmp x y then y # insert_by cmp x ys else x # y # ys)"

definition sort_by :: "('a \<Rightarrow> 'a \<Rightarrow> number) \<Rightarrow> 'a list \<Rightarrow> 'a list" where
  "sort_by cmp xs = foldr (insert_by cmp) xs []"

text \<open>Sequencing of steps that may throw, and a loop that pushes the items of each round.\<close>

definition bind :: "error + 'a \<Rightarrow> ('a \<Rightarrow> error + 'b) \<Rightarrow> error + 'b" where
  "bind m f = (case m of Inl e \<Rightarrow> Inl e | Inr x \<Rightarrow> f x)"

fun collect :: "('a \<Rightarrow> error + 'b list) \<Rightarrow> 'a list \<Rightarrow> error + 'b list" where
  "collect f [] = Inr []"
| "collect f (x # xs) = bind (f x) (\<lambda>ys. bind (collect f xs) (\<lambda>zs. Inr (ys @ zs)))"

section \<open>Data model\<close>

text \<open>
  A trip (a course) and a vehicle, with the properties the code reads. A property that is
  optional in the data is an \<open>option\<close>, and \<open>None\<close> is the missing property (where the code
  itself stores \<open>null\<close> in a property, \<open>None\<close> stands for that too; the code tests such a
  property for truth only). Identifiers and durations are integers.
\<close>

record trip =
  trip_id :: int
  patient :: "string option"
  pickup :: "string option"
  destination :: "string option"
  pickupTime :: "string option"
  trip_time :: "string option"
  appointmentTime :: "string option"
  duration :: "int option"
  returnTime :: "string option"
  isReturnTrip :: bool
  originalCourseId :: "int option"
  vehicleType :: "string option"
  priority :: "string option"
  trip_status :: "string option"
  coordinates :: "real list option"
  destinationCoords :: "real list option"
  exitTime :: "string option"
  earliestPickupTime :: "string option"
  maxWaitTime :: "int option"
  estimatedDuration :: "number option"

record vehicle =
  vehicle_id :: int
  vehicle_name :: "string option"
  vehicle_type :: "string option"
  vehicle_status :: "string option"
  currentLocation :: "string option"
  vehicle_trips :: "trip list option"

text \<open>\<open>vehicle.trips || []\<close>.\<close>

definition tripsOf :: "vehicle \<Rightarrow> trip list" where
  "tripsOf v = (case vehicle_trips v of None \<Rightarrow> [] | Some ts \<Rightarrow> ts)"

record conflict =
  conflict_type :: string
  conflictingTrip :: trip
  timeDifference :: number
  severity :: string

text \<open>
  The details of a score. The two sub-scores read from a table are values: a number of the
  table, or whatever the lookup found.
\<close>

record details =
  vehicleTypeScore :: jsvalue
  timeSlotScore :: int
  distanceScore :: int
  priorityScore :: jsvalue
  distanceToPickup :: real
  tripDistance :: real
  totalDistance :: real
  timeToPickup :: int
  tripDuration :: int
  totalTime :: int
  estimatedArrival :: "string option"
  fuelCost :: real
  conflicts :: "conflict list"

text \<open>The \<open>details\<close> of a score: the full record, or \<open>{ error: text }\<close>, where the text is a
  literal of the code or the message of the exception caught.\<close>

datatype error_text = Literal string | MessageOf error

datatype score_details = Details details | ErrorDetails error_text

record optimization =
  score :: number
  opt_details :: score_details
  originalScore :: "number option"

section \<open>Scoring model (routeOptimization.js)\<close>

record point =
  lat :: real
  lng :: real

text \<open>\<open>Math.atan2\<close> on the reals.\<close>

definition atan2 :: "real \<Rightarrow> real \<Rightarrow> real" where
  "atan2 y x =
     (if 0 < x then arctan (y / x)
      else if x < 0 \<and> 0 \<le> y then arctan (y / x) + pi
      else if x < 0 then arctan (y / x) - pi
      else if 0 < y then pi / 2
      else if y < 0 then - pi / 2
      else 0)"

definition calculateDistance :: "point \<Rightarrow> point \<Rightarrow> real" where
  "calculateDistance point1 point2 =
     (let R = 6371;
          dLat = (lat point2 - lat point1) * pi / 180;
          dLng = (lng point2 - lng point1) * pi / 180;
          a = sin (dLat / 2) * sin (dLat / 2) +
              cos (lat point1 * pi / 180) * cos (lat point2 * pi / 180) *
              sin (dLng / 2) * sin (dLng / 2);
          c = 2 * atan2 (sqrt a) (sqrt (1 - a))
      in R * c)"

text \<open>\<open>estimateTravelTime(distance, timeOfDay)\<close>, with the road type \<open>mixed\<close> of its default;
  the time of day is one of the four keys, computed by \<open>getTimeOfDay\<close>.\<close>

definition estimateTravelTime :: "real \<Rightarrow> string \<Rightarrow> int" where
  "estimateTravelTime distance timeOfDay =
     (let trafficMultiplier =
            [(''morning'', 13 / 10), (''afternoon'', 1), (''evening'', 14 / 10), (''night'', 8 / 10)];
          speed = 40 * (case map_of trafficMultiplier timeOfDay of None \<Rightarrow> 1 | Some m \<Rightarrow> m);
          timeInHours = distance / speed
      in Math_round (timeInHours * 60))"

definition hyeres :: string where
  "hyeres = ''hy'' @ [CHR 0xE8] @ ''res''"

definition mockCoordinates :: "(string \<times> point) list" where
  "mockCoordinates =
    [(hyeres, \<lparr>lat = 43.1205, lng = 6.1286\<rparr>),
     (''toulon'', \<lparr>lat = 43.1242, lng = 5.9282\<rparr>),
     (''la seyne-sur-mer'', \<lparr>lat = 43.1042, lng = 5.8785\<rparr>),
     (''six-fours-les-plages'', \<lparr>lat = 43.0939, lng = 5.8372\<rparr>),
     (''ollioules'', \<lparr>lat = 43.1395, lng = 5.8475\<rparr>),
     (''sanary-sur-mer'', \<lparr>lat = 43.1196, lng = 5.7998\<rparr>),
     (''bandol'', \<lparr>lat = 43.1356, lng = 5.7531\<rparr>),
     (''le pradet'', \<lparr>lat = 43.0817, lng = 6.0269\<rparr>),
     (''carqueiranne'', \<lparr>lat = 43.0947, lng = 6.0783\<rparr>),
     (''carpentras'', \<lparr>lat = 44.0550, lng = 5.0481\<rparr>),
     (''carpentras centre'', \<lparr>lat = 44.0550, lng = 5.0481\<rparr>),
     (''avignon'', \<lparr>lat = 43.9493, lng = 4.8055\<rparr>),
     (''avignon centre'', \<lparr>lat = 43.9493, lng = 4.8055\<rparr>),
     (''monteux'', \<lparr>lat = 44.0333, lng = 5.0067\<rparr>),
     (''pernes-les-fontaines'', \<lparr>lat = 44.0061, lng = 5.0572\<rparr>),
     (''l'' @ [CHR 0x27] @ ''isle-sur-la-sorgue'', \<lparr>lat = 43.9186, lng = 5.0506\<rparr>),
     (''ved'' @ [CHR 0xE8] @ ''ne'', \<lparr>lat = 44.0000, lng = 4.9000\<rparr>),
     (''sarrians'', \<lparr>lat = 44.0833, lng = 4.9667\<rparr>),
     (''aubignan'', \<lparr>lat = 44.0833, lng = 5.0333\<rparr>),
     (''saint-didier'', \<lparr>lat = 44.0167, lng = 5.1000\<rparr>),
     (''mazan'', \<lparr>lat = 44.0667, lng = 5.1167\<rparr>),
     (''mormoiron'', \<lparr>lat = 44.0667, lng = 5.1833\<rparr>),
     (''entraigues-sur-la-sorgue'', \<lparr>lat = 44.0000, lng = 4.9167\<rparr>),
     (''sorgues'', \<lparr>lat = 44.0167, lng = 4.8667\<rparr>),
     (''le thor'', \<lparr>lat = 43.9333, lng = 5.0000\<rparr>),
     (''ch'' @ [CHR 0xE2] @ ''teauneuf-du-pape'', \<lparr>lat = 44.0556, lng = 4.8306\<rparr>),
     (''h'' @ [CHR 0xF4] @ ''pital'', \<lparr>lat = 43.9493, lng = 4.8055\<rparr>),
     (''chu'', \<lparr>lat = 43.9493, lng = 4.8055\<rparr>),
     (''clinique'', \<lparr>lat = 43.9493, lng = 4.8055\<rparr>),
     (''ehpad'', \<lparr>lat = 43.9493, lng = 4.8055\<rparr>),
     (''centre hospitalier'', \<lparr>lat = 43.9493, lng = 4.8055\<rparr>),
     (''polyclinique'', \<lparr>lat = 43.9493, lng = 4.8055\<rparr>),
     (''default'', \<lparr>lat = 43.1205, lng = 6.1286\<rparr>)]"

text \<open>
  \<open>geocodeAddress(address)\<close>: \<open>address.toLowerCase()\<close> throws on a missing address; otherwise
  the first key of the table that the address includes, or the default entry.
\<close>

definition geocodeAddress :: "string option \<Rightarrow> error + point" where
  "geocodeAddress address =
     (case address of
        None \<Rightarrow> Inl TypeError
      | Some a \<Rightarrow>
          (let normalizedAddress = toLowerCase a
           in case find (\<lambda>key. sublist key normalizedAddress) (map fst mockCoordinates) of
                None \<Rightarrow> Inr \<lparr>lat = 43.1205, lng = 6.1286\<rparr>
              | Some key \<Rightarrow>
                  (case map_of mockCoordinates key of
                     None \<Rightarrow> Inr \<lparr>lat = 43.1205, lng = 6.1286\<rparr>
                   | Some p \<Rightarrow> Inr p)))"

definition compatibility :: "(string \<times> (string \<times> real) list) list" where
  "compatibility =
    [(''Ambulance'', [(''VSL'', 60), (''Taxi'', 20)]),
     (''VSL'', [(''Ambulance'', 90), (''Taxi'', 70)]),
     (''Taxi'', [(''Ambulance'', 85), (''VSL'', 80)])]"

text \<open>\<open>compatibility[requiredType]?.[vehicleType] || 30\<close> after the test for equal types.\<close>

definition getVehicleTypeScore :: "string option \<Rightarrow> string option \<Rightarrow> error + jsvalue" where
  "getVehicleTypeScore requiredType vType =
     (if requiredType = vType then Inr (Numeric (Num 100))
      else bind (nestedGet compatibility requiredType vType) (\<lambda>found. Inr (or_number found 30)))"

definition priorityScores :: "(string \<times> real) list" where
  "priorityScores = [(''urgent'', 100), (''high'', 85), (''normal'', 60), (''low'', 40)]"

text \<open>\<open>priorityScores[priority] || 60\<close>.\<close>

definition getPriorityScore :: "string option \<Rightarrow> jsvalue" where
  "getPriorityScore p = or_number (propertyValue (literalGet priorityScores p)) 60"

definition calculateDistanceScore :: "real \<Rightarrow> int" where
  "calculateDistanceScore km =
     (if km \<le> 10 then 100
      else if km \<le> 20 then 80
      else if km \<le> 40 then 60
      else if km \<le> 60 then 40
      else 20)"

definition convertTimeToMinutes :: "string \<Rightarrow> number" where
  "convertTimeToMinutes timeStr = (if timeStr = [] then Num 540 else hoursMinutes timeStr)"

text \<open>\<open>trip.pickupTime || trip.time || '09:00'\<close>.\<close>

definition tripTime :: "trip \<Rightarrow> string" where
  "tripTime t = or_default (or_else (pickupTime t) (trip_time t)) ''09:00''"

text \<open>\<open>Math.abs(tripMinutes - existingMinutes)\<close> for a trip and an existing trip.\<close>

definition timeDiff :: "trip \<Rightarrow> trip \<Rightarrow> number" where
  "timeDiff t existingTrip =
     abs_num (convertTimeToMinutes (tripTime t) - convertTimeToMinutes (tripTime existingTrip))"

definition calculateTimeSlotScore :: "trip \<Rightarrow> vehicle \<Rightarrow> trip list \<Rightarrow> int" where
  "calculateTimeSlotScore t v existingTrips =
     (let cs = filter (\<lambda>existingTrip. timeDiff t existingTrip < Num 30) existingTrips
      in if length cs = 0 then 100
         else if length cs = 1 then 60
         else if length cs = 2 then 30
         else 10)"

definition detectConflicts :: "trip \<Rightarrow> trip list \<Rightarrow> conflict list" where
  "detectConflicts t existingTrips =
     concat (map (\<lambda>existingTrip.
       if timeDiff t existingTrip < Num 30
       then [\<lparr>conflict_type = ''time_overlap'', conflictingTrip = existingTrip,
              timeDifference = timeDiff t existingTrip,
              severity = (if timeDiff t existingTrip < Num 15 then ''high'' else ''medium'')\<rparr>]
       else []) existingTrips)"

text \<open>\<open>calculateEstimatedArrival\<close>: \<open>null\<close> for an empty start time.\<close>

definition calculateEstimatedArrival :: "string \<Rightarrow> int \<Rightarrow> string option" where
  "calculateEstimatedArrival startTime travelMinutes =
     (if startTime = [] then None
      else (let startMinutes = convertTimeToMinutes startTime;
                arrivalMinutes = startMinutes + of_integer travelMinutes;
                hours = rem (floor_num (arrivalMinutes / Num 60)) (Num 24);
                minutes = rem arrivalMinutes (Num 60)
            in Some (padStart2 (String hours) @ '':'' @ padStart2 (String minutes))))"

definition calculateFuelCost :: "real \<Rightarrow> real" where
  "calculateFuelCost distance = real_of_int (Math_round (distance * (15 / 100) * 100)) / 100"

definition getTimeOfDay :: "string \<Rightarrow> string" where
  "getTimeOfDay timeStr =
     (let hour = parseInt (case split_colon timeStr of [] \<Rightarrow> [] | h # rest \<Rightarrow> h)
      in if Num 7 \<le> hour \<and> hour < Num 9 then ''morning''
         else if Num 9 \<le> hour \<and> hour < Num 17 then ''afternoon''
         else if Num 17 \<le> hour \<and> hour < Num 20 then ''evening''
         else ''night'')"

text \<open>The weighted sum of the four sub-scores; a sub-score that is not a number is read as
  one by the multiplication.\<close>

definition finalScore :: "jsvalue \<Rightarrow> int \<Rightarrow> int \<Rightarrow> jsvalue \<Rightarrow> number" where
  "finalScore vts tss ds ps =
     toNumber vts * Num (3 / 10) + of_integer tss * Num (25 / 100) + of_integer ds * Num (25 / 100) +
     toNumber ps * Num (2 / 10)"

text \<open>The body of the \<open>try\<close> block of \<open>calculateOptimizationScore\<close>.\<close>

definition scoreAttempt :: "trip \<Rightarrow> vehicle \<Rightarrow> trip list \<Rightarrow> error + optimization" where
  "scoreAttempt t v existingTrips =
     bind (geocodeAddress (pickup t)) (\<lambda>pickupPt.
     bind (geocodeAddress (destination t)) (\<lambda>destinationPt.
     bind (geocodeAddress (Some (or_default (currentLocation v) hyeres))) (\<lambda>vehiclePt.
     bind (getVehicleTypeScore (vehicleType t) (vehicle_type v)) (\<lambda>vehicleTypeScore'.
      (let distanceToPickup' = calculateDistance vehiclePt pickupPt;
           tripDistance' = calculateDistance pickupPt destinationPt;
           totalDistance' = distanceToPickup' + tripDistance';
           tt = tripTime t;
           timeToPickup' = estimateTravelTime distanceToPickup' (getTimeOfDay tt);
           tripDuration' = estimateTravelTime tripDistance' (getTimeOfDay tt);
           totalTime' = timeToPickup' + tripDuration';
           timeSlotScore' = calculateTimeSlotScore t v existingTrips;
           distanceScore' = calculateDistanceScore totalDistance';
           priorityScore' = getPriorityScore (priority t)
       in Inr \<lparr>score = round_num
                    (finalScore vehicleTypeScore' timeSlotScore' distanceScore' priorityScore'),
               opt_details = Details
                 \<lparr>vehicleTypeScore = vehicleTypeScore',
                  timeSlotScore = timeSlotScore',
                  distanceScore = distanceScore',
                  priorityScore = priorityScore',
                  distanceToPickup = real_of_int (Math_round (distanceToPickup' * 10)) / 10,
                  tripDistance = real_of_int (Math_round (tripDistance' * 10)) / 10,
                  totalDistance = real_of_int (Math_round (totalDistance' * 10)) / 10,
                  timeToPickup = timeToPickup',
                  tripDuration = tripDuration',
                  totalTime = totalTime',
                  estimatedArrival = calculateEstimatedArrival tt timeToPickup',
                  fuelCost = calculateFuelCost totalDistance',
                  conflicts = detectConflicts t existingTrips\<rparr>,
               originalScore = None\<rparr>)))))"

text \<open>\<open>calculateOptimizationScore\<close>: the \<open>catch\<close> block turns any exception of the body into
  the score 0 with an error text.\<close>

definition calculateOptimizationScore :: "trip \<Rightarrow> vehicle \<Rightarrow> trip list \<Rightarrow> optimization" where
  "calculateOptimizationScore t v existingTrips =
     (case scoreAttempt t v existingTrips of
        Inr r \<Rightarrow> r
      | Inl e \<Rightarrow> \<lparr>score = Num 0,
                  opt_details = ErrorDetails (Literal ''Failed to calculate route optimization''),
                  originalScore = None\<rparr>)"

section \<open>Single-trip assignment (routeOptimization.js)\<close>

definition crossTypeCompatibility :: "(string \<times> (string \<times> real) list) list" where
  "crossTypeCompatibility =
    [(''Ambulance'', [(''VSL'', 8 / 10), (''Taxi'', 4 / 10)]),
     (''VSL'', [(''Ambulance'', 9 / 10), (''Taxi'', 7 / 10)]),
     (''Taxi'', [(''Ambulance'', 6 / 10), (''VSL'', 8 / 10)])]"

text \<open>\<open>crossTypeCompatibility[trip.vehicleType]?.[vehicle.type] || 0.3\<close>.\<close>

definition crossTypeFactor :: "string option \<Rightarrow> string option \<Rightarrow> error + jsvalue" where
  "crossTypeFactor requiredType vType =
     bind (nestedGet crossTypeCompatibility requiredType vType) (\<lambda>found.
       Inr (or_number found (3 / 10)))"

definition calculateEnhancedCompatibilityScore :: "trip \<Rightarrow> vehicle \<Rightarrow> number \<Rightarrow> error + number" where
  "calculateEnhancedCompatibilityScore t v baseScore =
     (let s1 = (if vehicleType t = vehicle_type v then baseScore + Num 10 else baseScore)
      in bind (if vehicleType t \<noteq> vehicle_type v
               then bind (crossTypeFactor (vehicleType t) (vehicle_type v)) (\<lambda>compat.
                      Inr (max_num (s1 * toNumber compat) (Num 20)))
               else Inr s1) (\<lambda>s2.
           (let s3 = (if priority t = Some ''urgent'' then s2 + Num 15
                      else if priority t = Some ''high'' then s2 + Num 8 else s2);
                s4 = (if vehicle_status v = Some ''busy'' then max_num (s3 * Num (8 / 10)) (Num 25)
                      else s3);
                s5 = (if vehicle_status v = Some ''available'' then max_num s4 (Num 15) else s4)
            in Inr (round_num s5))))"

record compat_details =
  exactTypeMatch :: bool
  typeCompatibility :: jsvalue
  priorityBoost :: int
  statusPenalty :: int
  availabilityBonus :: int

definition getCompatibilityDetails :: "trip \<Rightarrow> vehicle \<Rightarrow> error + compat_details" where
  "getCompatibilityDetails t v =
     bind (getVehicleTypeScore (vehicleType t) (vehicle_type v)) (\<lambda>typeScore.
       Inr \<lparr>exactTypeMatch = (vehicleType t = vehicle_type v),
            typeCompatibility = typeScore,
            priorityBoost = (if priority t = Some ''urgent'' then 15
                             else if priority t = Some ''high'' then 8 else 0),
            statusPenalty = (if vehicle_status v = Some ''busy'' then 20 else 0),
            availabilityBonus = (if vehicle_status v = Some ''available'' then 10 else 0)\<rparr>)"

record evaluation =
  ev_vehicle :: vehicle
  ev_optimization :: optimization
  isAvailable :: bool
  isBusy :: bool
  compatibilityDetails :: "compat_details option"
  hasError :: bool

text \<open>
  The \<open>try\<close> block of the evaluation loop: the score, the enhanced score, then the
  evaluation pushed. The score itself never throws (\<open>calculateOptimizationScore\<close> catches
  its own errors); the two table lookups that follow can.
\<close>

definition evaluateAttempt :: "trip \<Rightarrow> vehicle \<Rightarrow> error + evaluation" where
  "evaluateAttempt t v =
     (let optimization' = calculateOptimizationScore t v (tripsOf v)
      in bind (calculateEnhancedCompatibilityScore t v (score optimization')) (\<lambda>enhancedScore.
         bind (getCompatibilityDetails t v) (\<lambda>compat.
           Inr \<lparr>ev_vehicle = v,
                ev_optimization = optimization'\<lparr>score := enhancedScore,
                                                originalScore := Some (score optimization')\<rparr>,
                isAvailable = (vehicle_status v = Some ''available''),
                isBusy = (vehicle_status v = Some ''busy''),
                compatibilityDetails = Some compat,
                hasError = False\<rparr>)))"

text \<open>The evaluation pushed by the \<open>catch\<close> block.\<close>

definition errorEvaluation :: "vehicle \<Rightarrow> error \<Rightarrow> evaluation" where
  "errorEvaluation v e =
     \<lparr>ev_vehicle = v,
      ev_optimization = \<lparr>score = Num 10, opt_details = ErrorDetails (MessageOf e),
                         originalScore = None\<rparr>,
      isAvailable = (vehicle_status v = Some ''available''),
      isBusy = (vehicle_status v = Some ''busy''),
      compatibilityDetails = None,
      hasError = True\<rparr>"

definition evaluateVehicle :: "trip \<Rightarrow> vehicle \<Rightarrow> evaluation" where
  "evaluateVehicle t v =
     (case evaluateAttempt t v of Inr ev \<Rightarrow> ev | Inl e \<Rightarrow> errorEvaluation v e)"

text \<open>The comparator of \<open>evaluations.sort\<close>.\<close>

definition compareEvaluations :: "evaluation \<Rightarrow> evaluation \<Rightarrow> number" where
  "compareEvaluations a b =
     (let scoreDiff = score (ev_optimization b) - score (ev_optimization a)
      in if abs_num scoreDiff < Num 5 \<and> isAvailable a \<noteq> isAvailable b
         then (if isAvailable a then Num (- 1) else Num 1)
         else scoreDiff)"

text \<open>
  The message of a result, as the template chosen and the values it interpolates (vehicle name
  and score).
\<close>

datatype message =
  NoVehicleAvailable | Assigned "string option" number | ForcedAssignment "string option" number
  | ImpossibleToAssign

record assignment_result =
  success :: bool
  recommended :: "evaluation option"
  alternatives :: "evaluation list"
  message :: message
  lowScore :: "bool option"
  forceAssigned :: "bool option"
  forced :: bool
  warning :: bool
  debugInfo :: "(string option \<times> number \<times> string option) list"

definition findBestVehicleAssignment :: "trip \<Rightarrow> vehicle list \<Rightarrow> assignment_result" where
  "findBestVehicleAssignment t vehicles =
     (let candidateVehicles = filter (\<lambda>v. vehicle_status v \<noteq> Some ''maintenance'') vehicles
      in if length candidateVehicles = 0
         then \<lparr>success = False, recommended = None, alternatives = [],
               message = NoVehicleAvailable, lowScore = None, forceAssigned = None,
               forced = False, warning = False, debugInfo = []\<rparr>
         else
           (let evaluations = sort_by compareEvaluations (map (evaluateVehicle t) candidateVehicles)
            in case evaluations of
                 bestAssignment # rest \<Rightarrow>
                   (let best = score (ev_optimization bestAssignment);
                        alts = take 4 rest
                    in if Num 5 < best
                       then \<lparr>success = True, recommended = Some bestAssignment,
                             alternatives = alts,
                             message = Assigned (vehicle_name (ev_vehicle bestAssignment)) best,
                             lowScore = Some (best < Num 50), forceAssigned = Some (best < Num 30),
                             forced = False, warning = False, debugInfo = []\<rparr>
                       else \<lparr>success = True, recommended = Some bestAssignment,
                             alternatives = alts,
                             message = ForcedAssignment (vehicle_name (ev_vehicle bestAssignment)) best,
                             lowScore = None, forceAssigned = None,
                             forced = True, warning = True, debugInfo = []\<rparr>)
               | [] \<Rightarrow>
                   \<lparr>success = False, recommended = None, alternatives = take 3 evaluations,
                    message = ImpossibleToAssign, lowScore = None, forceAssigned = None,
                    forced = False, warning = False,
                    debugInfo = map (\<lambda>e. (vehicle_name (ev_vehicle e), score (ev_optimization e),
                                            vehicle_status (ev_vehicle e))) evaluations\<rparr>))"

text \<open>The \<open>evaluations\<close> array of a call, after the sort.\<close>

definition sortedEvaluations :: "trip \<Rightarrow> vehicle list \<Rightarrow> evaluation list" where
  "sortedEvaluations t vehicles =
     sort_by compareEvaluations
       (map (evaluateVehicle t) (filter (\<lambda>v. vehicle_status v \<noteq> Some ''maintenance'') vehicles))"

subsection \<open>Example data\<close>

definition exampleTrip :: trip where
  "exampleTrip =
     \<lparr>trip_id = 1, patient = Some ''Patient A'', pickup = Some ''Toulon'', destination = Some ''Avignon'',
      pickupTime = Some ''09:00'', trip_time = None, appointmentTime = Some ''09:00'',
      duration = Some 45, returnTime = None, isReturnTrip = False, originalCourseId = None,
      vehicleType = Some ''VSL'', priority = Some ''normal'', trip_status = Some ''pending'',
      coordinates = Some [5.9282, 43.1242], destinationCoords = Some [4.8055, 43.9493],
      exitTime = None, earliestPickupTime = None, maxWaitTime = None,
      estimatedDuration = None\<rparr>"

definition exampleVehicle :: vehicle where
  "exampleVehicle =
     \<lparr>vehicle_id = 1, vehicle_name = Some ''VSL 1'', vehicle_type = Some ''VSL'',
      vehicle_status = Some ''available'', currentLocation = Some ''Toulon'', vehicle_trips = None\<rparr>"

text \<open>The example trip as an appointment of 30 minutes at a given time.\<close>

definition tripAt :: "int \<Rightarrow> string \<Rightarrow> trip" where
  "tripAt i t =
     exampleTrip\<lparr>trip_id := i, pickupTime := Some t, appointmentTime := Some t, duration := Some 30\<rparr>"

text \<open>The example trip with a priority that names a member inherited by every object.\<close>

definition inheritedPriorityTrip :: trip where
  "inheritedPriorityTrip = exampleTrip\<lparr>priority := Some ''constructor''\<rparr>"

section \<open>Return courses (returnCourses.js)\<close>

text \<open>
  \<open>`${Math.floor(m / 60).toString().padStart(2, '0')}:${(m % 60).toString().padStart(2, '0')}`\<close>
  for a number of minutes \<open>m\<close>.
\<close>

definition formatHM :: "number \<Rightarrow> string" where
  "formatHM m =
     padStart2 (String (floor_num (m / Num 60))) @ '':'' @ padStart2 (String (rem m (Num 60)))"

text \<open>\<open>calculateExitTime\<close>: \<open>split\<close> on a missing appointment time throws; a missing duration
  makes the sum \<open>NaN\<close>.\<close>

definition calculateExitTime :: "string option \<Rightarrow> int option \<Rightarrow> error + string" where
  "calculateExitTime appointment dur =
     (case appointment of
        None \<Rightarrow> Inl TypeError
      | Some a \<Rightarrow> Inr (formatHM (hoursMinutes a + of_optional dur)))"

definition calculateReturnPickupTime :: "string \<Rightarrow> int \<Rightarrow> string" where
  "calculateReturnPickupTime exit bufferMinutes =
     formatHM (hoursMinutes exit + of_integer bufferMinutes)"

text \<open>
  \<open>generateReturnCourse\<close>. Spreading a missing coordinate array (\<open>[...undefined]\<close>) throws,
  as does \<open>split\<close> on a missing appointment time.
\<close>

definition generateReturnCourse :: "trip \<Rightarrow> int \<Rightarrow> error + trip" where
  "generateReturnCourse originalCourse newId =
     (case (if truthy (returnTime originalCourse)
            then Inr (or_default (returnTime originalCourse) [])
            else calculateExitTime (appointmentTime originalCourse) (duration originalCourse)) of
        Inl e \<Rightarrow> Inl e
      | Inr exit \<Rightarrow>
          (let returnPickupTime = calculateReturnPickupTime exit 15
           in case (destinationCoords originalCourse, coordinates originalCourse) of
                (Some dc, Some c) \<Rightarrow>
                  Inr \<lparr>trip_id = newId,
                       patient = patient originalCourse,
                       pickup = destination originalCourse,
                       destination = pickup originalCourse,
                       pickupTime = None,
                       trip_time = None,
                       appointmentTime = Some exit,
                       duration = Some 30,
                       returnTime = None,
                       isReturnTrip = True,
                       originalCourseId = Some (trip_id originalCourse),
                       vehicleType = Some (or_default (vehicleType originalCourse) ''VSL''),
                       priority = None,
                       trip_status = None,
                       coordinates = Some dc,
                       destinationCoords = Some c,
                       exitTime = Some exit,
                       earliestPickupTime = Some returnPickupTime,
                       maxWaitTime = Some 240,
                       estimatedDuration = None\<rparr>
              | _ \<Rightarrow> Inl TypeError))"

text \<open>The condition under which \<open>generateReturnCourses\<close> builds a return for a course.\<close>

definition hasValidDuration :: "trip \<Rightarrow> bool" where
  "hasValidDuration course = (case duration course of None \<Rightarrow> False | Some d \<Rightarrow> d \<noteq> 0 \<and> d > 0)"

definition hasValidReturnTime :: "trip \<Rightarrow> bool" where
  "hasValidReturnTime course =
     (truthy (returnTime course) \<and> returnTime course \<noteq> Some ''00:00'' \<and>
      returnTime course \<noteq> Some ''0:00'')"

definition needsReturn :: "trip \<Rightarrow> bool" where
  "needsReturn course =
     (\<not> isReturnTrip course \<and> (hasValidDuration course \<or> hasValidReturnTime course))"

text \<open>
  The \<open>forEach\<close> of \<open>generateReturnCourses\<close>, with the running \<open>maxId\<close>; a throw of
  \<open>generateReturnCourse\<close> leaves the function.
\<close>

fun returnCoursesFrom :: "int \<Rightarrow> trip list \<Rightarrow> error + trip list" where
  "returnCoursesFrom maxId [] = Inr []"
| "returnCoursesFrom maxId (course # rest) =
     (if needsReturn course
      then (case generateReturnCourse course (maxId + 1) of
              Inl e \<Rightarrow> Inl e
            | Inr returnCourse \<Rightarrow>
                (case returnCoursesFrom (maxId + 1) rest of
                   Inl e \<Rightarrow> Inl e
                 | Inr returnCourses \<Rightarrow> Inr (returnCourse # returnCourses)))
      else returnCoursesFrom maxId rest)"

definition generateReturnCourses :: "trip list \<Rightarrow> error + trip list" where
  "generateReturnCourses courses =
     returnCoursesFrom (foldr max (map trip_id courses) 0) courses"

definition processCoursesWithReturns :: "trip list \<Rightarrow> error + trip list" where
  "processCoursesWithReturns courses =
     (case generateReturnCourses courses of
        Inl e \<Rightarrow> Inl e
      | Inr returnCourses \<Rightarrow> Inr (courses @ returnCourses))"

subsection \<open>Well-formed times\<close>

text \<open>A time written \<open>HH:MM\<close>: two groups of one or two decimal digits around one colon.\<close>

definition clockTime :: "string \<Rightarrow> bool" where
  "clockTime s =
     (case split_colon s of
        [h, m] \<Rightarrow> h \<noteq> [] \<and> m \<noteq> [] \<and> length h \<le> 2 \<and> length m \<le> 2 \<and>
                  list_all is_digit h \<and> list_all is_digit m
      | other \<Rightarrow> False)"

text \<open>
  A course whose exit time is computed from a well-formed time: its return time when it has
  one, and otherwise its appointment time, with a duration that is not negative and stays
  below \<open>10 ^ 15\<close> minutes (within which the sums of the code are exact).
\<close>

definition wellTimed :: "trip \<Rightarrow> bool" where
  "wellTimed c =
     (if truthy (returnTime c) then clockTime (or_default (returnTime c) [])
      else (case appointmentTime c of
              None \<Rightarrow> False
            | Some a \<Rightarrow>
                (case duration c of
                   None \<Rightarrow> False
                 | Some d \<Rightarrow> clockTime a \<and> 0 \<le> d \<and> d < 10 ^ 15)))"

text \<open>The example course with a return time before midnight written with a sign, and the
  example course without its coordinates.\<close>

definition negativeReturn :: trip where
  "negativeReturn = exampleTrip\<lparr>returnTime := Some ''-1:30''\<rparr>"

definition withoutCoordinates :: trip where
  "withoutCoordinates = exampleTrip\<lparr>trip_id := 2, coordinates := None\<rparr>"

text \<open>The exit time and the earliest pickup time of a generated return course.\<close>

definition exitAndPickup :: "error + trip \<Rightarrow> error + string option \<times> string option" where
  "exitAndPickup res = map_sum id (\<lambda>r. (exitTime r, earliestPickupTime r)) res"

section \<open>Fallback solver (vroomService.js)\<close>

subsection \<open>Time windows and conflicts\<close>

definition timeToMinutes :: "string \<Rightarrow> number" where
  "timeToMinutes timeStr = (if timeStr = [] then Num 0 else hoursMinutes timeStr)"

record time_bounds =
  startTime :: number
  endTime :: number
  tb_duration :: number
  tb_type :: string

text \<open>
  \<open>getTimeBounds\<close>: the window of a trip before clamping, by the kind of trip, then clamped to
  06:00--22:00; \<open>None\<close> is the \<open>null\<close> returned for a trip without a time.
\<close>

definition rawWindow :: "trip \<Rightarrow> (number \<times> number) option" where
  "rawWindow t =
     (if isReturnTrip t then
        (if truthy (earliestPickupTime t)
         then (let start = timeToMinutes (or_default (earliestPickupTime t) [])
               in Some (start, start + Num 60))
         else None)
      else if truthy (appointmentTime t) then
        (let appointmentMinutes = timeToMinutes (or_default (appointmentTime t) []);
             dur = (case duration t of None \<Rightarrow> 60 | Some d \<Rightarrow> if d = 0 then 60 else d)
         in Some (appointmentMinutes - Num 30, appointmentMinutes + of_integer dur + Num 30))
      else if truthy (or_else (pickupTime t) (trip_time t)) then
        (let pickupMinutes = timeToMinutes (or_default (or_else (pickupTime t) (trip_time t)) [])
         in Some (pickupMinutes, pickupMinutes + Num 90))
      else None)"

definition getTimeBounds :: "trip \<Rightarrow> time_bounds option" where
  "getTimeBounds t =
     (case rawWindow t of
        None \<Rightarrow> None
      | Some (start, end') \<Rightarrow>
          (let start' = max_num (Num (6 * 60)) start;
               end'' = min_num (Num (22 * 60)) end'
           in Some \<lparr>startTime = start', endTime = end'',
                    tb_duration = end'' - start',
                    tb_type = (if isReturnTrip t then ''return'' else ''appointment'')\<rparr>))"

text \<open>The fields of the time-window configuration that the solver reads.\<close>

record time_window_config =
  bufferBetweenAppointments :: "int option"
  bufferBetweenReturns :: "int option"
  bufferMixed :: "int option"
  allowConflictPenalty :: bool
  conflictPenaltyScore :: "int option"
  minAssignmentScore :: "int option"

definition overlapDefaults :: time_window_config where
  "overlapDefaults =
     \<lparr>bufferBetweenAppointments = Some 20, bufferBetweenReturns = Some 10, bufferMixed = Some 15,
      allowConflictPenalty = False, conflictPenaltyScore = None, minAssignmentScore = None\<rparr>"

definition checkTimeOverlap :: "time_bounds \<Rightarrow> time_bounds \<Rightarrow> time_window_config option \<Rightarrow> bool" where
  "checkTimeOverlap time1 time2 timeWindowConfig =
     (let config = (case timeWindowConfig of None \<Rightarrow> overlapDefaults | Some c \<Rightarrow> c);
          bufferMinutes =
            (if tb_type time1 = ''appointment'' \<and> tb_type time2 = ''appointment''
             then bufferBetweenAppointments config
             else if tb_type time1 = ''return'' \<and> tb_type time2 = ''return''
             then bufferBetweenReturns config
             else bufferMixed config);
          adjustedTime1End = endTime time1 + of_optional bufferMinutes;
          adjustedTime2End = endTime time2 + of_optional bufferMinutes
      in startTime time1 < adjustedTime2End \<and> startTime time2 < adjustedTime1End)"

record conflict_check =
  hasConflict :: bool
  cc_conflictingTrip :: "trip option"

text \<open>The loop of \<open>checkTimeConflicts\<close> over the existing trips.\<close>

fun firstOverlap :: "time_bounds \<Rightarrow> trip list \<Rightarrow> time_window_config option \<Rightarrow> trip option" where
  "firstOverlap newTripTime [] cfg = None"
| "firstOverlap newTripTime (existingTrip # rest) cfg =
     (case getTimeBounds existingTrip of
        None \<Rightarrow> firstOverlap newTripTime rest cfg
      | Some existingTripTime \<Rightarrow>
          if checkTimeOverlap newTripTime existingTripTime cfg then Some existingTrip
          else firstOverlap newTripTime rest cfg)"

definition checkTimeConflicts :: "trip \<Rightarrow> trip list \<Rightarrow> time_window_config option \<Rightarrow> conflict_check" where
  "checkTimeConflicts newTrip existingTrips cfg =
     (if length existingTrips = 0 then \<lparr>hasConflict = False, cc_conflictingTrip = None\<rparr>
      else case getTimeBounds newTrip of
             None \<Rightarrow> \<lparr>hasConflict = False, cc_conflictingTrip = None\<rparr>
           | Some newTripTime \<Rightarrow>
               (case firstOverlap newTripTime existingTrips cfg of
                  Some existingTrip \<Rightarrow> \<lparr>hasConflict = True, cc_conflictingTrip = Some existingTrip\<rparr>
                | None \<Rightarrow> \<lparr>hasConflict = False, cc_conflictingTrip = None\<rparr>))"

subsection \<open>Choosing a vehicle\<close>

definition typeCompatibility :: "(string \<times> (string \<times> real) list) list" where
  "typeCompatibility =
    [(''Ambulance'', [(''Ambulance'', 100), (''VSL'', 30), (''Taxi'', 10)]),
     (''VSL'', [(''Ambulance'', 80), (''VSL'', 100), (''Taxi'', 50)]),
     (''Taxi'', [(''Ambulance'', 90), (''VSL'', 80), (''Taxi'', 100)])]"

text \<open>\<open>compatibility[requiredType]?.[vehicleType] || 50\<close>.\<close>

definition getVehicleTypeCompatibility :: "string option \<Rightarrow> string option \<Rightarrow> error + jsvalue" where
  "getVehicleTypeCompatibility requiredType vType =
     bind (nestedGet typeCompatibility requiredType vType) (\<lambda>found. Inr (or_number found 50))"

definition getVehicleSkills :: "vehicle \<Rightarrow> nat list" where
  "getVehicleSkills v =
     (if vehicle_type v = Some ''Ambulance'' then [1, 2, 3]
      else if vehicle_type v = Some ''VSL'' then [2, 3]
      else if vehicle_type v = Some ''Taxi'' then [3]
      else [])"

text \<open>
  \<open>skillRequirements[trip.vehicleType] || [1, 2, 3]\<close>: the array of the table, the default
  array, or the inherited member that the lookup found, which is not an array.
\<close>

definition getTripRequiredSkills :: "trip \<Rightarrow> nat list property" where
  "getTripRequiredSkills t =
     (case literalGet [(''Ambulance'', [1]), (''VSL'', [1, 2]), (''Taxi'', [1, 2, 3])] (vehicleType t) of
        Missing \<Rightarrow> Own [1, 2, 3]
      | found \<Rightarrow> found)"

text \<open>\<open>requiredSkills.some(skill => vehicleSkills.includes(skill))\<close>: a value that has no
  \<open>some\<close> to call makes the call throw.\<close>

definition skillsMatch :: "nat list property \<Rightarrow> nat list \<Rightarrow> error + bool" where
  "skillsMatch requiredSkills vehicleSkills =
     (case requiredSkills of
        Own skills \<Rightarrow> Inr (list_ex (\<lambda>skill. skill \<in> set vehicleSkills) skills)
      | other \<Rightarrow> Inl TypeError)"

record route_stop =
  stop_type :: string
  stop_location :: "string option"
  stop_trip :: trip
  stop_time :: "string option"

record vehicle_assignment =
  va_vehicle :: vehicle
  va_trips :: "trip list"
  va_totalDistance :: number
  va_totalDuration :: number
  va_route :: "route_stop list"

text \<open>
  The metrics of a candidate, as the three properties read from them afterwards. The metrics
  stored for an assignment accepted despite a conflict, \<open>{ distance, duration, score }\<close>, have
  none of the three: the two numbers are read as \<open>undefined\<close>, which arithmetic turns into
  \<open>NaN\<close>.
\<close>

record route_metrics =
  additionalDistance :: number
  additionalDuration :: number
  rm_estimatedArrival :: "string option"

definition conflictedMetrics :: route_metrics where
  "conflictedMetrics =
     \<lparr>additionalDistance = NaN, additionalDuration = NaN, rm_estimatedArrival = None\<rparr>"

text \<open>\<open>calculateEstimatedArrival\<close> of this module: \<open>null\<close> without a pickup time.\<close>

definition estimatedArrivalAfter :: "string option \<Rightarrow> int \<Rightarrow> string option" where
  "estimatedArrivalAfter pickupT additionalMinutes =
     (if \<not> truthy pickupT then None
      else (let totalMinutes = hoursMinutes (or_default pickupT []) + of_integer additionalMinutes;
                newHours = rem (floor_num (totalMinutes / Num 60)) (Num 24);
                newMinutes = rem totalMinutes (Num 60)
            in Some (padStart2 (String newHours) @ '':'' @ padStart2 (String newMinutes))))"

definition calculateRouteMetrics ::
  "trip \<Rightarrow> vehicle_assignment \<Rightarrow> real list list \<Rightarrow> real list list \<Rightarrow> route_metrics" where
  "calculateRouteMetrics t vehicleAssignment distanceMatrix durationMatrix =
     (let baseDistance = 10;
          baseDuration = 30;
          utilizationPenalty = real (length (va_trips vehicleAssignment)) * (1 / 10)
      in \<lparr>additionalDistance = Num (baseDistance * (1 + utilizationPenalty)),
          additionalDuration = Num (real_of_int baseDuration * (1 + utilizationPenalty)),
          rm_estimatedArrival =
            estimatedArrivalAfter (or_else (pickupTime t) (trip_time t)) baseDuration\<rparr>)"

definition calculateTripAssignmentScore ::
  "trip \<Rightarrow> vehicle \<Rightarrow> route_metrics \<Rightarrow> nat \<Rightarrow> error + number" where
  "calculateTripAssignmentScore t v routeMetrics currentTripCount =
     bind (getVehicleTypeCompatibility (vehicleType t) (vehicle_type v)) (\<lambda>vehicleTypeScore'.
       (let utilizationScore = max_num (Num 0) (Num 100 - Num (real currentTripCount) * Num 15);
            efficiencyScore = max_num (Num 0) (Num 100 - additionalDistance routeMetrics * Num 2)
        in Inr (toNumber vehicleTypeScore' * Num (5 / 10) + utilizationScore * Num (3 / 10) +
                efficiencyScore * Num (2 / 10))))"

text \<open>The state of the loop of \<open>findBestVehicleForTrip\<close>: the best vehicle id with its metrics
  (set together), and the best score.\<close>

record best_choice =
  bestVehicle :: "(int \<times> route_metrics) option"
  bestScore :: number

text \<open>The body of the \<open>try\<close> block of a round of the loop, for an entry of the map.\<close>

definition considerAttempt ::
  "trip \<Rightarrow> real list list \<Rightarrow> real list list \<Rightarrow> time_window_config option \<Rightarrow>
   best_choice \<Rightarrow> int \<times> vehicle_assignment \<Rightarrow> error + best_choice" where
  "considerAttempt t distanceMatrix durationMatrix timeWindowConfig best entry =
     (let vehicleId = fst entry;
          assignment = snd entry
      in bind (getVehicleTypeCompatibility (vehicleType t) (vehicle_type (va_vehicle assignment)))
           (\<lambda>vehicleTypeScore'.
         if toNumber vehicleTypeScore' < Num 50 then Inr best
         else bind (skillsMatch (getTripRequiredSkills t) (getVehicleSkills (va_vehicle assignment)))
           (\<lambda>matching.
         if \<not> matching then Inr best
         else if hasConflict (checkTimeConflicts t (va_trips assignment) timeWindowConfig) then
           (case timeWindowConfig of
              None \<Rightarrow> Inr best
            | Some config \<Rightarrow>
                if allowConflictPenalty config then
                  (let conflictPenalty =
                         (case conflictPenaltyScore config of
                            None \<Rightarrow> 50 | Some p \<Rightarrow> if p = 0 then 50 else p);
                       minScore =
                         (case minAssignmentScore config of
                            None \<Rightarrow> 20 | Some m \<Rightarrow> if m = 0 then 20 else m);
                       adjustedScore = toNumber vehicleTypeScore' - of_integer conflictPenalty
                   in if bestScore best < adjustedScore \<and> of_integer minScore < adjustedScore
                      then Inr \<lparr>bestVehicle = Some (vehicleId, conflictedMetrics),
                                bestScore = adjustedScore\<rparr>
                      else Inr best)
                else Inr best)
         else
           (let routeMetrics = calculateRouteMetrics t assignment distanceMatrix durationMatrix
            in bind (calculateTripAssignmentScore t (va_vehicle assignment) routeMetrics
                       (length (va_trips assignment))) (\<lambda>sc.
                 if bestScore best < sc
                 then Inr \<lparr>bestVehicle = Some (vehicleId, routeMetrics), bestScore = sc\<rparr>
                 else Inr best)))))"

text \<open>A round of the loop: the \<open>catch\<close> block moves on to the next vehicle, and nothing has
  been assigned by then.\<close>

definition considerVehicle ::
  "trip \<Rightarrow> real list list \<Rightarrow> real list list \<Rightarrow> time_window_config option \<Rightarrow>
   best_choice \<Rightarrow> int \<times> vehicle_assignment \<Rightarrow> best_choice" where
  "considerVehicle t distanceMatrix durationMatrix timeWindowConfig best entry =
     (case considerAttempt t distanceMatrix durationMatrix timeWindowConfig best entry of
        Inr best' \<Rightarrow> best'
      | Inl e \<Rightarrow> best)"

text \<open>The result of \<open>findBestVehicleForTrip\<close>: the vehicle id, rounded score and metrics, or the
  rounded best score quoted in the reason. A vehicle id 0 counts as no vehicle.\<close>

datatype find_result = Found int number route_metrics | NotFound number

definition findBestVehicleForTrip ::
  "trip \<Rightarrow> (int \<times> vehicle_assignment) list \<Rightarrow> real list list \<Rightarrow> real list list \<Rightarrow>
   time_window_config option \<Rightarrow> find_result" where
  "findBestVehicleForTrip t vehicleAssignments distanceMatrix durationMatrix timeWindowConfig =
     (let best = foldl (considerVehicle t distanceMatrix durationMatrix timeWindowConfig)
                   \<lparr>bestVehicle = None, bestScore = Num (- 1)\<rparr> vehicleAssignments
      in case bestVehicle best of
           Some (vehicleId, metrics) \<Rightarrow>
             if vehicleId \<noteq> 0 \<and> Num 15 < bestScore best
             then Found vehicleId (round_num (bestScore best)) metrics
             else NotFound (round_num (bestScore best))
         | None \<Rightarrow> NotFound (round_num (bestScore best)))"

subsection \<open>The solver\<close>

text \<open>
  A \<open>Map\<close> keyed by vehicle id, as the list of its entries in insertion order: \<open>set\<close> replaces
  the value of a key that is present, in place, and appends a new key.
\<close>

fun map_set :: "int \<Rightarrow> 'v \<Rightarrow> (int \<times> 'v) list \<Rightarrow> (int \<times> 'v) list" where
  "map_set k v [] = [(k, v)]"
| "map_set k v ((k', v') # rest) =
     (if k' = k then (k, v) # rest else (k', v') # map_set k v rest)"

definition initialAssignments :: "vehicle list \<Rightarrow> (int \<times> vehicle_assignment) list" where
  "initialAssignments vehicles =
     foldl (\<lambda>m v. if vehicle_status v \<noteq> Some ''maintenance''
                   then map_set (vehicle_id v)
                          \<lparr>va_vehicle = v, va_trips = [], va_totalDistance = Num 0,
                           va_totalDuration = Num 0, va_route = []\<rparr> m
                   else m) [] vehicles"

definition solverDefaults :: time_window_config where
  "solverDefaults =
     \<lparr>bufferBetweenAppointments = Some 20, bufferBetweenReturns = Some 10, bufferMixed = Some 15,
      allowConflictPenalty = True, conflictPenaltyScore = Some 50, minAssignmentScore = Some 15\<rparr>"

text \<open>\<open>priorityOrder[p] || 2\<close>, read as a number by the subtraction that follows.\<close>

definition priorityOrder :: "string option \<Rightarrow> number" where
  "priorityOrder p =
     toNumber (or_number (propertyValue
       (literalGet [(''urgent'', 4), (''high'', 3), (''normal'', 2), (''low'', 1)] p)) 2)"

definition solverTripTime :: "trip \<Rightarrow> string" where
  "solverTripTime t =
     or_default (or_else (or_else (appointmentTime t) (pickupTime t)) (trip_time t)) ''09:00''"

definition compareSolverTrips :: "trip \<Rightarrow> trip \<Rightarrow> number" where
  "compareSolverTrips a b =
     (let priorityDiff = priorityOrder (priority b) - priorityOrder (priority a);
          typeScoreA = (if isReturnTrip a then 1 else 2);
          typeScoreB = (if isReturnTrip b then 1 else 2)
      in if priorityDiff \<noteq> Num 0 then priorityDiff
         else if typeScoreA \<noteq> typeScoreB then of_integer (typeScoreB - typeScoreA)
         else of_integer (localeCompare (solverTripTime a) (solverTripTime b)))"

record assigned_vehicle =
  fa_vehicle :: vehicle
  fa_score :: number
  fa_totalDistance :: number
  fa_totalTime :: number
  fa_estimatedArrival :: "string option"
  fa_fuelCost :: number

text \<open>An entry of \<open>results\<close>; the reason of an unassigned trip is kept as the rounded best score
  that its text quotes.\<close>

record solver_result =
  sr_trip :: trip
  sr_assignment :: "assigned_vehicle option"
  sr_status :: string
  sr_reason :: "number option"
  fallbackOptimized :: bool

text \<open>
  One round of the assignment loop. \<open>vehicleAssignments.get(id)\<close> of an absent id is
  \<open>undefined\<close>, and reading its \<open>trips\<close> throws.
\<close>

definition assignTrip ::
  "real list list \<Rightarrow> real list list \<Rightarrow> time_window_config \<Rightarrow>
   (int \<times> vehicle_assignment) list \<times> solver_result list \<Rightarrow> trip \<Rightarrow>
   error + (int \<times> vehicle_assignment) list \<times> solver_result list" where
  "assignTrip distanceMatrix durationMatrix config state t =
     (let vehicleAssignments = fst state;
          results = snd state
      in case findBestVehicleForTrip t vehicleAssignments distanceMatrix durationMatrix (Some config) of
           Found vehicleId sc metrics \<Rightarrow>
             (case map_of vehicleAssignments vehicleId of
                None \<Rightarrow> Inl TypeError
              | Some assignment \<Rightarrow>
                  (let assignment' = assignment
                         \<lparr>va_trips := va_trips assignment @ [t],
                          va_totalDistance :=
                            va_totalDistance assignment + additionalDistance metrics,
                          va_totalDuration :=
                            va_totalDuration assignment + additionalDuration metrics,
                          va_route := va_route assignment @
                            [\<lparr>stop_type = ''pickup'', stop_location = pickup t, stop_trip = t,
                              stop_time = or_else (pickupTime t) (trip_time t)\<rparr>,
                             \<lparr>stop_type = ''delivery'', stop_location = destination t,
                              stop_trip = t, stop_time = None\<rparr>]\<rparr>
                   in Inr (map (\<lambda>entry. if fst entry = vehicleId then (vehicleId, assignment')
                                          else entry) vehicleAssignments,
                           results @
                             [\<lparr>sr_trip = t,
                               sr_assignment = Some
                                 \<lparr>fa_vehicle = va_vehicle assignment,
                                  fa_score = sc,
                                  fa_totalDistance = additionalDistance metrics,
                                  fa_totalTime = additionalDuration metrics,
                                  fa_estimatedArrival = rm_estimatedArrival metrics,
                                  fa_fuelCost = additionalDistance metrics * Num (15 / 100)\<rparr>,
                               sr_status = ''assigned'', sr_reason = None,
                               fallbackOptimized = True\<rparr>])))
         | NotFound best \<Rightarrow>
             Inr (vehicleAssignments,
                  results @
                    [\<lparr>sr_trip = t, sr_assignment = None, sr_status = ''unassigned'',
                      sr_reason = Some best, fallbackOptimized = False\<rparr>]))"

fun assignTrips ::
  "real list list \<Rightarrow> real list list \<Rightarrow> time_window_config \<Rightarrow>
   (int \<times> vehicle_assignment) list \<times> solver_result list \<Rightarrow> trip list \<Rightarrow>
   error + (int \<times> vehicle_assignment) list \<times> solver_result list" where
  "assignTrips distanceMatrix durationMatrix config state [] = Inr state"
| "assignTrips distanceMatrix durationMatrix config state (t # rest) =
     (case assignTrip distanceMatrix durationMatrix config state t of
        Inl e \<Rightarrow> Inl e
      | Inr state' \<Rightarrow> assignTrips distanceMatrix durationMatrix config state' rest)"

text \<open>
  \<open>Math.random()\<close> is the source of values \<open>rng\<close>, read at a running position: the call
  number \<open>k\<close> of the run returns \<open>rng k\<close>.
\<close>

definition calculateRouteDistance :: "(nat \<Rightarrow> real) \<Rightarrow> nat \<Rightarrow> trip list \<Rightarrow> real \<times> nat" where
  "calculateRouteDistance rng k trips = (real (length trips) * 10 + rng k * 5, Suc k)"

record two_opt =
  improved :: bool
  opt_trips :: "trip list"
  opt_totalDistance :: real
  opt_totalDuration :: real

text \<open>\<open>newTrips.splice(i, j - i + 1, ...newTrips.slice(i, j + 1).reverse())\<close>.\<close>

definition reverseSegment :: "nat \<Rightarrow> nat \<Rightarrow> 'a list \<Rightarrow> 'a list" where
  "reverseSegment i j xs = take i xs @ rev (take (j + 1 - i) (drop i xs)) @ drop (j + 1) xs"

text \<open>The pairs \<open>(i, j)\<close> of the two nested loops, in order.\<close>

definition swapPairs :: "nat \<Rightarrow> (nat \<times> nat) list" where
  "swapPairs n = concat (map (\<lambda>i. map (\<lambda>j. (i, j)) [i + 1 ..< n]) [1 ..< n - 1])"

record two_opt_state =
  bestTrips :: "trip list"
  bestDistance :: real
  wasImproved :: bool
  randomCalls :: nat

definition trySwap :: "(nat \<Rightarrow> real) \<Rightarrow> trip list \<Rightarrow> two_opt_state \<Rightarrow> nat \<times> nat \<Rightarrow> two_opt_state" where
  "trySwap rng trips st ij =
     (let newTrips = reverseSegment (fst ij) (snd ij) trips;
          d = calculateRouteDistance rng (randomCalls st) newTrips
      in if fst d < bestDistance st
         then \<lparr>bestTrips = newTrips, bestDistance = fst d, wasImproved = True, randomCalls = snd d\<rparr>
         else st\<lparr>randomCalls := snd d\<rparr>)"

definition apply2OptImprovement ::
  "(nat \<Rightarrow> real) \<Rightarrow> nat \<Rightarrow> trip list \<Rightarrow> vehicle \<Rightarrow> real list list \<Rightarrow> two_opt \<times> nat" where
  "apply2OptImprovement rng k trips v distanceMatrix =
     (if length trips \<le> 2
      then (\<lparr>improved = False, opt_trips = trips, opt_totalDistance = 0, opt_totalDuration = 0\<rparr>, k)
      else
        (let d0 = calculateRouteDistance rng k trips;
             st = foldl (trySwap rng trips)
                    \<lparr>bestTrips = trips, bestDistance = fst d0, wasImproved = False,
                     randomCalls = snd d0\<rparr>
                    (swapPairs (length trips))
         in (\<lparr>improved = wasImproved st, opt_trips = bestTrips st,
              opt_totalDistance = bestDistance st,
              opt_totalDuration = bestDistance st / 40 * 60\<rparr>, randomCalls st)))"

text \<open>The loop over the entries of the map that improves each route of more than two trips.\<close>

fun improveRoutes ::
  "(nat \<Rightarrow> real) \<Rightarrow> real list list \<Rightarrow> nat \<Rightarrow> (int \<times> vehicle_assignment) list \<Rightarrow>
   (int \<times> vehicle_assignment) list" where
  "improveRoutes rng distanceMatrix k [] = []"
| "improveRoutes rng distanceMatrix k (entry # rest) =
     (let assignment = snd entry
      in if length (va_trips assignment) > 2
         then (let r = apply2OptImprovement rng k (va_trips assignment) (va_vehicle assignment)
                         distanceMatrix;
                   improvedRoute = fst r
               in (fst entry,
                   if improved improvedRoute
                   then assignment\<lparr>va_trips := opt_trips improvedRoute,
                                   va_totalDistance := Num (opt_totalDistance improvedRoute),
                                   va_totalDuration := Num (opt_totalDuration improvedRoute)\<rparr>
                   else assignment) # improveRoutes rng distanceMatrix (snd r) rest)
         else entry # improveRoutes rng distanceMatrix k rest)"

record solver_summary =
  totalTrips :: nat
  assignedTrips :: nat
  unassignedTrips :: nat
  assignmentRate :: number
  sum_totalDistance :: number
  sum_totalDuration :: number
  averageOptimizationScore :: number
  estimatedFuelCost :: number

definition solverSummary ::
  "trip list \<Rightarrow> solver_result list \<Rightarrow> vehicle_assignment list \<Rightarrow> solver_summary" where
  "solverSummary trips results assignments =
     (let assigned = filter (\<lambda>r. sr_status r = ''assigned'') results;
          totalDist = foldl (+) (Num 0) (map va_totalDistance assignments);
          totalDur = foldl (+) (Num 0) (map va_totalDuration assignments)
      in \<lparr>totalTrips = length trips,
          assignedTrips = length assigned,
          unassignedTrips = length results - length assigned,
          assignmentRate =
            round_num (Num (real (length assigned)) / Num (real (length trips)) * Num 100),
          sum_totalDistance = round_num (totalDist * Num 10) / Num 10,
          sum_totalDuration = round_num totalDur,
          averageOptimizationScore =
            foldl (+) (Num 0) (map (\<lambda>r. case sr_assignment r of
                                           None \<Rightarrow> NaN
                                         | Some a \<Rightarrow> fa_score a) assigned)
              / Num (real (max (length assigned) 1)),
          estimatedFuelCost = round_num (totalDist * Num (15 / 100) * Num 100) / Num 100\<rparr>)"

text \<open>
  The solution: the results, the assignments of the map and the summary. (The \<open>routes\<close> and
  \<open>unassigned\<close> lists of the returned object are projections of these two lists, and its
  other properties are constants.)
\<close>

record solver_solution =
  sol_results :: "solver_result list"
  sol_vehicleAssignments :: "vehicle_assignment list"
  sol_summary :: solver_summary

definition fallbackVRPSolver ::
  "(nat \<Rightarrow> real) \<Rightarrow> trip list \<Rightarrow> vehicle list \<Rightarrow> real list list \<Rightarrow> real list list \<Rightarrow>
   time_window_config option \<Rightarrow> error + solver_solution" where
  "fallbackVRPSolver rng trips vehicles distanceMatrix durationMatrix timeWindowConfig =
     (let config = (case timeWindowConfig of None \<Rightarrow> solverDefaults | Some c \<Rightarrow> c);
          sortedTrips = sort_by compareSolverTrips trips
      in case assignTrips distanceMatrix durationMatrix config
                (initialAssignments vehicles, []) sortedTrips of
           Inl e \<Rightarrow> Inl e
         | Inr state \<Rightarrow>
             (let vehicleAssignments = improveRoutes rng distanceMatrix 0 (fst state);
                  results = snd state
              in Inr \<lparr>sol_results = results,
                      sol_vehicleAssignments = map snd vehicleAssignments,
                      sol_summary = solverSummary trips results (map snd vehicleAssignments)\<rparr>))"

subsection \<open>Invariants and example data\<close>

text \<open>A vehicle of the input list that is not in maintenance.\<close>

definition okVehicle :: "vehicle list \<Rightarrow> vehicle \<Rightarrow> bool" where
  "okVehicle vehicles v = (vehicle_status v \<noteq> Some ''maintenance'' \<and> v \<in> set vehicles)"

text \<open>The best vehicle of \<open>findBestVehicleForTrip\<close>, when set, is a key among \<open>K\<close>.\<close>

definition keyIn :: "int set \<Rightarrow> best_choice \<Rightarrow> bool" where
  "keyIn K best = (case bestVehicle best of None \<Rightarrow> True | Some (vid, m) \<Rightarrow> vid \<in> K)"

text \<open>The state of the assignment loop holds vehicles of the list not in maintenance only.\<close>

definition okState ::
  "vehicle list \<Rightarrow> (int \<times> vehicle_assignment) list \<times> solver_result list \<Rightarrow> bool" where
  "okState vehicles state =
     ((\<forall>(k, a) \<in> set (fst state). okVehicle vehicles (va_vehicle a)) \<and>
      (\<forall>r \<in> set (snd state). \<forall>a. sr_assignment r = Some a \<longrightarrow> okVehicle vehicles (fa_vehicle a)))"

text \<open>Three appointments that fit one vehicle, and two runs of \<open>Math.random()\<close>.\<close>

definition threeTrips :: "trip list" where
  "threeTrips = [tripAt 1 ''08:00'', tripAt 2 ''11:00'', tripAt 3 ''14:00'']"

definition randomA :: "nat \<Rightarrow> real" where
  "randomA k = (if k = 0 then 9 / 10 else 1 / 10)"

definition randomB :: "nat \<Rightarrow> real" where
  "randomB k = 1 / 2"

definition fleetWithMaintenance :: "vehicle list" where
  "fleetWithMaintenance =
     [exampleVehicle\<lparr>vehicle_id := 2, vehicle_name := Some ''VSL 2'',
                      vehicle_status := Some ''maintenance''\<rparr>,
      exampleVehicle]"

section \<open>Conflict resolution and batch optimization (routeOptimization.js)\<close>

text \<open>
  \<open>optimization.details.conflicts.length\<close>: on the details of a failed score, which have no
  \<open>conflicts\<close>, reading \<open>length\<close> throws. Other properties of the details are read as
  \<open>undefined\<close> there.
\<close>

definition conflictsLength :: "optimization \<Rightarrow> error + nat" where
  "conflictsLength opt =
     (case opt_details opt of
        Details d \<Rightarrow> Inr (length (conflicts d))
      | ErrorDetails msg \<Rightarrow> Inl TypeError)"

definition detail :: "(details \<Rightarrow> 'a) \<Rightarrow> optimization \<Rightarrow> 'a option" where
  "detail f opt = (case opt_details opt of Details d \<Rightarrow> Some (f d) | ErrorDetails msg \<Rightarrow> None)"

text \<open>\<open>optimization.score > n && optimization.details.conflicts.length === 0\<close>.\<close>

definition scoreAboveNoConflict :: "real \<Rightarrow> optimization \<Rightarrow> error + bool" where
  "scoreAboveNoConflict n opt =
     (if Num n < score opt then bind (conflictsLength opt) (\<lambda>k. Inr (k = 0)) else Inr False)"

text \<open>\<open>{ ...trip, pickupTime: t, time: t }\<close> and \<open>{ ...trip, estimatedDuration: d }\<close>.\<close>

definition atTime :: "trip \<Rightarrow> string \<Rightarrow> trip" where
  "atTime t slot = t\<lparr>pickupTime := Some slot, trip_time := Some slot\<rparr>"

definition withDuration :: "trip \<Rightarrow> number \<Rightarrow> trip" where
  "withDuration t d = t\<lparr>estimatedDuration := Some d\<rparr>"

text \<open>\<open>optimization.details.tripDuration / 60\<close>; the quotient of a missing duration is
  \<open>NaN\<close>.\<close>

definition tripDurationHours :: "optimization \<Rightarrow> number" where
  "tripDurationHours opt =
     (case detail tripDuration opt of None \<Rightarrow> NaN | Some m \<Rightarrow> Num (real_of_int m / 60))"

subsection \<open>Resolution strategies\<close>

record time_option =
  newTime :: string
  to_vehicle :: "string option"
  to_optimizationScore :: number
  timeShift :: number
  to_estimatedArrival :: "string option"
  impact :: string

record vehicle_option =
  vo_vehicle :: "string option"
  vo_vehicleType :: "string option"
  currentStatus :: "string option"
  vo_optimizationScore :: number
  vo_conflicts :: nat
  estimatedCost :: "real option"
  requiresRescheduling :: bool

record reschedule_option =
  ro_vehicle :: "string option"
  ro_patient :: "string option"
  oldTime :: "string option"
  ro_newTime :: string
  newTripScore :: number

text \<open>An option of the trip-optimization strategy: \<open>combine_trips\<close> with the patient of the
  nearby trip, the vehicle name, estimated time and savings, or \<open>multi_vehicle\<close> with the two
  vehicle names.\<close>

datatype trip_optimization_option =
  CombineTrips "string option" "string option" int int
  | MultiVehicle "string option" "string option"

datatype strategy =
  TimeAdjustment "time_option list"
  | VehicleChange "vehicle_option list"
  | RescheduleExisting "reschedule_option list"
  | TripOptimization "trip_optimization_option list"

definition strategyType :: "strategy \<Rightarrow> string" where
  "strategyType s =
     (case s of
        TimeAdjustment os \<Rightarrow> ''time_adjustment''
      | VehicleChange os \<Rightarrow> ''vehicle_change''
      | RescheduleExisting os \<Rightarrow> ''reschedule_existing''
      | TripOptimization os \<Rightarrow> ''trip_optimization'')"

definition calculateTimeShift :: "string \<Rightarrow> string \<Rightarrow> number" where
  "calculateTimeShift originalTime new =
     convertTimeToMinutes new - convertTimeToMinutes originalTime"

definition calculateTimeChangeImpact :: "string \<Rightarrow> string \<Rightarrow> string" where
  "calculateTimeChangeImpact originalTime new =
     (let shift = abs_num (calculateTimeShift originalTime new)
      in if shift \<le> Num 30 then ''minimal''
         else if shift \<le> Num 60 then ''low''
         else if shift \<le> Num 120 then ''medium''
         else ''high'')"

definition timeSlots :: "string list" where
  "timeSlots =
     [''07:00'', ''07:30'', ''08:00'', ''08:30'', ''09:00'', ''09:30'',
      ''10:00'', ''10:30'', ''11:00'', ''11:30'', ''12:00'', ''12:30'',
      ''13:00'', ''13:30'', ''14:00'', ''14:30'', ''15:00'', ''15:30'',
      ''16:00'', ''16:30'', ''17:00'', ''17:30'', ''18:00'', ''18:30'']"

text \<open>The comparator of the time options.\<close>

definition compareTimeOptions :: "time_option \<Rightarrow> time_option \<Rightarrow> number" where
  "compareTimeOptions a b =
     (let scoreDiff = to_optimizationScore b - to_optimizationScore a
      in if abs_num scoreDiff < Num 10
         then abs_num (timeShift a) - abs_num (timeShift b)
         else scoreDiff)"

text \<open>The body of the inner loop of \<open>findAlternativeTimeSlots\<close>: the option pushed for a time slot
  and a vehicle, if any.\<close>

definition timeOptionFor :: "trip \<Rightarrow> string \<Rightarrow> vehicle \<Rightarrow> error + time_option list" where
  "timeOptionFor t timeSlot v =
     (let originalTime = tripTime t;
          modifiedTrip = atTime t timeSlot
      in if vehicle_status v = Some ''available'' \<or> vehicle_status v = Some ''busy''
         then (let opt = calculateOptimizationScore modifiedTrip v (tripsOf v)
               in bind (scoreAboveNoConflict 0 opt) (\<lambda>ok.
                    if ok
                    then Inr [\<lparr>newTime = timeSlot, to_vehicle = vehicle_name v,
                               to_optimizationScore = score opt,
                               timeShift = calculateTimeShift originalTime timeSlot,
                               to_estimatedArrival =
                                 (case detail estimatedArrival opt of None \<Rightarrow> None | Some a \<Rightarrow> a),
                               impact = calculateTimeChangeImpact originalTime timeSlot\<rparr>]
                    else Inr []))
         else Inr [])"

definition findAlternativeTimeSlots :: "trip \<Rightarrow> vehicle list \<Rightarrow> error + time_option list" where
  "findAlternativeTimeSlots t vehicles =
     bind (collect (\<lambda>timeSlot.
             if timeSlot = tripTime t then Inr []
             else collect (timeOptionFor t timeSlot) vehicles) timeSlots)
       (\<lambda>alts. Inr (take 3 (sort_by compareTimeOptions alts)))"

definition compareVehicleOptions :: "vehicle_option \<Rightarrow> vehicle_option \<Rightarrow> number" where
  "compareVehicleOptions a b =
     (if vo_conflicts a \<noteq> vo_conflicts b then Num (real (vo_conflicts a) - real (vo_conflicts b))
      else vo_optimizationScore b - vo_optimizationScore a)"

definition vehicleOptionFor :: "trip \<Rightarrow> vehicle \<Rightarrow> error + vehicle_option list" where
  "vehicleOptionFor t v =
     (if vehicle_status v = Some ''maintenance'' then Inr []
      else (let opt = calculateOptimizationScore t v (tripsOf v)
            in if Num 30 < score opt
               then bind (conflictsLength opt) (\<lambda>n.
                      Inr [\<lparr>vo_vehicle = vehicle_name v, vo_vehicleType = vehicle_type v,
                            currentStatus = vehicle_status v, vo_optimizationScore = score opt,
                            vo_conflicts = n, estimatedCost = detail fuelCost opt,
                            requiresRescheduling = (n > 0)\<rparr>])
               else Inr []))"

definition findAlternativeVehicles :: "trip \<Rightarrow> vehicle list \<Rightarrow> error + vehicle_option list" where
  "findAlternativeVehicles t vehicles =
     bind (collect (vehicleOptionFor t) vehicles)
       (\<lambda>alts. Inr (take 4 (sort_by compareVehicleOptions alts)))"

definition rescheduleSlots :: "string list" where
  "rescheduleSlots =
     [''07:00'', ''08:00'', ''09:00'', ''10:00'', ''11:00'', ''14:00'', ''15:00'', ''16:00'', ''17:00'']"

text \<open>
  The body of the innermost loop of \<open>suggestRescheduling\<close>, for the existing trip at position
  \<open>i\<close> of the list of a vehicle and a new time. The existing trip is taken out of the list by
  identity (\<open>t !== existingTrip\<close>), that is, at its position.
\<close>

definition rescheduleOptionFor ::
  "trip \<Rightarrow> vehicle \<Rightarrow> nat \<Rightarrow> string \<Rightarrow> error + reschedule_option list" where
  "rescheduleOptionFor newTrip v i slot =
     (let existingTrip = tripsOf v ! i;
          rescheduledTrip = atTime existingTrip slot;
          remainingTrips = take i (tripsOf v) @ drop (Suc i) (tripsOf v);
          rescheduledOptimization = calculateOptimizationScore rescheduledTrip v remainingTrips
      in bind (scoreAboveNoConflict 60 rescheduledOptimization) (\<lambda>ok.
           if ok
           then (let newTripOptimization = calculateOptimizationScore newTrip v
                       (remainingTrips @ [rescheduledTrip])
                 in bind (scoreAboveNoConflict 60 newTripOptimization) (\<lambda>ok'.
                      if ok'
                      then Inr [\<lparr>ro_vehicle = vehicle_name v,
                                 ro_patient = patient existingTrip,
                                 oldTime = or_else (trip_time existingTrip) (pickupTime existingTrip),
                                 ro_newTime = slot,
                                 newTripScore = score newTripOptimization\<rparr>]
                      else Inr []))
           else Inr []))"

definition suggestRescheduling ::
  "trip \<Rightarrow> vehicle list \<Rightarrow> trip list \<Rightarrow> error + reschedule_option list" where
  "suggestRescheduling newTrip vehicles existingTrips =
     bind (collect (\<lambda>v.
        if tripsOf v = [] then Inr []
        else collect (\<lambda>i.
               if priority (tripsOf v ! i) = Some ''urgent'' then Inr []
               else collect (rescheduleOptionFor newTrip v i) rescheduleSlots)
               [0 ..< length (tripsOf v)]) vehicles)
       (\<lambda>options. Inr (take 3 (sort_by (\<lambda>a b. newTripScore b - newTripScore a) options)))"

text \<open>\<open>trip.pickup.toLowerCase()\<close> throws on a missing pickup.\<close>

definition lowerPickup :: "trip \<Rightarrow> error + string" where
  "lowerPickup t = (case pickup t of None \<Rightarrow> Inl TypeError | Some p \<Rightarrow> Inr (toLowerCase p))"

definition sameTown :: "string \<Rightarrow> string \<Rightarrow> bool" where
  "sameTown tripLocation otherLocation =
     (sublist hyeres tripLocation \<and> sublist hyeres otherLocation \<or>
      sublist ''toulon'' tripLocation \<and> sublist ''toulon'' otherLocation \<or>
      sublist ''la seyne'' tripLocation \<and> sublist ''la seyne'' otherLocation)"

definition nearbyTrip :: "trip \<Rightarrow> trip \<Rightarrow> error + trip list" where
  "nearbyTrip t other =
     bind (lowerPickup t) (\<lambda>tripLocation.
     bind (lowerPickup other) (\<lambda>otherLocation.
       Inr (if sameTown tripLocation otherLocation then [other] else [])))"

definition findNearbyTrips :: "trip \<Rightarrow> trip list \<Rightarrow> error + trip list" where
  "findNearbyTrips t allTrips =
     bind (collect (nearbyTrip t)
            (filter (\<lambda>other. trip_id other \<noteq> trip_id t \<and> trip_status other \<noteq> Some ''completed'')
               allTrips))
       (\<lambda>near. Inr (take 3 near))"

definition canCombineTrips :: "trip \<Rightarrow> trip \<Rightarrow> bool" where
  "canCombineTrips trip1 trip2 =
     (let time1 = convertTimeToMinutes (tripTime trip1);
          time2 = convertTimeToMinutes (tripTime trip2)
      in abs_num (time1 - time2) \<le> Num 60 \<and>
         vehicleType trip1 = vehicleType trip2 \<and>
         priority trip1 \<noteq> Some ''urgent'' \<and> priority trip2 \<noteq> Some ''urgent'')"

text \<open>\<open>evaluateCombinedTrips\<close> and \<open>evaluateMultiVehicleCoordination\<close>: \<open>None\<close> is
  \<open>{ feasible: false }\<close>.\<close>

definition evaluateCombinedTrips :: "trip \<Rightarrow> trip \<Rightarrow> vehicle list \<Rightarrow> trip_optimization_option option" where
  "evaluateCombinedTrips trip1 trip2 vehicles =
     (case filter (\<lambda>v. vehicle_type v = vehicleType trip1) vehicles of
        [] \<Rightarrow> None
      | v # rest \<Rightarrow> Some (CombineTrips (patient trip2) (vehicle_name v) 90 15))"

definition evaluateMultiVehicleCoordination :: "trip \<Rightarrow> vehicle list \<Rightarrow> trip_optimization_option option" where
  "evaluateMultiVehicleCoordination t vehicles =
     (case filter (\<lambda>v. vehicle_status v = Some ''available'') vehicles of
        v1 # v2 # rest \<Rightarrow> Some (MultiVehicle (vehicle_name v1) (vehicle_name v2))
      | _ \<Rightarrow> None)"

definition suggestTripOptimizations ::
  "trip \<Rightarrow> vehicle list \<Rightarrow> trip list \<Rightarrow> error + trip_optimization_option list" where
  "suggestTripOptimizations t vehicles allTrips =
     bind (findNearbyTrips t allTrips) (\<lambda>nearbyTrips.
       (let combined = concat (map (\<lambda>nearbyTrip.
                         if canCombineTrips t nearbyTrip
                         then (case evaluateCombinedTrips t nearbyTrip vehicles of
                                 None \<Rightarrow> [] | Some opt \<Rightarrow> [opt])
                         else []) nearbyTrips);
            multi = (if priority t = Some ''urgent'' \<or> priority t = Some ''high''
                     then (case evaluateMultiVehicleCoordination t vehicles of
                             None \<Rightarrow> [] | Some opt \<Rightarrow> [opt])
                     else [])
        in Inr (take 2 (combined @ multi))))"

text \<open>\<open>resolveConflicts\<close>: the strategies that have options, in order; the recommended one is
  the first.\<close>

definition resolveConflicts :: "trip \<Rightarrow> vehicle list \<Rightarrow> trip list \<Rightarrow> error + strategy list" where
  "resolveConflicts t vehicles allTrips =
     bind (findAlternativeTimeSlots t vehicles) (\<lambda>timeAlternatives.
     bind (findAlternativeVehicles t vehicles) (\<lambda>vehicleAlternatives.
     bind (suggestRescheduling t vehicles allTrips) (\<lambda>reschedulingOptions.
     bind (suggestTripOptimizations t vehicles allTrips) (\<lambda>optimizationOptions.
       Inr ((if timeAlternatives \<noteq> [] then [TimeAdjustment timeAlternatives] else []) @
            (if vehicleAlternatives \<noteq> [] then [VehicleChange vehicleAlternatives] else []) @
            (if reschedulingOptions \<noteq> [] then [RescheduleExisting reschedulingOptions] else []) @
            (if optimizationOptions \<noteq> [] then [TripOptimization optimizationOptions] else []))))))"

subsection \<open>Applying a strategy\<close>

text \<open>
  The working lists of the batch: a \<open>Map\<close> from vehicle id to the trips held (see \<open>map_set\<close>).
  The vehicles handed to the resolver carry the current list of their id; a result keeps the
  vehicle as it was when evaluated.
\<close>

type_synonym trip_lists = "(int \<times> trip list) list"

definition updatedVehicles :: "vehicle list \<Rightarrow> trip_lists \<Rightarrow> vehicle list" where
  "updatedVehicles vehicles vehicleAssignments =
     map (\<lambda>v. v\<lparr>vehicle_trips := map_of vehicleAssignments (vehicle_id v)\<rparr>) vehicles"

text \<open>\<open>currentTrips.push(x)\<close> on the list of a vehicle id; pushing to the \<open>undefined\<close> list of
  an absent id throws.\<close>

definition pushTrip :: "int \<Rightarrow> trip \<Rightarrow> trip_lists \<Rightarrow> error + trip_lists" where
  "pushTrip vehicleId t vehicleAssignments =
     (case map_of vehicleAssignments vehicleId of
        None \<Rightarrow> Inl TypeError
      | Some currentTrips \<Rightarrow> Inr (map_set vehicleId (currentTrips @ [t]) vehicleAssignments))"

text \<open>The list of an id as the \<open>existingTrips\<close> argument, whose default is \<open>[]\<close>.\<close>

definition currentTripsOf :: "trip_lists \<Rightarrow> int \<Rightarrow> trip list" where
  "currentTripsOf vehicleAssignments vehicleId =
     (case map_of vehicleAssignments vehicleId of None \<Rightarrow> [] | Some ts \<Rightarrow> ts)"

datatype resolution_details =
  TimeAdjusted "string option" string string
  | VehicleChanged "string option" nat
  | Rescheduled reschedule_option
  | TripsOptimized trip_optimization_option

text \<open>The outcome of applying a strategy: \<open>success: true\<close> with the vehicle, its score and
  the details, or \<open>success: false\<close>.\<close>

datatype resolution = Applied vehicle optimization resolution_details | NotApplied

definition applyTimeAdjustment ::
  "trip \<Rightarrow> time_option \<Rightarrow> vehicle list \<Rightarrow> trip_lists \<Rightarrow> error + trip_lists \<times> resolution" where
  "applyTimeAdjustment t timeOption vehicles vehicleAssignments =
     (let adjustedTrip = atTime t (newTime timeOption)
      in case find (\<lambda>v. vehicle_name v = to_vehicle timeOption) vehicles of
           None \<Rightarrow> Inr (vehicleAssignments, NotApplied)
         | Some targetVehicle \<Rightarrow>
             (let opt = calculateOptimizationScore adjustedTrip targetVehicle
                          (currentTripsOf vehicleAssignments (vehicle_id targetVehicle))
              in bind (scoreAboveNoConflict 60 opt) (\<lambda>ok.
                   if ok
                   then bind (pushTrip (vehicle_id targetVehicle)
                                (withDuration adjustedTrip (tripDurationHours opt))
                                vehicleAssignments) (\<lambda>va'.
                          Inr (va', Applied targetVehicle opt
                                      (TimeAdjusted (or_else (pickupTime t) (trip_time t))
                                         (newTime timeOption) (impact timeOption))))
                   else Inr (vehicleAssignments, NotApplied))))"

definition applyVehicleChange ::
  "trip \<Rightarrow> vehicle_option \<Rightarrow> vehicle list \<Rightarrow> trip_lists \<Rightarrow> error + trip_lists \<times> resolution" where
  "applyVehicleChange t vehicleOption vehicles vehicleAssignments =
     (case find (\<lambda>v. vehicle_name v = vo_vehicle vehicleOption) vehicles of
        None \<Rightarrow> Inr (vehicleAssignments, NotApplied)
      | Some targetVehicle \<Rightarrow>
          (let opt = calculateOptimizationScore t targetVehicle
                       (currentTripsOf vehicleAssignments (vehicle_id targetVehicle))
           in if Num 30 < score opt
              then bind (pushTrip (vehicle_id targetVehicle)
                           (withDuration t (tripDurationHours opt)) vehicleAssignments) (\<lambda>va'.
                   bind (conflictsLength opt) (\<lambda>n.
                     Inr (va', Applied targetVehicle opt
                                 (VehicleChanged (vo_vehicle vehicleOption) n))))
              else Inr (vehicleAssignments, NotApplied)))"

text \<open>The position of the first trip of a patient, for \<open>currentTrips.find\<close>.\<close>

fun firstIndex :: "('a \<Rightarrow> bool) \<Rightarrow> 'a list \<Rightarrow> nat option" where
  "firstIndex p [] = None"
| "firstIndex p (x # xs) = (if p x then Some 0 else map_option Suc (firstIndex p xs))"

definition applyRescheduling ::
  "trip \<Rightarrow> reschedule_option \<Rightarrow> vehicle list \<Rightarrow> trip_lists \<Rightarrow> error + trip_lists \<times> resolution" where
  "applyRescheduling t reschedulingOption vehicles vehicleAssignments =
     (case find (\<lambda>v. vehicle_name v = ro_vehicle reschedulingOption) vehicles of
        None \<Rightarrow> Inr (vehicleAssignments, NotApplied)
      | Some targetVehicle \<Rightarrow>
          (case map_of vehicleAssignments (vehicle_id targetVehicle) of
             None \<Rightarrow> Inl TypeError
           | Some currentTrips \<Rightarrow>
               (case firstIndex (\<lambda>x. patient x = ro_patient reschedulingOption) currentTrips of
                  None \<Rightarrow> Inr (vehicleAssignments, NotApplied)
                | Some i \<Rightarrow>
                    (let tripToReschedule = currentTrips ! i;
                         rescheduledTrip = atTime tripToReschedule (ro_newTime reschedulingOption);
                         updatedTrips = take i currentTrips @ drop (Suc i) currentTrips @
                                        [rescheduledTrip, withDuration t (Num 1)];
                         opt = calculateOptimizationScore t targetVehicle updatedTrips
                     in Inr (map_set (vehicle_id targetVehicle) updatedTrips vehicleAssignments,
                             Applied targetVehicle opt (Rescheduled reschedulingOption))))))"

definition applyTripOptimization ::
  "trip \<Rightarrow> trip_optimization_option \<Rightarrow> vehicle list \<Rightarrow> trip_lists \<Rightarrow>
   error + trip_lists \<times> resolution" where
  "applyTripOptimization t optimizationOption vehicles vehicleAssignments =
     (case optimizationOption of
        CombineTrips nearbyPatient vehicleName estimatedTime savings \<Rightarrow>
          (case find (\<lambda>v. vehicle_name v = vehicleName) vehicles of
             None \<Rightarrow> Inr (vehicleAssignments, NotApplied)
           | Some targetVehicle \<Rightarrow>
               (let opt = calculateOptimizationScore t targetVehicle
                            (currentTripsOf vehicleAssignments (vehicle_id targetVehicle))
                in if Num 40 < score opt
                   then bind (pushTrip (vehicle_id targetVehicle)
                                (withDuration t (Num (real_of_int estimatedTime / 60)))
                                vehicleAssignments) (\<lambda>va'.
                          Inr (va', Applied targetVehicle opt (TripsOptimized optimizationOption)))
                   else Inr (vehicleAssignments, NotApplied)))
      | MultiVehicle primaryVehicle supportVehicle \<Rightarrow> Inr (vehicleAssignments, NotApplied))"

text \<open>\<open>applyResolutionStrategy\<close>, on \<open>strategy.options[0]\<close>; reading a property of the first
  option of an empty list throws.\<close>

definition applyResolutionStrategy ::
  "trip \<Rightarrow> strategy \<Rightarrow> vehicle list \<Rightarrow> trip_lists \<Rightarrow> error + trip_lists \<times> resolution" where
  "applyResolutionStrategy t s vehicles vehicleAssignments =
     (case s of
        TimeAdjustment os \<Rightarrow>
          (case os of [] \<Rightarrow> Inl TypeError
           | opt # rest \<Rightarrow> applyTimeAdjustment t opt vehicles vehicleAssignments)
      | VehicleChange os \<Rightarrow>
          (case os of [] \<Rightarrow> Inl TypeError
           | opt # rest \<Rightarrow> applyVehicleChange t opt vehicles vehicleAssignments)
      | RescheduleExisting os \<Rightarrow>
          (case os of [] \<Rightarrow> Inl TypeError
           | opt # rest \<Rightarrow> applyRescheduling t opt vehicles vehicleAssignments)
      | TripOptimization os \<Rightarrow>
          (case os of [] \<Rightarrow> Inl TypeError
           | opt # rest \<Rightarrow> applyTripOptimization t opt vehicles vehicleAssignments))"

subsection \<open>The batch optimizer\<close>

text \<open>The assignment of a result: the recommended evaluation of the first pass, or the vehicle
  and score of an applied resolution.\<close>

datatype batch_assignment = Recommended evaluation | Resolved vehicle optimization

definition assignmentOptimization :: "batch_assignment \<Rightarrow> optimization" where
  "assignmentOptimization a =
     (case a of Recommended ev \<Rightarrow> ev_optimization ev | Resolved v opt \<Rightarrow> opt)"

record batch_entry =
  be_trip :: trip
  be_assignment :: "batch_assignment option"
  be_status :: string
  resolutionApplied :: "string option"
  resolutionDetails :: "resolution_details option"
  availableStrategies :: "string list"

record batch_state =
  lists :: trip_lists
  results :: "batch_entry list"
  unresolvableConflicts :: "trip list"

definition compareBatchTrips :: "trip \<Rightarrow> trip \<Rightarrow> number" where
  "compareBatchTrips a b =
     (let priorityDiff = priorityOrder (priority b) - priorityOrder (priority a)
      in if priorityDiff \<noteq> Num 0 then priorityDiff
         else of_integer (localeCompare (tripTime a) (tripTime b)))"

definition initialLists :: "vehicle list \<Rightarrow> trip_lists" where
  "initialLists vehicles = foldl (\<lambda>m v. map_set (vehicle_id v) (tripsOf v) m) [] vehicles"

text \<open>One round of the first pass.\<close>

definition firstPassStep :: "vehicle list \<Rightarrow> batch_state \<Rightarrow> trip \<Rightarrow> error + batch_state" where
  "firstPassStep vehicles st t =
     (let assignment = findBestVehicleAssignment t (updatedVehicles vehicles (lists st));
          defer = Inr (st\<lparr>unresolvableConflicts := unresolvableConflicts st @ [t]\<rparr>)
      in if success assignment
         then (case recommended assignment of
                 None \<Rightarrow> Inl TypeError
               | Some ev \<Rightarrow>
                   bind (conflictsLength (ev_optimization ev)) (\<lambda>n.
                     if n = 0
                     then bind (pushTrip (vehicle_id (ev_vehicle ev))
                                  (withDuration t (tripDurationHours (ev_optimization ev)))
                                  (lists st)) (\<lambda>va'.
                            Inr (st\<lparr>lists := va',
                                    results := results st @
                                      [\<lparr>be_trip = t, be_assignment = Some (Recommended ev),
                                        be_status = ''assigned'', resolutionApplied = None,
                                        resolutionDetails = None, availableStrategies = []\<rparr>]\<rparr>))
                     else defer))
         else defer)"

fun firstPass :: "vehicle list \<Rightarrow> batch_state \<Rightarrow> trip list \<Rightarrow> error + batch_state" where
  "firstPass vehicles st [] = Inr st"
| "firstPass vehicles st (t # rest) =
     bind (firstPassStep vehicles st t) (\<lambda>st'. firstPass vehicles st' rest)"

text \<open>One round of the second pass, for a deferred trip.\<close>

definition secondPassStep ::
  "vehicle list \<Rightarrow> trip list \<Rightarrow> batch_state \<Rightarrow> trip \<Rightarrow> error + batch_state" where
  "secondPassStep vehicles trips st conflictTrip =
     (let vs = updatedVehicles vehicles (lists st)
      in bind (resolveConflicts conflictTrip vs trips) (\<lambda>resolutionStrategies.
           case resolutionStrategies of
             [] \<Rightarrow>
               Inr (st\<lparr>results := results st @
                          [\<lparr>be_trip = conflictTrip, be_assignment = None,
                            be_status = ''unassigned'', resolutionApplied = None,
                            resolutionDetails = None, availableStrategies = []\<rparr>]\<rparr>)
           | s # others \<Rightarrow>
               bind (applyResolutionStrategy conflictTrip s vs (lists st)) (\<lambda>applied.
                 case snd applied of
                   Applied v opt resolved \<Rightarrow>
                     Inr (st\<lparr>lists := fst applied,
                             results := results st @
                               [\<lparr>be_trip = conflictTrip, be_assignment = Some (Resolved v opt),
                                 be_status = ''assigned'',
                                 resolutionApplied = Some (strategyType s),
                                 resolutionDetails = Some resolved,
                                 availableStrategies = []\<rparr>]\<rparr>)
                 | NotApplied \<Rightarrow>
                     Inr (st\<lparr>lists := fst applied,
                             results := results st @
                               [\<lparr>be_trip = conflictTrip, be_assignment = None,
                                 be_status = ''unassigned'', resolutionApplied = None,
                                 resolutionDetails = None,
                                 availableStrategies = map strategyType resolutionStrategies\<rparr>]\<rparr>))))"

fun secondPass :: "vehicle list \<Rightarrow> trip list \<Rightarrow> batch_state \<Rightarrow> trip list \<Rightarrow> error + batch_state" where
  "secondPass vehicles trips st [] = Inr st"
| "secondPass vehicles trips st (t # rest) =
     bind (secondPassStep vehicles trips st t) (\<lambda>st'. secondPass vehicles trips st' rest)"

record batch_summary =
  bs_totalTrips :: nat
  bs_assignedTrips :: nat
  bs_unassignedTrips :: nat
  bs_assignmentRate :: number
  bs_totalDistance :: real
  bs_totalTime :: int
  bs_averageOptimizationScore :: number
  bs_estimatedFuelCost :: real
  totalConflicts :: nat
  resolvedConflicts :: nat
  unresolvedConflicts :: nat
  resolutionRate :: int

text \<open>\<open>r.assignment.optimization.details.totalDistance || 0\<close> and the like, over the assigned
  results.\<close>

definition detailOr0 :: "(details \<Rightarrow> 'a::zero) \<Rightarrow> batch_entry \<Rightarrow> 'a" where
  "detailOr0 f r =
     (case be_assignment r of
        None \<Rightarrow> 0
      | Some a \<Rightarrow> (case detail f (assignmentOptimization a) of None \<Rightarrow> 0 | Some x \<Rightarrow> x))"

definition batchSummary :: "trip list \<Rightarrow> batch_state \<Rightarrow> batch_summary" where
  "batchSummary trips st =
     (let assigned = filter (\<lambda>r. be_status r = ''assigned'') (results st);
          unassigned = filter (\<lambda>r. be_status r = ''unassigned'') (results st);
          resolvedConflictCount = length (filter (\<lambda>r. resolutionApplied r \<noteq> None) (results st));
          totalDist = foldl (+) 0 (map (detailOr0 totalDistance) assigned);
          totalTm = foldl (+) 0 (map (detailOr0 totalTime) assigned);
          averageScore =
            foldl (+) (Num 0) (map (\<lambda>r. case be_assignment r of
                                           None \<Rightarrow> NaN
                                         | Some a \<Rightarrow> score (assignmentOptimization a))
                                 assigned)
              / Num (real (max (length assigned) 1))
      in \<lparr>bs_totalTrips = length trips,
          bs_assignedTrips = length assigned,
          bs_unassignedTrips = length unassigned,
          bs_assignmentRate =
            round_num (Num (real (length assigned)) / Num (real (length trips)) * Num 100),
          bs_totalDistance = real_of_int (Math_round (totalDist * 10)) / 10,
          bs_totalTime = Math_round (real_of_int totalTm),
          bs_averageOptimizationScore = round_num averageScore,
          bs_estimatedFuelCost = real_of_int (Math_round (totalDist * (15 / 100) * 100)) / 100,
          totalConflicts = length (unresolvableConflicts st),
          resolvedConflicts = resolvedConflictCount,
          unresolvedConflicts = length unassigned,
          resolutionRate =
            Math_round (real resolvedConflictCount /
                        real (max (length (unresolvableConflicts st)) 1) * 100)\<rparr>)"

record batch_result =
  br_results :: "batch_entry list"
  br_summary :: batch_summary

definition optimizeMultipleTrips :: "trip list \<Rightarrow> vehicle list \<Rightarrow> error + batch_result" where
  "optimizeMultipleTrips trips vehicles =
     (let sortedTrips = sort_by compareBatchTrips trips
      in bind (firstPass vehicles
                 \<lparr>lists = initialLists vehicles, results = [], unresolvableConflicts = []\<rparr>
                 sortedTrips) (\<lambda>st1.
         bind (secondPass vehicles trips st1 (unresolvableConflicts st1)) (\<lambda>st2.
           Inr \<lparr>br_results = results st2, br_summary = batchSummary trips st2\<rparr>)))"

definition tripWithoutPickup :: trip where
  "tripWithoutPickup = exampleTrip\<lparr>pickup := None\<rparr>"

text \<open>The two statuses of a result.\<close>

definition statusOk :: "batch_entry \<Rightarrow> bool" where
  "statusOk e = (be_status e = ''assigned'' \<or> be_status e = ''unassigned'')"

text \<open>A trip with a pickup and a destination whose vehicle type does not name a member
  inherited by every object, and working lists that hold every vehicle id.\<close>

definition wfTrip :: "trip \<Rightarrow> bool" where
  "wfTrip t =
     (pickup t \<noteq> None \<and> destination t \<noteq> None \<and>
      literalGet ([] :: (string \<times> real) list) (vehicleType t) = Missing)"

definition keysOk :: "vehicle list \<Rightarrow> trip_lists \<Rightarrow> bool" where
  "keysOk vehicles vehicleAssignments =
     (\<forall>v \<in> set vehicles. map_of vehicleAssignments (vehicle_id v) \<noteq> None)"

text \<open>A strategy with at least one option.\<close>

definition hasOption :: "strategy \<Rightarrow> bool" where
  "hasOption s =
     (case s of
        TimeAdjustment os \<Rightarrow> os \<noteq> []
      | VehicleChange os \<Rightarrow> os \<noteq> []
      | RescheduleExisting os \<Rightarrow> os \<noteq> []
      | TripOptimization os \<Rightarrow> os \<noteq> [])"

text \<open>A fleet whose only vehicle is in maintenance, and a second trip from Toulon ten minutes
  after the example trip.\<close>

definition maintenanceVehicle :: vehicle where
  "maintenanceVehicle = exampleVehicle\<lparr>vehicle_status := Some ''maintenance''\<rparr>"

definition laterTrip :: trip where
  "laterTrip = exampleTrip\<lparr>trip_id := 2, patient := Some ''Patient B'', pickupTime := Some ''09:10''\<rparr>"

section \<open>Arithmetic of numbers\<close>

lemma plus_Num [simp]: "Num x + Num y = Num (x + y)"
  by (simp add: plus_number_def)

lemma plus_NaN [simp]: "NaN + a = NaN" "a + NaN = NaN"
  by (simp_all add: plus_number_def split: number.splits)

lemma minus_Num [simp]: "Num x - Num y = Num (x - y)"
  by (simp add: minus_number_def uminus_number_def)

lemma minus_NaN [simp]: "NaN - a = NaN" "a - NaN = NaN"
  by (simp_all add: minus_number_def uminus_number_def)

lemma times_Num [simp]: "Num x * Num y = Num (x * y)"
  by (simp add: times_number_def)

lemma times_NaN [simp]: "NaN * a = NaN" "a * NaN = NaN"
  by (simp_all add: times_number_def split: number.splits)

lemma divide_Num [simp]: "y \<noteq> 0 \<Longrightarrow> Num x / Num y = Num (x / y)"
  by (simp add: divide_number_def)

lemma less_Num [simp]: "Num x < Num y \<longleftrightarrow> x < y"
  by (simp add: less_number_def)

lemma less_NaN [simp]: "\<not> NaN < a" "\<not> a < NaN"
  by (simp_all add: less_number_def split: number.splits)

lemma less_eq_Num [simp]: "Num x \<le> Num y \<longleftrightarrow> x \<le> y"
  by (auto simp: less_eq_number_def)

lemma less_eq_NaN [simp]: "\<not> NaN \<le> a" "\<not> a \<le> NaN"
  by (auto simp: less_eq_number_def)

lemma round_num_simps [simp]:
  "round_num (Num x) = Num (real_of_int \<lfloor>x + 1 / 2\<rfloor>)" "round_num NaN = NaN"
  by (simp_all add: round_num_def)

lemma floor_num_simps [simp]:
  "floor_num (Num x) = Num (real_of_int \<lfloor>x\<rfloor>)" "floor_num NaN = NaN"
  by (simp_all add: floor_num_def)

lemma abs_num_simps [simp]: "abs_num (Num x) = Num \<bar>x\<bar>" "abs_num NaN = NaN"
  by (simp_all add: abs_num_def)

lemma max_num_simps [simp]:
  "max_num (Num x) (Num y) = Num (max x y)" "max_num NaN a = NaN" "max_num a NaN = NaN"
  by (simp_all add: max_num_def max_def)

lemma min_num_simps [simp]:
  "min_num (Num x) (Num y) = Num (min x y)" "min_num NaN a = NaN" "min_num a NaN = NaN"
  by (auto simp: min_num_def min_def)

lemma of_integer_simp [simp]: "of_integer i = Num (real_of_int i)"
  by (simp add: of_integer_def)

lemma bind_Inr_iff: "bind m f = Inr y \<longleftrightarrow> (\<exists>x. m = Inr x \<and> f x = Inr y)"
  by (cases m) (simp_all add: bind_def)

lemma bind_Inl [simp]: "bind (Inl e) f = Inl e"
  by (simp add: bind_def)

lemma bind_Inr [simp]: "bind (Inr x) f = f x"
  by (simp add: bind_def)

lemma Math_round_bounds:
  assumes "real_of_int lo \<le> x" and "x \<le> real_of_int hi"
  shows "lo \<le> Math_round x \<and> Math_round x \<le> hi"
proof -
  have "real_of_int lo \<le> x + 1 / 2" using assms by simp
  then have a: "lo \<le> \<lfloor>x + 1 / 2\<rfloor>" by (simp add: le_floor_iff)
  have "x + 1 / 2 < real_of_int hi + 1" using assms by simp
  then have "\<lfloor>x + 1 / 2\<rfloor> \<le> hi" by (simp add: floor_le_iff)
  with a show ?thesis by (simp add: Math_round_def)
qed

section \<open>Lookups in object literals\<close>

text \<open>A key that names no member of \<open>Object.prototype\<close>.\<close>

lemma literalGet_plain:
  assumes "literalGet ([] :: (string \<times> real) list) k = Missing"
  shows "literalGet table k = (case map_of table (propertyKey k) of Some v \<Rightarrow> Own v | None \<Rightarrow> Missing)"
  using assms by (auto simp: literalGet_def split: option.splits if_splits jsvalue.splits)

lemma nestedGet_plain:
  assumes "literalGet ([] :: (string \<times> real) list) k1 = Missing"
    and "literalGet ([] :: (string \<times> real) list) k2 = Missing"
  shows "nestedGet table k1 k2 =
     Inr (case map_of table (propertyKey k1) of
            None \<Rightarrow> Undefined
          | Some row \<Rightarrow> (case map_of row (propertyKey k2) of None \<Rightarrow> Undefined
                         | Some x \<Rightarrow> Numeric (Num x)))"
  by (simp add: nestedGet_def literalGet_plain[OF assms(1)] literalGet_plain[OF assms(2)]
      propertyValue_def split: option.splits)

section \<open>Properties of the scoring model\<close>

lemma getVehicleTypeScore_plain:
  assumes "literalGet ([] :: (string \<times> real) list) r = Missing"
    and "literalGet ([] :: (string \<times> real) list) v = Missing"
  shows "\<exists>n. getVehicleTypeScore r v = Inr (Numeric (Num (real_of_int n))) \<and> 20 \<le> n \<and> n \<le> 100"
proof (cases "r = v")
  case True
  then show ?thesis by (simp add: getVehicleTypeScore_def)
next
  case False
  have "getVehicleTypeScore r v \<in>
      (\<lambda>n. Inr (Numeric (Num (real_of_int n)))) ` {20, 30, 60, 70, 80, 85, 90}"
    using False
    by (auto simp: getVehicleTypeScore_def nestedGet_plain[OF assms] compatibility_def
        or_number_def truthy_value_def truthy_num_def split: option.splits)
  then show ?thesis by auto
qed

lemma getPriorityScore_plain:
  assumes "literalGet ([] :: (string \<times> real) list) p = Missing"
  shows "\<exists>n. getPriorityScore p = Numeric (Num (real_of_int n)) \<and> 40 \<le> n \<and> n \<le> 100"
proof -
  have "getPriorityScore p \<in> (\<lambda>n. Numeric (Num (real_of_int n))) ` {40, 60, 85, 100}"
    by (auto simp: getPriorityScore_def literalGet_plain[OF assms] priorityScores_def
        propertyValue_def or_number_def truthy_value_def truthy_num_def split: option.splits)
  then show ?thesis by auto
qed

lemma calculateDistanceScore_range:
  "20 \<le> calculateDistanceScore d \<and> calculateDistanceScore d \<le> 100"
  by (simp add: calculateDistanceScore_def)

lemma calculateTimeSlotScore_range:
  "10 \<le> calculateTimeSlotScore t v ex \<and> calculateTimeSlotScore t v ex \<le> 100"
  by (simp add: calculateTimeSlotScore_def Let_def)

lemma finalScore_range:
  assumes "0 \<le> a \<and> a \<le> 100" "0 \<le> b \<and> b \<le> 100" "0 \<le> c \<and> c \<le> 100" "0 \<le> d \<and> d \<le> 100"
  shows "\<exists>x. finalScore (Numeric (Num (real_of_int a))) b c (Numeric (Num (real_of_int d))) = Num x \<and>
             0 \<le> x \<and> x \<le> 100"
  using assms by (simp add: finalScore_def toNumber_def)

text \<open>The body of the \<open>try\<close> block throws exactly when an address is missing or the lookup of
  the vehicle types throws.\<close>

lemma scoreAttempt_error_iff:
  "(\<exists>e. scoreAttempt t v ex = Inl e) \<longleftrightarrow>
   (pickup t = None \<or> destination t = None \<or>
    (\<exists>e. getVehicleTypeScore (vehicleType t) (vehicle_type v) = Inl e))"
  by (auto simp: scoreAttempt_def geocodeAddress_def Let_def bind_def
      split: option.splits sum.splits)

text \<open>
  When the priority and the two vehicle types name no inherited member, the score is an
  integer between 0 and 100.
\<close>

lemma scoreAttempt_score_range:
  assumes "scoreAttempt t v ex = Inr r"
    and "literalGet ([] :: (string \<times> real) list) (priority t) = Missing"
    and "literalGet ([] :: (string \<times> real) list) (vehicleType t) = Missing"
    and "literalGet ([] :: (string \<times> real) list) (vehicle_type v) = Missing"
  shows "\<exists>k. score r = Num (real_of_int k) \<and> 0 \<le> k \<and> k \<le> 100"
proof -
  obtain a where a: "getVehicleTypeScore (vehicleType t) (vehicle_type v) =
      Inr (Numeric (Num (real_of_int a)))" "20 \<le> a" "a \<le> 100"
    using getVehicleTypeScore_plain[OF assms(3,4)] by blast
  obtain p where p: "getPriorityScore (priority t) = Numeric (Num (real_of_int p))"
      "40 \<le> p" "p \<le> 100"
    using getPriorityScore_plain[OF assms(2)] by blast
  let ?tss = "calculateTimeSlotScore t v ex"
  obtain d where s: "score r = round_num (finalScore (Numeric (Num (real_of_int a))) ?tss
      (calculateDistanceScore d) (Numeric (Num (real_of_int p))))"
    using assms(1) a(1) p(1)
    by (auto simp: scoreAttempt_def Let_def bind_def split: sum.splits)
  have "0 \<le> ?tss \<and> ?tss \<le> 100" using calculateTimeSlotScore_range[of t v ex] by simp
  moreover have "0 \<le> calculateDistanceScore d \<and> calculateDistanceScore d \<le> 100"
    using calculateDistanceScore_range[of d] by simp
  moreover have "0 \<le> a \<and> a \<le> 100" using a by simp
  moreover have "0 \<le> p \<and> p \<le> 100" using p by simp
  ultimately obtain x where x: "finalScore (Numeric (Num (real_of_int a))) ?tss
      (calculateDistanceScore d) (Numeric (Num (real_of_int p))) = Num x" "0 \<le> x" "x \<le> 100"
    using finalScore_range[of a ?tss "calculateDistanceScore d" p] by blast
  have "0 \<le> Math_round x \<and> Math_round x \<le> 100"
    using Math_round_bounds[of 0 x 100] x by simp
  then show ?thesis using s x(1) by (auto simp: Math_round_def)
qed

lemma calculateOptimizationScore_bounded:
  assumes "literalGet ([] :: (string \<times> real) list) (priority t) = Missing"
    and "literalGet ([] :: (string \<times> real) list) (vehicleType t) = Missing"
    and "literalGet ([] :: (string \<times> real) list) (vehicle_type v) = Missing"
  shows "\<exists>k. score (calculateOptimizationScore t v ex) = Num (real_of_int k) \<and> 0 \<le> k \<and> k \<le> 100"
proof (cases "scoreAttempt t v ex")
  case (Inl e)
  then have "score (calculateOptimizationScore t v ex) = Num (real_of_int 0)"
    by (simp add: calculateOptimizationScore_def)
  then show ?thesis by fastforce
next
  case (Inr r)
  then show ?thesis using scoreAttempt_score_range[OF Inr assms]
    by (simp add: calculateOptimizationScore_def)
qed

text \<open>
  Claim C9. \<open>calculateDistanceScore\<close> is the step function 100 / 80 / 60 / 40 / 20 with steps
  at 10, 20, 40 and 60 km; it never increases when the distance grows, and it is never zero.
\<close>

theorem calculateDistanceScore_steps:
  "(d \<le> 10 \<longrightarrow> calculateDistanceScore d = 100) \<and>
   (10 < d \<and> d \<le> 20 \<longrightarrow> calculateDistanceScore d = 80) \<and>
   (20 < d \<and> d \<le> 40 \<longrightarrow> calculateDistanceScore d = 60) \<and>
   (40 < d \<and> d \<le> 60 \<longrightarrow> calculateDistanceScore d = 40) \<and>
   (60 < d \<longrightarrow> calculateDistanceScore d = 20) \<and>
   (\<forall>d1 d2. d1 \<le> d2 \<longrightarrow> calculateDistanceScore d2 \<le> calculateDistanceScore d1) \<and>
   calculateDistanceScore d \<noteq> 0"
  by (simp add: calculateDistanceScore_def)

theorem calculateDistanceScore_steps_witness:
  "calculateDistanceScore 10 = 100 \<and> calculateDistanceScore 20 = 80 \<and>
   calculateDistanceScore 40 = 60 \<and> calculateDistanceScore 60 = 40 \<and>
   calculateDistanceScore 61 = 20 \<and> calculateDistanceScore 61 \<le> calculateDistanceScore 10"
proof -
  have "calculateDistanceScore 10 = 100" using calculateDistanceScore_steps[of 10] by simp
  moreover have "calculateDistanceScore 20 = 80" using calculateDistanceScore_steps[of 20] by simp
  moreover have "calculateDistanceScore 40 = 60" using calculateDistanceScore_steps[of 40] by simp
  moreover have "calculateDistanceScore 60 = 40" using calculateDistanceScore_steps[of 60] by simp
  moreover have "calculateDistanceScore 61 = 20" using calculateDistanceScore_steps[of 61] by simp
  ultimately show ?thesis by simp
qed

subsection \<open>A priority that names an inherited member\<close>

lemma geocode_Toulon: "geocodeAddress (Some ''Toulon'') = Inr \<lparr>lat = 43.1242, lng = 5.9282\<rparr>"
  by code_simp

lemma geocode_Avignon: "geocodeAddress (Some ''Avignon'') = Inr \<lparr>lat = 43.9493, lng = 4.8055\<rparr>"
  by code_simp

lemma getPriorityScore_constructor:
  "getPriorityScore (Some ''constructor'') = Builtin ObjectConstructor"
  by code_simp

text \<open>With a sub-score that is not a number the weighted sum is \<open>NaN\<close>, whatever the others.\<close>

lemma finalScore_builtin: "finalScore vts tss ds (Builtin b) = NaN"
  by (simp add: finalScore_def toNumber_def)

lemma scoreAttempt_inheritedPriority:
  "\<exists>d. scoreAttempt inheritedPriorityTrip exampleVehicle ex =
     Inr \<lparr>score = NaN, opt_details = Details d, originalScore = None\<rparr> \<and>
     priorityScore d = Builtin ObjectConstructor \<and> conflicts d = detectConflicts inheritedPriorityTrip ex"
  by (simp add: scoreAttempt_def inheritedPriorityTrip_def exampleTrip_def exampleVehicle_def
      geocode_Toulon geocode_Avignon or_default_def getVehicleTypeScore_def
      getPriorityScore_constructor finalScore_builtin Let_def)

lemma score_inheritedPriority:
  "score (calculateOptimizationScore inheritedPriorityTrip exampleVehicle ex) = NaN \<and>
   (case opt_details (calculateOptimizationScore inheritedPriorityTrip exampleVehicle ex) of
      Details d \<Rightarrow> priorityScore d = Builtin ObjectConstructor
    | ErrorDetails msg \<Rightarrow> False)"
proof -
  obtain d where "scoreAttempt inheritedPriorityTrip exampleVehicle ex =
     Inr \<lparr>score = NaN, opt_details = Details d, originalScore = None\<rparr>"
     "priorityScore d = Builtin ObjectConstructor"
    using scoreAttempt_inheritedPriority[of ex] by blast
  then show ?thesis by (simp add: calculateOptimizationScore_def)
qed

text \<open>
  Claim C3 states that the score of \<open>calculateOptimizationScore\<close> is an integer between 0
  and 100 for every input, and 0 with an error text when something fails inside. The code
  does not have this property. \<open>getPriorityScore\<close> reads \<open>priorityScores[priority] || 60\<close>
  in an object literal, and for the priority \<open>constructor\<close> the lookup finds the function
  \<open>Object\<close>, which every object inherits; the fallback to 60 does not apply, the weighted
  sum is \<open>NaN\<close>, nothing is thrown, and the result is the score \<open>NaN\<close> with full details
  whose priority score is that function.
\<close>

theorem calculateOptimizationScore_not_a_number:
  "getPriorityScore (priority inheritedPriorityTrip) = Builtin ObjectConstructor \<and>
   score (calculateOptimizationScore inheritedPriorityTrip exampleVehicle []) = NaN \<and>
   \<not> Num 0 \<le> score (calculateOptimizationScore inheritedPriorityTrip exampleVehicle []) \<and>
   (case opt_details (calculateOptimizationScore inheritedPriorityTrip exampleVehicle []) of
      Details d \<Rightarrow> priorityScore d = Builtin ObjectConstructor
    | ErrorDetails msg \<Rightarrow> False)"
  using score_inheritedPriority[of "[]"]
  by (simp add: inheritedPriorityTrip_def getPriorityScore_constructor)

section \<open>Properties of the single-trip assignment\<close>

lemma set_insert_by: "set (insert_by cmp x xs) = insert x (set xs)"
  by (induction xs) auto

lemma set_sort_by: "set (sort_by cmp xs) = set xs"
  by (induction xs) (simp_all add: sort_by_def set_insert_by)

lemma length_insert_by: "length (insert_by cmp x xs) = Suc (length xs)"
  by (induction xs) auto

lemma length_sort_by: "length (sort_by cmp xs) = length xs"
  by (induction xs) (simp_all add: sort_by_def length_insert_by)

lemma sort_by_single: "sort_by cmp [x] = [x]"
  by (simp add: sort_by_def)

lemma evaluateVehicle_vehicle: "ev_vehicle (evaluateVehicle t v) = v"
  by (auto simp: evaluateVehicle_def evaluateAttempt_def errorEvaluation_def Let_def bind_def
      split: sum.splits)

lemma sortedEvaluations_member:
  assumes "ev \<in> set (sortedEvaluations t vehicles)"
  shows "ev_vehicle ev \<in> set vehicles \<and> vehicle_status (ev_vehicle ev) \<noteq> Some ''maintenance'' \<and>
         ev = evaluateVehicle t (ev_vehicle ev)"
proof -
  from assms obtain v where v: "v \<in> set vehicles" "vehicle_status v \<noteq> Some ''maintenance''"
      "ev = evaluateVehicle t v"
    by (auto simp: sortedEvaluations_def set_sort_by)
  then show ?thesis using evaluateVehicle_vehicle[of t v] by simp
qed

lemma sortedEvaluations_empty:
  "sortedEvaluations t vehicles = [] \<longleftrightarrow>
   filter (\<lambda>v. vehicle_status v \<noteq> Some ''maintenance'') vehicles = []"
proof -
  have "length (sortedEvaluations t vehicles) =
      length (filter (\<lambda>v. vehicle_status v \<noteq> Some ''maintenance'') vehicles)"
    by (simp add: sortedEvaluations_def length_sort_by)
  then show ?thesis by (metis length_0_conv)
qed

lemma findBest_none:
  assumes "filter (\<lambda>v. vehicle_status v \<noteq> Some ''maintenance'') vehicles = []"
  shows "findBestVehicleAssignment t vehicles =
     \<lparr>success = False, recommended = None, alternatives = [],
      message = NoVehicleAvailable, lowScore = None, forceAssigned = None,
      forced = False, warning = False, debugInfo = []\<rparr>"
  using assms by (simp add: findBestVehicleAssignment_def)

text \<open>With a candidate, the result is one of the two accepting branches, by the score of the
  first evaluation.\<close>

lemma findBest_some:
  assumes "sortedEvaluations t vehicles = best # rest"
  shows "findBestVehicleAssignment t vehicles =
     (if Num 5 < score (ev_optimization best)
      then \<lparr>success = True, recommended = Some best, alternatives = take 4 rest,
            message = Assigned (vehicle_name (ev_vehicle best)) (score (ev_optimization best)),
            lowScore = Some (score (ev_optimization best) < Num 50),
            forceAssigned = Some (score (ev_optimization best) < Num 30),
            forced = False, warning = False, debugInfo = []\<rparr>
      else \<lparr>success = True, recommended = Some best, alternatives = take 4 rest,
            message = ForcedAssignment (vehicle_name (ev_vehicle best)) (score (ev_optimization best)),
            lowScore = None, forceAssigned = None,
            forced = True, warning = True, debugInfo = []\<rparr>)"
proof -
  have "filter (\<lambda>v. vehicle_status v \<noteq> Some ''maintenance'') vehicles \<noteq> []"
    using assms sortedEvaluations_empty[of t vehicles] by simp
  then show ?thesis using assms
    by (simp add: findBestVehicleAssignment_def sortedEvaluations_def Let_def)
qed

lemma findBest_some_success:
  assumes "sortedEvaluations t vehicles = best # rest"
  shows "success (findBestVehicleAssignment t vehicles) \<and>
         recommended (findBestVehicleAssignment t vehicles) = Some best \<and>
         alternatives (findBestVehicleAssignment t vehicles) = take 4 rest"
  by (simp add: findBest_some[OF assms])

text \<open>
  Claim C2. \<open>findBestVehicleAssignment\<close> returns \<open>success: false\<close> exactly when every
  vehicle of the list is in maintenance; as soon as one vehicle is not, it returns
  \<open>success: true\<close> with a recommended vehicle of the list, whatever the trip.
\<close>

theorem findBest_success_iff:
  "(success (findBestVehicleAssignment t vehicles) = False \<longleftrightarrow>
      (\<forall>v \<in> set vehicles. vehicle_status v = Some ''maintenance'')) \<and>
   ((\<exists>v \<in> set vehicles. vehicle_status v \<noteq> Some ''maintenance'') \<longrightarrow>
      success (findBestVehicleAssignment t vehicles) \<and>
      (\<exists>ev. recommended (findBestVehicleAssignment t vehicles) = Some ev \<and>
            ev_vehicle ev \<in> set vehicles))"
proof (cases "sortedEvaluations t vehicles")
  case Nil
  then have none: "filter (\<lambda>v. vehicle_status v \<noteq> Some ''maintenance'') vehicles = []"
    using sortedEvaluations_empty[of t vehicles] by simp
  then have "\<forall>v \<in> set vehicles. vehicle_status v = Some ''maintenance''"
    by (simp add: filter_empty_conv)
  then show ?thesis using findBest_none[OF none, of t] by simp
next
  case (Cons best rest)
  then have "filter (\<lambda>v. vehicle_status v \<noteq> Some ''maintenance'') vehicles \<noteq> []"
    using sortedEvaluations_empty[of t vehicles] by simp
  then have some: "\<exists>v \<in> set vehicles. vehicle_status v \<noteq> Some ''maintenance''"
    by (simp add: filter_empty_conv)
  have "best \<in> set (sortedEvaluations t vehicles)" using Cons by simp
  then have "ev_vehicle best \<in> set vehicles"
    using sortedEvaluations_member[of best t vehicles] by simp
  then show ?thesis using findBest_some_success[OF Cons] some by auto
qed

theorem findBest_success_iff_witness:
  "success (findBestVehicleAssignment exampleTrip [exampleVehicle]) \<and>
   (\<exists>ev. recommended (findBestVehicleAssignment exampleTrip [exampleVehicle]) = Some ev \<and>
         ev_vehicle ev = exampleVehicle) \<and>
   \<not> success (findBestVehicleAssignment exampleTrip
                 [exampleVehicle\<lparr>vehicle_status := Some ''maintenance''\<rparr>])"
proof -
  have a: "\<exists>v \<in> set [exampleVehicle]. vehicle_status v \<noteq> Some ''maintenance''"
    by (simp add: exampleVehicle_def)
  have b: "\<forall>v \<in> set [exampleVehicle\<lparr>vehicle_status := Some ''maintenance''\<rparr>].
      vehicle_status v = Some ''maintenance''"
    by simp
  show ?thesis
    using a b findBest_success_iff[of exampleTrip "[exampleVehicle]"]
      findBest_success_iff[of exampleTrip "[exampleVehicle\<lparr>vehicle_status := Some ''maintenance''\<rparr>]"]
    by auto
qed

lemma findBest_members:
  assumes "recommended (findBestVehicleAssignment t vehicles) = Some ev \<or>
           ev \<in> set (alternatives (findBestVehicleAssignment t vehicles))"
  shows "ev \<in> set (sortedEvaluations t vehicles)"
proof (cases "sortedEvaluations t vehicles")
  case Nil
  then have "filter (\<lambda>v. vehicle_status v \<noteq> Some ''maintenance'') vehicles = []"
    using sortedEvaluations_empty[of t vehicles] by simp
  from findBest_none[OF this, of t] show ?thesis using assms by simp
next
  case (Cons best rest)
  have "set (take 4 rest) \<subseteq> set rest" by (rule set_take_subset)
  then show ?thesis using assms findBest_some_success[OF Cons] Cons by auto
qed

subsection \<open>The floor of the enhanced score\<close>

lemma crossTypeFactor_plain:
  assumes "literalGet ([] :: (string \<times> real) list) r = Missing"
    and "literalGet ([] :: (string \<times> real) list) v = Missing"
  shows "\<exists>c. crossTypeFactor r v = Inr (Numeric (Num c)) \<and> 0 \<le> c"
proof -
  have "crossTypeFactor r v \<in>
      (\<lambda>c. Inr (Numeric (Num c))) ` {3 / 10, 4 / 10, 6 / 10, 7 / 10, 8 / 10, 9 / 10}"
    by (auto simp: crossTypeFactor_def nestedGet_plain[OF assms] crossTypeCompatibility_def
        or_number_def truthy_value_def truthy_num_def split: option.splits)
  then show ?thesis by auto
qed

text \<open>
  When the two vehicle types name no inherited member and the base score is a number that
  is not negative, the enhanced score is an integer of at least 10.
\<close>

lemma enhanced_lower:
  assumes "0 \<le> b"
    and "literalGet ([] :: (string \<times> real) list) (vehicleType t) = Missing"
    and "literalGet ([] :: (string \<times> real) list) (vehicle_type v) = Missing"
  shows "\<exists>k. calculateEnhancedCompatibilityScore t v (Num b) = Inr (Num (real_of_int k)) \<and> 10 \<le> k"
proof -
  obtain c where c: "crossTypeFactor (vehicleType t) (vehicle_type v) = Inr (Numeric (Num c))"
      "0 \<le> c"
    using crossTypeFactor_plain[OF assms(2,3)] by blast
  define s1 where "s1 = (if vehicleType t = vehicle_type v then b + 10 else b)"
  define s2 where "s2 = (if vehicleType t \<noteq> vehicle_type v then max (s1 * c) 20 else s1)"
  define s3 where "s3 = (if priority t = Some ''urgent'' then s2 + 15
      else if priority t = Some ''high'' then s2 + 8 else s2)"
  define s4 where "s4 = (if vehicle_status v = Some ''busy'' then max (s3 * (8 / 10)) 25 else s3)"
  define s5 where "s5 = (if vehicle_status v = Some ''available'' then max s4 15 else s4)"
  have r: "calculateEnhancedCompatibilityScore t v (Num b) = Inr (Num (real_of_int \<lfloor>s5 + 1 / 2\<rfloor>))"
    by (simp add: calculateEnhancedCompatibilityScore_def Let_def c(1) toNumber_def
        s1_def s2_def s3_def s4_def s5_def)
  have "10 \<le> s2" using assms(1) by (auto simp: s1_def s2_def)
  then have "10 \<le> s3" by (auto simp: s3_def)
  then have "10 \<le> s4" by (auto simp: s4_def)
  then have "10 \<le> s5" by (auto simp: s5_def)
  then have "real_of_int 10 \<le> s5" by simp
  then have "10 \<le> \<lfloor>s5 + 1 / 2\<rfloor>" by (simp add: le_floor_iff)
  then show ?thesis using r by blast
qed

lemma evaluateVehicle_score_plain:
  assumes "literalGet ([] :: (string \<times> real) list) (priority t) = Missing"
    and "literalGet ([] :: (string \<times> real) list) (vehicleType t) = Missing"
    and "literalGet ([] :: (string \<times> real) list) (vehicle_type v) = Missing"
  shows "\<exists>k. score (ev_optimization (evaluateVehicle t v)) = Num (real_of_int k) \<and> 10 \<le> k"
proof -
  obtain k0 where k0: "score (calculateOptimizationScore t v (tripsOf v)) = Num (real_of_int k0)"
      "0 \<le> k0"
    using calculateOptimizationScore_bounded[OF assms, of "tripsOf v"] by blast
  obtain k where k: "calculateEnhancedCompatibilityScore t v (Num (real_of_int k0)) =
      Inr (Num (real_of_int k))" "10 \<le> k"
    using enhanced_lower[of "real_of_int k0" t v] k0(2) assms(2,3) by auto
  obtain n where n: "getVehicleTypeScore (vehicleType t) (vehicle_type v) =
      Inr (Numeric (Num (real_of_int n)))"
    using getVehicleTypeScore_plain[OF assms(2,3)] by blast
  have "score (ev_optimization (evaluateVehicle t v)) = Num (real_of_int k)"
    by (simp add: evaluateVehicle_def evaluateAttempt_def Let_def k0(1) k(1)
        getCompatibilityDetails_def n)
  then show ?thesis using k(2) by blast
qed

text \<open>Then the best evaluation is above the floor of 5, and the result is the one of the
  normal acceptance branch.\<close>

lemma findBest_not_forced_plain:
  assumes "literalGet ([] :: (string \<times> real) list) (priority t) = Missing"
    and "literalGet ([] :: (string \<times> real) list) (vehicleType t) = Missing"
    and "\<forall>v \<in> set vehicles. literalGet ([] :: (string \<times> real) list) (vehicle_type v) = Missing"
  shows "\<not> forced (findBestVehicleAssignment t vehicles) \<and>
         \<not> warning (findBestVehicleAssignment t vehicles)"
proof (cases "sortedEvaluations t vehicles")
  case Nil
  then have "filter (\<lambda>v. vehicle_status v \<noteq> Some ''maintenance'') vehicles = []"
    using sortedEvaluations_empty[of t vehicles] by simp
  from findBest_none[OF this, of t] show ?thesis by simp
next
  case (Cons best rest)
  have "best \<in> set (sortedEvaluations t vehicles)" using Cons by simp
  then have b: "ev_vehicle best \<in> set vehicles" "best = evaluateVehicle t (ev_vehicle best)"
    using sortedEvaluations_member[of best t vehicles] by simp_all
  then have "literalGet ([] :: (string \<times> real) list) (vehicle_type (ev_vehicle best)) = Missing"
    using assms(3) by blast
  from evaluateVehicle_score_plain[OF assms(1,2) this] b(2)
  obtain k where "score (ev_optimization best) = Num (real_of_int k)" "10 \<le> k" by auto
  then have "Num 5 < score (ev_optimization best)" by simp
  then show ?thesis by (simp add: findBest_some[OF Cons])
qed

text \<open>The floor of 10 is attained: base score 0, matching types, a status that is neither
  \<open>busy\<close> nor \<open>available\<close>.\<close>

lemma enhanced_minimum_attained:
  "calculateEnhancedCompatibilityScore exampleTrip (exampleVehicle\<lparr>vehicle_status := Some ''offline''\<rparr>)
     (Num 0) = Inr (Num 10)"
  by (simp add: calculateEnhancedCompatibilityScore_def exampleTrip_def exampleVehicle_def)

subsection \<open>The forced assignment\<close>

lemma evaluateVehicle_inheritedPriority:
  "score (ev_optimization (evaluateVehicle inheritedPriorityTrip exampleVehicle)) = NaN \<and>
   ev_vehicle (evaluateVehicle inheritedPriorityTrip exampleVehicle) = exampleVehicle"
proof -
  have s: "score (calculateOptimizationScore inheritedPriorityTrip exampleVehicle
      (tripsOf exampleVehicle)) = NaN"
    using score_inheritedPriority[of "tripsOf exampleVehicle"] by simp
  have e: "calculateEnhancedCompatibilityScore inheritedPriorityTrip exampleVehicle NaN = Inr NaN"
    by (simp add: calculateEnhancedCompatibilityScore_def inheritedPriorityTrip_def
        exampleTrip_def exampleVehicle_def)
  have c: "\<exists>cd. getCompatibilityDetails inheritedPriorityTrip exampleVehicle = Inr cd"
    by (simp add: getCompatibilityDetails_def getVehicleTypeScore_def inheritedPriorityTrip_def
        exampleTrip_def exampleVehicle_def)
  then obtain cd where "getCompatibilityDetails inheritedPriorityTrip exampleVehicle = Inr cd" ..
  then show ?thesis
    by (simp add: evaluateVehicle_def evaluateAttempt_def Let_def s e)
qed

lemma findBest_inheritedPriority:
  "findBestVehicleAssignment inheritedPriorityTrip [exampleVehicle] =
     \<lparr>success = True,
      recommended = Some (evaluateVehicle inheritedPriorityTrip exampleVehicle),
      alternatives = [],
      message = ForcedAssignment (Some ''VSL 1'') NaN,
      lowScore = None, forceAssigned = None,
      forced = True, warning = True, debugInfo = []\<rparr>"
proof -
  have "sortedEvaluations inheritedPriorityTrip [exampleVehicle] =
      [evaluateVehicle inheritedPriorityTrip exampleVehicle]"
    by (simp add: sortedEvaluations_def exampleVehicle_def sort_by_single)
  from findBest_some[OF this] show ?thesis
    using evaluateVehicle_inheritedPriority by (simp add: exampleVehicle_def)
qed

text \<open>
  Claim C10 states that the enhanced compatibility score is at least 10 for every trip,
  vehicle and base score between 0 and 100, so that with a vehicle out of maintenance the
  best score is above the floor of 5 and the branch that returns \<open>forced: true\<close> with the
  warning cannot be reached. The code does not have this property, for the reason of claim
  C3: a lookup in an object literal finds the members that every object inherits. For a
  trip of type \<open>VSL\<close> and a vehicle whose type is \<open>constructor\<close>, the factor
  \<open>crossTypeCompatibility['VSL']['constructor'] || 0.3\<close> is the function \<open>Object\<close>, and the
  enhanced score of the base score 50 is \<open>NaN\<close>, which \<open>Math.max(..., 20)\<close> does not raise.
  For the trip with the priority \<open>constructor\<close> and the example vehicle, which is available,
  the base score is \<open>NaN\<close>, so is the enhanced score, the test \<open>score > 5\<close> fails, and the
  result is the forced assignment with the warning.
\<close>

theorem forced_assignment_reached:
  "calculateEnhancedCompatibilityScore exampleTrip
     (exampleVehicle\<lparr>vehicle_type := Some ''constructor''\<rparr>) (Num 50) = Inr NaN \<and>
   vehicle_status exampleVehicle = Some ''available'' \<and>
   success (findBestVehicleAssignment inheritedPriorityTrip [exampleVehicle]) \<and>
   forced (findBestVehicleAssignment inheritedPriorityTrip [exampleVehicle]) \<and>
   warning (findBestVehicleAssignment inheritedPriorityTrip [exampleVehicle]) \<and>
   message (findBestVehicleAssignment inheritedPriorityTrip [exampleVehicle]) =
     ForcedAssignment (Some ''VSL 1'') NaN"
proof -
  have "calculateEnhancedCompatibilityScore exampleTrip
     (exampleVehicle\<lparr>vehicle_type := Some ''constructor''\<rparr>) (Num 50) = Inr NaN"
    by code_simp
  moreover have "vehicle_status exampleVehicle = Some ''available''"
    by (simp add: exampleVehicle_def)
  ultimately show ?thesis by (simp add: findBest_inheritedPriority)
qed

section \<open>Properties of the return courses\<close>

subsection \<open>Printing and reading a time\<close>

lemma below_ten: "(d::nat) < 10 \<Longrightarrow> d \<in> {0, 1, 2, 3, 4, 5, 6, 7, 8, 9}"
  by auto

lemma is_digit_nth: "(d::nat) < 10 \<Longrightarrow> is_digit (''0123456789'' ! d)"
  by (drule below_ten) (auto simp: is_digit_def)

lemma digit_val_nth: "(d::nat) < 10 \<Longrightarrow> digit_val (''0123456789'' ! d) = d"
  by (drule below_ten) (auto simp: digit_val_def)

lemma digits_all: "list_all is_digit (digits n)"
proof (induction n rule: digits.induct)
  case (1 n)
  show ?case
  proof (cases "n < 10")
    case True
    then have "digits n = [''0123456789'' ! n]" by (subst digits.simps) simp
    then show ?thesis using True by (simp add: is_digit_nth)
  next
    case False
    then have "digits n = digits (n div 10) @ [''0123456789'' ! (n mod 10)]"
      by (subst digits.simps) simp
    moreover have "list_all is_digit (digits (n div 10))" using 1 False by simp
    moreover have "is_digit (''0123456789'' ! (n mod 10))" by (rule is_digit_nth) simp
    ultimately show ?thesis by simp
  qed
qed

lemma digits_nonempty: "digits n \<noteq> []"
  by (subst digits.simps) simp

lemma digits_val_snoc: "digits_val (s @ [c]) = 10 * digits_val s + digit_val c"
  by (simp add: digits_val_def)

lemma digits_val_digits: "digits_val (digits n) = n"
proof (induction n rule: digits.induct)
  case (1 n)
  show ?case
  proof (cases "n < 10")
    case True
    then have "digits n = [''0123456789'' ! n]" by (subst digits.simps) simp
    then have "digits_val (digits n) = digit_val (''0123456789'' ! n)"
      by (simp add: digits_val_def)
    then show ?thesis using True by (simp add: digit_val_nth)
  next
    case False
    then have "digits n = digits (n div 10) @ [''0123456789'' ! (n mod 10)]"
      by (subst digits.simps) simp
    then have "digits_val (digits n) = 10 * digits_val (digits (n div 10)) + digit_val (''0123456789'' ! (n mod 10))"
      by (simp only: digits_val_snoc)
    moreover have "digits_val (digits (n div 10)) = n div 10" using 1 False by simp
    moreover have "digit_val (''0123456789'' ! (n mod 10)) = n mod 10" by (rule digit_val_nth) simp
    ultimately show ?thesis by simp
  qed
qed

lemma digits_val_zeros: "digits_val (replicate k CHR ''0'' @ s) = digits_val s"
proof -
  have z: "digit_val CHR ''0'' = 0" by (simp add: digit_val_def)
  have "foldl (\<lambda>a c. 10 * a + digit_val c) 0 (replicate k CHR ''0'') = 0"
    by (induction k) (simp_all add: z)
  then show ?thesis by (simp add: digits_val_def)
qed

text \<open>A digit is none of the characters that \<open>Number\<close> treats apart.\<close>

lemma digit_cases:
  "is_digit c \<Longrightarrow>
   c = CHR ''0'' \<or> c = CHR ''1'' \<or> c = CHR ''2'' \<or> c = CHR ''3'' \<or> c = CHR ''4'' \<or>
   c = CHR ''5'' \<or> c = CHR ''6'' \<or> c = CHR ''7'' \<or> c = CHR ''8'' \<or> c = CHR ''9''"
  by (auto simp: is_digit_def)

lemma digit_not_space: "is_digit c \<Longrightarrow> \<not> isWhiteSpace c"
  by (drule digit_cases) (auto simp: isWhiteSpace_def)

lemma digit_not_mark:
  "is_digit c \<Longrightarrow>
   c \<noteq> CHR ''-'' \<and> c \<noteq> CHR ''+'' \<and> c \<noteq> CHR ''x'' \<and> c \<noteq> CHR ''X'' \<and> c \<noteq> CHR ''o'' \<and>
   c \<noteq> CHR ''O'' \<and> c \<noteq> CHR ''b'' \<and> c \<noteq> CHR ''B'' \<and> c \<noteq> CHR ''I'' \<and> c \<noteq> CHR '':''"
  by (drule digit_cases) auto

lemma trim_digits:
  assumes "s \<noteq> []" "list_all is_digit s"
  shows "trim s = s"
proof -
  obtain c cs where s: "s = c # cs" using assms(1) by (cases s) auto
  have "\<not> isWhiteSpace c" using assms(2) s digit_not_space by simp
  then have a: "dropWhile isWhiteSpace s = s" by (simp add: s)
  obtain d ds where r: "rev s = d # ds" using assms(1) by (cases "rev s") auto
  have "d \<in> set s" using r by (metis list.set_intros(1) set_rev)
  then have "\<not> isWhiteSpace d" using assms(2) digit_not_space by (auto simp: list_all_iff)
  then have "dropWhile isWhiteSpace (rev s) = rev s" by (simp add: r)
  then show ?thesis by (simp add: trim_def a)
qed

lemma nonDecimalLiteral_digits:
  assumes "list_all is_digit s"
  shows "nonDecimalLiteral s = None"
proof (cases s)
  case Nil
  then show ?thesis by (simp add: nonDecimalLiteral_def)
next
  case (Cons z rest)
  show ?thesis
  proof (cases rest)
    case Nil
    then show ?thesis using Cons by (simp add: nonDecimalLiteral_def)
  next
    case (Cons p ds)
    have "is_digit p" using assms \<open>s = z # rest\<close> Cons by simp
    from digit_not_mark[OF this] show ?thesis
      using \<open>s = z # rest\<close> Cons by (simp add: nonDecimalLiteral_def)
  qed
qed

lemma unsignedDecimal_digits:
  assumes "s \<noteq> []" "list_all is_digit s"
  shows "unsignedDecimal s = Some (real (digits_val s))"
proof -
  have "\<forall>c \<in> set s. is_digit c" using assms(2) by (simp add: list_all_iff)
  then have t: "takeWhile is_digit s = s" "dropWhile is_digit s = []" by simp_all
  have z: "digits_val [] = 0" by (simp add: digits_val_def)
  show ?thesis using assms(1) by (simp add: unsignedDecimal_def t z)
qed

lemma Number_digits:
  assumes "s \<noteq> []" "list_all is_digit s"
  shows "Number s = Num (real (digits_val s))"
proof -
  obtain c cs where s: "s = c # cs" using assms(1) by (cases s) auto
  have "is_digit c" using assms(2) s by simp
  from digit_not_mark[OF this] have h: "hd s \<noteq> CHR ''-''" "hd s \<noteq> CHR ''+''" "hd s \<noteq> CHR ''I''"
    by (simp_all add: s)
  have i: "s \<noteq> ''Infinity''" using h(3) by auto
  show ?thesis
    using assms(1) h i
    by (simp add: Number_def trim_digits[OF assms] nonDecimalLiteral_digits[OF assms(2)]
        unsignedDecimal_digits[OF assms])
qed

lemma padStart2_digits:
  "padStart2 (digits n) \<noteq> [] \<and> list_all is_digit (padStart2 (digits n)) \<and>
   digits_val (padStart2 (digits n)) = n"
proof -
  have "list_all is_digit (replicate (2 - length (digits n)) CHR ''0'')"
    by (simp add: list_all_iff is_digit_def)
  then show ?thesis
    using digits_all[of n] digits_nonempty[of n]
    by (simp add: padStart2_def digits_val_zeros digits_val_digits)
qed

lemma Number_padStart2: "Number (padStart2 (digits n)) = Num (real n)"
  using padStart2_digits[of n] Number_digits[of "padStart2 (digits n)"] by simp

lemma padStart2_no_colon: "CHR '':'' \<notin> set (padStart2 (digits n))"
proof -
  have "\<forall>c \<in> set (padStart2 (digits n)). is_digit c"
    using padStart2_digits[of n] by (simp add: list_all_iff)
  then show ?thesis using digit_not_mark by blast
qed

lemma split_colon_nocolon: "CHR '':'' \<notin> set s \<Longrightarrow> split_colon s = [s]"
  by (induction s) auto

lemma split_colon_append:
  "CHR '':'' \<notin> set a \<Longrightarrow> split_colon (a @ CHR '':'' # b) = a # split_colon b"
  by (induction a) auto

text \<open>The text of a natural number below \<open>10 ^ 21\<close> is the run of its digits.\<close>

lemma String_nat: "n < 10 ^ 21 \<Longrightarrow> String (Num (real n)) = digits n"
proof -
  assume "n < 10 ^ 21"
  then have "real n < 10 ^ 21" by (metis of_nat_less_iff of_nat_numeral of_nat_power)
  then show ?thesis by (simp add: String_def)
qed

text \<open>Minutes that are a natural number are printed as \<open>HH:MM\<close> and read back.\<close>

lemma formatHM_nat:
  assumes "m < 10 ^ 21"
  shows "formatHM (Num (real m)) = padStart2 (digits (m div 60)) @ CHR '':'' # padStart2 (digits (m mod 60))"
proof -
  have fl: "\<lfloor>real m / 60\<rfloor> = int (m div 60)"
    by (metis floor_divide_of_nat_eq of_nat_numeral)
  have h: "floor_num (Num (real m) / Num 60) = Num (real (m div 60))"
    by (simp add: fl)
  have "real m - 60 * real (m div 60) = real (m mod 60)"
    by (metis add_diff_cancel_left' mult_div_mod_eq of_nat_add of_nat_mult of_nat_numeral)
  then have r: "rem (Num (real m)) (Num 60) = Num (real (m mod 60))"
    by (simp add: rem_def fl)
  have "m div 60 < 10 ^ 21" using assms by (meson div_le_dividend le_less_trans)
  moreover have "m mod 60 < 10 ^ 21" using assms by (meson mod_less_eq_dividend le_less_trans)
  ultimately have "String (Num (real (m div 60))) = digits (m div 60)"
      "String (Num (real (m mod 60))) = digits (m mod 60)"
    by (simp_all add: String_nat)
  then show ?thesis unfolding formatHM_def h r by simp
qed

lemma hoursMinutes_formatHM:
  assumes "m < 10 ^ 21"
  shows "hoursMinutes (formatHM (Num (real m))) = Num (real m)"
proof -
  have "split_colon (formatHM (Num (real m))) =
      [padStart2 (digits (m div 60)), padStart2 (digits (m mod 60))]"
    by (simp add: formatHM_nat[OF assms] split_colon_append padStart2_no_colon split_colon_nocolon)
  then have "hoursMinutes (formatHM (Num (real m))) = Num (real (m div 60) * 60 + real (m mod 60))"
    by (simp add: hoursMinutes_def Number_padStart2)
  moreover have "real (m div 60) * 60 + real (m mod 60) = real m"
    by (metis div_mult_mod_eq of_nat_add of_nat_mult of_nat_numeral)
  ultimately show ?thesis by simp
qed

text \<open>A time written \<open>HH:MM\<close> is read as a natural number of minutes below 6040.\<close>

lemma digits_val_bound: "list_all is_digit s \<Longrightarrow> digits_val s < 10 ^ length s"
proof (induction s rule: rev_induct)
  case Nil
  then show ?case by (simp add: digits_val_def)
next
  case (snoc c s)
  then have "digits_val s < 10 ^ length s" by simp
  then have "10 * digits_val s + 10 \<le> 10 * 10 ^ length s" by simp
  moreover have "digit_val c < 10"
    using snoc.prems by (auto dest!: digit_cases simp: digit_val_def)
  ultimately show ?case by (simp add: digits_val_snoc)
qed

lemma clockTime_minutes:
  assumes "clockTime s"
  shows "\<exists>m. hoursMinutes s = Num (real m) \<and> m < 6040"
proof -
  from assms obtain h mi where p: "split_colon s = [h, mi]" "h \<noteq> []" "mi \<noteq> []"
      "length h \<le> 2" "length mi \<le> 2" "list_all is_digit h" "list_all is_digit mi"
    by (auto simp: clockTime_def split: list.splits)
  have "digits_val h < 10 ^ length h" "digits_val mi < 10 ^ length mi"
    using p digits_val_bound by simp_all
  moreover have "(10::nat) ^ length h \<le> 10 ^ 2"
    using p(4) by (intro power_increasing) simp_all
  moreover have "(10::nat) ^ length mi \<le> 10 ^ 2"
    using p(5) by (intro power_increasing) simp_all
  ultimately have b: "digits_val h < 100" "digits_val mi < 100" by simp_all
  have "hoursMinutes s = Num (real (digits_val h * 60 + digits_val mi))"
    using p by (simp add: hoursMinutes_def Number_digits)
  moreover have "digits_val h * 60 + digits_val mi < 6040" using b by simp
  ultimately show ?thesis by blast
qed

subsection \<open>One return course\<close>

lemma generateReturnCourse_Inr:
  assumes "generateReturnCourse c newId = Inr r"
  shows "\<exists>exit dc xy.
     (if truthy (returnTime c) then Inr (or_default (returnTime c) [])
      else calculateExitTime (appointmentTime c) (duration c)) = Inr exit \<and>
     destinationCoords c = Some dc \<and> coordinates c = Some xy \<and>
     r = \<lparr>trip_id = newId, patient = patient c, pickup = destination c, destination = pickup c,
          pickupTime = None, trip_time = None, appointmentTime = Some exit, duration = Some 30,
          returnTime = None, isReturnTrip = True, originalCourseId = Some (trip_id c),
          vehicleType = Some (or_default (vehicleType c) ''VSL''), priority = None,
          trip_status = None, coordinates = Some dc, destinationCoords = Some xy,
          exitTime = Some exit, earliestPickupTime = Some (calculateReturnPickupTime exit 15),
          maxWaitTime = Some 240, estimatedDuration = None\<rparr>"
  using assms
  by (auto simp: generateReturnCourse_def Let_def split: sum.splits option.splits)

lemma generateReturnCourse_defined:
  assumes "coordinates c \<noteq> None" "destinationCoords c \<noteq> None"
    "truthy (returnTime c) \<or> appointmentTime c \<noteq> None"
  shows "\<exists>r. generateReturnCourse c newId = Inr r"
  using assms
  by (auto simp: generateReturnCourse_def calculateExitTime_def Let_def split: sum.splits option.splits)

lemma exit_truthy:
  assumes "truthy (returnTime c)"
  shows "returnTime c = Some (or_default (returnTime c) [])"
  using assms by (auto simp: truthy_def or_default_def split: option.splits)

lemma calculateReturnPickupTime_plus:
  assumes "hoursMinutes exit = Num (real m)" "m < 10 ^ 20"
  shows "hoursMinutes (calculateReturnPickupTime exit 15) = Num (real m + 15)"
proof -
  have "m + 15 < 10 ^ 21" using assms(2) by simp
  from hoursMinutes_formatHM[OF this] show ?thesis
    by (simp add: calculateReturnPickupTime_def assms(1) add.commute)
qed

text \<open>The exit time of a well-timed course, and what it reads as.\<close>

lemma wellTimed_exit:
  assumes "wellTimed c"
  shows "\<exists>exit m.
     (if truthy (returnTime c) then Inr (or_default (returnTime c) [])
      else calculateExitTime (appointmentTime c) (duration c)) = Inr exit \<and>
     hoursMinutes exit = Num (real m) \<and> m < 10 ^ 20 \<and>
     (if truthy (returnTime c) then returnTime c = Some exit
      else (\<exists>a d. appointmentTime c = Some a \<and> duration c = Some d \<and>
              hoursMinutes exit = hoursMinutes a + Num (real_of_int d)))"
proof (cases "truthy (returnTime c)")
  case True
  then have "clockTime (or_default (returnTime c) [])" using assms by (simp add: wellTimed_def)
  from clockTime_minutes[OF this] obtain m where
    "hoursMinutes (or_default (returnTime c) []) = Num (real m)" "m < 6040" by blast
  moreover have "(6040::nat) < 10 ^ 20" by simp
  ultimately show ?thesis using True exit_truthy[OF True] by (auto intro: less_trans)
next
  case False
  then obtain a d where w: "appointmentTime c = Some a" "duration c = Some d" "clockTime a"
      "0 \<le> d" "d < 10 ^ 15"
    using assms by (auto simp: wellTimed_def split: option.splits)
  from clockTime_minutes[OF w(3)] obtain ma where ma: "hoursMinutes a = Num (real ma)" "ma < 6040"
    by blast
  define m where "m = ma + nat d"
  have rd: "real_of_int d = real (nat d)" using w(4) by simp
  have "nat d < 10 ^ 15" using w(4,5) by (simp add: nat_less_iff)
  then have b: "m < 10 ^ 20" "m < 10 ^ 21" using ma(2) by (simp_all add: m_def)
  have s: "hoursMinutes a + of_optional (Some d) = Num (real m)"
    by (simp add: ma(1) of_optional_def rd m_def)
  define exit where "exit = formatHM (Num (real m))"
  have c: "calculateExitTime (appointmentTime c) (duration c) = Inr exit"
    by (simp add: calculateExitTime_def w(1,2) s exit_def)
  have h: "hoursMinutes exit = Num (real m)"
    unfolding exit_def by (rule hoursMinutes_formatHM[OF b(2)])
  have "Num (real m) = hoursMinutes a + Num (real_of_int d)"
    by (simp add: ma(1) rd m_def)
  then have "hoursMinutes exit = hoursMinutes a + Num (real_of_int d)" using h by simp
  then have "\<exists>a d. appointmentTime c = Some a \<and> duration c = Some d \<and>
              hoursMinutes exit = hoursMinutes a + Num (real_of_int d)"
    using w(1,2) by blast
  then show ?thesis using False c h b(1) by (intro exI[of _ exit] exI[of _ m]) simp
qed

text \<open>
  Claim C4, as amended. For a non-return course that meets the generation condition, has
  both coordinate arrays, and whose exit time is computed from a time written \<open>HH:MM\<close>
  (its return time when it has one, otherwise its appointment time with its duration),
  \<open>generateReturnCourse\<close> returns a course with pickup and destination, and their
  coordinates, swapped; it is marked as a return trip and refers to the source course by its
  id (the property is \<open>originalCourseId\<close> in the code); its exit time is the return time of
  the course when there is one, and otherwise the appointment time plus the duration; its
  earliest pickup time is the exit time plus 15 minutes; its maximal wait (\<open>maxWaitTime\<close> in
  the code) is 240.
\<close>

theorem generateReturnCourse_fields:
  assumes "needsReturn c" and "coordinates c \<noteq> None" and "destinationCoords c \<noteq> None"
    and "wellTimed c"
  shows "\<exists>r exit early m.
     generateReturnCourse c newId = Inr r \<and> trip_id r = newId \<and>
     pickup r = destination c \<and> destination r = pickup c \<and>
     coordinates r = destinationCoords c \<and> destinationCoords r = coordinates c \<and>
     isReturnTrip r \<and> originalCourseId r = Some (trip_id c) \<and> maxWaitTime r = Some 240 \<and>
     exitTime r = Some exit \<and> earliestPickupTime r = Some early \<and>
     (if truthy (returnTime c) then returnTime c = Some exit
      else (\<exists>a d. appointmentTime c = Some a \<and> duration c = Some d \<and>
              hoursMinutes exit = hoursMinutes a + Num (real_of_int d))) \<and>
     hoursMinutes exit = Num (real m) \<and> hoursMinutes early = Num (real m + 15)"
proof -
  from wellTimed_exit[OF assms(4)] obtain exit m where
    ex: "(if truthy (returnTime c) then Inr (or_default (returnTime c) [])
          else calculateExitTime (appointmentTime c) (duration c)) = Inr exit"
    and hm: "hoursMinutes exit = Num (real m)" "m < 10 ^ 20"
    and src: "if truthy (returnTime c) then returnTime c = Some exit
      else (\<exists>a d. appointmentTime c = Some a \<and> duration c = Some d \<and>
              hoursMinutes exit = hoursMinutes a + Num (real_of_int d))"
    by blast
  obtain dc xy where co: "destinationCoords c = Some dc" "coordinates c = Some xy"
    using assms(2,3) by auto
  define r where "r = \<lparr>trip_id = newId, patient = patient c, pickup = destination c,
          destination = pickup c,
          pickupTime = None, trip_time = None, appointmentTime = Some exit, duration = Some 30,
          returnTime = None, isReturnTrip = True, originalCourseId = Some (trip_id c),
          vehicleType = Some (or_default (vehicleType c) ''VSL''), priority = None,
          trip_status = None, coordinates = Some dc, destinationCoords = Some xy,
          exitTime = Some exit, earliestPickupTime = Some (calculateReturnPickupTime exit 15),
          maxWaitTime = Some 240, estimatedDuration = None\<rparr>"
  have g: "generateReturnCourse c newId = Inr r"
    using ex co by (simp add: generateReturnCourse_def Let_def r_def)
  have e: "hoursMinutes (calculateReturnPickupTime exit 15) = Num (real m + 15)"
    by (rule calculateReturnPickupTime_plus[OF hm])
  have f: "trip_id r = newId \<and> pickup r = destination c \<and> destination r = pickup c \<and>
     coordinates r = destinationCoords c \<and> destinationCoords r = coordinates c \<and>
     isReturnTrip r \<and> originalCourseId r = Some (trip_id c) \<and> maxWaitTime r = Some 240 \<and>
     exitTime r = Some exit \<and> earliestPickupTime r = Some (calculateReturnPickupTime exit 15)"
    by (simp add: r_def co)
  show ?thesis using g f src hm(1) e by blast
qed

theorem generateReturnCourse_fields_witness:
  "\<exists>r. generateReturnCourse exampleTrip 2 = Inr r \<and>
     pickup r = Some ''Avignon'' \<and> destination r = Some ''Toulon'' \<and>
     coordinates r = destinationCoords exampleTrip \<and> destinationCoords r = coordinates exampleTrip \<and>
     isReturnTrip r \<and> originalCourseId r = Some 1 \<and> maxWaitTime r = Some 240 \<and>
     exitTime r = Some ''09:45'' \<and> earliestPickupTime r = Some ''10:00'' \<and>
     hoursMinutes ''09:45'' = hoursMinutes ''09:00'' + Num 45 \<and>
     hoursMinutes ''10:00'' = hoursMinutes ''09:45'' + Num 15"
proof -
  have n: "needsReturn exampleTrip"
    by (simp add: needsReturn_def hasValidDuration_def exampleTrip_def)
  have c: "coordinates exampleTrip \<noteq> None" "destinationCoords exampleTrip \<noteq> None"
    by (simp_all add: exampleTrip_def)
  have w: "wellTimed exampleTrip" by code_simp
  from generateReturnCourse_fields[OF n c w, of 2]
  obtain r exit early where r: "generateReturnCourse exampleTrip 2 = Inr r"
      "pickup r = destination exampleTrip" "destination r = pickup exampleTrip"
      "coordinates r = destinationCoords exampleTrip" "destinationCoords r = coordinates exampleTrip"
      "isReturnTrip r" "originalCourseId r = Some (trip_id exampleTrip)" "maxWaitTime r = Some 240"
      "exitTime r = Some exit" "earliestPickupTime r = Some early"
    by blast
  have v: "exitAndPickup (generateReturnCourse exampleTrip 2) = Inr (Some ''09:45'', Some ''10:00'')"
    by code_simp
  have t: "hoursMinutes ''09:45'' = hoursMinutes ''09:00'' + Num 45"
      "hoursMinutes ''10:00'' = hoursMinutes ''09:45'' + Num 15"
    by code_simp+
  have "exitTime r = Some ''09:45''" "earliestPickupTime r = Some ''10:00''"
    using v r(1) by (simp_all add: exitAndPickup_def)
  then show ?thesis using r t by (auto simp: exampleTrip_def)
qed

text \<open>
  Claim C4 as first stated covers every course that meets the generation condition. It
  fails on a return time that is not written \<open>HH:MM\<close>: for the return time \<open>-1:30\<close>, which
  reads as minus 30 minutes, the earliest pickup time is printed as \<open>-1:-15\<close>, which reads
  as minus 75 minutes and not as minus 15. It also fails on a course without its coordinate
  array, for which spreading the array throws and no return course is built.
\<close>

theorem generateReturnCourse_negative_time:
  "needsReturn negativeReturn \<and>
   exitAndPickup (generateReturnCourse negativeReturn 2) = Inr (Some ''-1:30'', Some ''-1:-15'') \<and>
   hoursMinutes ''-1:30'' = Num (- 30) \<and> hoursMinutes ''-1:-15'' = Num (- 75) \<and>
   needsReturn withoutCoordinates \<and> generateReturnCourse withoutCoordinates 3 = Inl TypeError"
  by code_simp

subsection \<open>All return courses\<close>

lemma returnCoursesFrom_shape:
  "returnCoursesFrom m cs = Inr rs \<Longrightarrow>
   map originalCourseId rs = map (\<lambda>c. Some (trip_id c)) (filter needsReturn cs) \<and>
   (\<forall>r \<in> set rs. isReturnTrip r)"
proof (induction cs arbitrary: m rs)
  case Nil
  then show ?case by simp
next
  case (Cons c cs)
  show ?case
  proof (cases "needsReturn c")
    case False
    then show ?thesis using Cons by simp
  next
    case True
    with Cons.prems obtain r rest where r: "generateReturnCourse c (m + 1) = Inr r"
      and rest: "returnCoursesFrom (m + 1) cs = Inr rest" and rs: "rs = r # rest"
      by (auto split: sum.splits)
    from generateReturnCourse_Inr[OF r] have "originalCourseId r = Some (trip_id c) \<and> isReturnTrip r"
      by auto
    then show ?thesis using Cons.IH[OF rest] True rs by simp
  qed
qed

lemma returnCoursesFrom_returns:
  "\<forall>r \<in> set rs. isReturnTrip r \<Longrightarrow> returnCoursesFrom m rs = Inr []"
  by (induction rs arbitrary: m) (simp_all add: needsReturn_def)

lemma returnCoursesFrom_append:
  "\<forall>r \<in> set rs. isReturnTrip r \<Longrightarrow> returnCoursesFrom m (cs @ rs) = returnCoursesFrom m cs"
proof (induction cs arbitrary: m)
  case Nil
  then show ?case by (simp add: returnCoursesFrom_returns)
next
  case (Cons c cs)
  then show ?case by (simp split: sum.splits)
qed

lemma generateReturnCourse_other_id:
  assumes "generateReturnCourse c i = Inr r"
  shows "generateReturnCourse c j = Inr (r\<lparr>trip_id := j\<rparr>)"
proof -
  from generateReturnCourse_Inr[OF assms] obtain exit dc xy where
    "(if truthy (returnTime c) then Inr (or_default (returnTime c) [])
      else calculateExitTime (appointmentTime c) (duration c)) = Inr exit"
    "destinationCoords c = Some dc" "coordinates c = Some xy"
    "r = \<lparr>trip_id = i, patient = patient c, pickup = destination c, destination = pickup c,
          pickupTime = None, trip_time = None, appointmentTime = Some exit, duration = Some 30,
          returnTime = None, isReturnTrip = True, originalCourseId = Some (trip_id c),
          vehicleType = Some (or_default (vehicleType c) ''VSL''), priority = None,
          trip_status = None, coordinates = Some dc, destinationCoords = Some xy,
          exitTime = Some exit, earliestPickupTime = Some (calculateReturnPickupTime exit 15),
          maxWaitTime = Some 240, estimatedDuration = None\<rparr>"
    by blast
  then show ?thesis by (simp add: generateReturnCourse_def Let_def)
qed

lemma returnCoursesFrom_other_start:
  "returnCoursesFrom m cs = Inr rs \<Longrightarrow>
   \<exists>rs'. returnCoursesFrom m' cs = Inr rs' \<and>
     map (\<lambda>r. r\<lparr>trip_id := 0\<rparr>) rs' = map (\<lambda>r. r\<lparr>trip_id := 0\<rparr>) rs"
proof (induction cs arbitrary: m m' rs)
  case Nil
  then show ?case by simp
next
  case (Cons c cs)
  show ?case
  proof (cases "needsReturn c")
    case False
    then show ?thesis using Cons by simp
  next
    case True
    with Cons.prems obtain r rest where r: "generateReturnCourse c (m + 1) = Inr r"
      and rest: "returnCoursesFrom (m + 1) cs = Inr rest" and rs: "rs = r # rest"
      by (auto split: sum.splits)
    from Cons.IH[OF rest, of "m' + 1"] obtain rest' where
      rest': "returnCoursesFrom (m' + 1) cs = Inr rest'"
        "map (\<lambda>r. r\<lparr>trip_id := 0\<rparr>) rest' = map (\<lambda>r. r\<lparr>trip_id := 0\<rparr>) rest"
      by blast
    show ?thesis
      using True generateReturnCourse_other_id[OF r, of "m' + 1"] rest' rs by simp
  qed
qed

lemma returnCoursesFrom_defined:
  "(\<forall>c \<in> set cs. needsReturn c \<longrightarrow>
      coordinates c \<noteq> None \<and> destinationCoords c \<noteq> None \<and>
      (truthy (returnTime c) \<or> appointmentTime c \<noteq> None)) \<Longrightarrow>
   \<exists>rs. returnCoursesFrom m cs = Inr rs"
proof (induction cs arbitrary: m)
  case Nil
  then show ?case by simp
next
  case (Cons c cs)
  then obtain rest where rest: "returnCoursesFrom (m + 1) cs = Inr rest" by fastforce
  show ?case
  proof (cases "needsReturn c")
    case False
    then show ?thesis using Cons by simp
  next
    case True
    then obtain r where "generateReturnCourse c (m + 1) = Inr r"
      using Cons.prems generateReturnCourse_defined[of c "m + 1"] by auto
    then show ?thesis using True rest by simp
  qed
qed

text \<open>
  Claim C5, as amended. A course with duration 0 (or none) and no return time yields no
  return course. When every course that meets the generation condition has both coordinate
  arrays and a return time or an appointment time, \<open>generateReturnCourses\<close> returns one
  return course per such course, in order, each marked as a return trip and referring to
  its source; and applied to the list extended by these return courses it builds the same
  return courses again (up to their fresh ids) and none for the return courses themselves.
\<close>

theorem generateReturnCourses_idempotent:
  assumes "\<forall>c \<in> set cs. needsReturn c \<longrightarrow>
        coordinates c \<noteq> None \<and> destinationCoords c \<noteq> None \<and>
        (truthy (returnTime c) \<or> appointmentTime c \<noteq> None)"
  shows
  "((duration t = Some 0 \<or> duration t = None) \<and> \<not> truthy (returnTime t) \<longrightarrow>
      generateReturnCourses [t] = Inr []) \<and>
   (\<exists>rs. generateReturnCourses cs = Inr rs \<and>
      length rs = length (filter needsReturn cs) \<and>
      map originalCourseId rs = map (\<lambda>c. Some (trip_id c)) (filter needsReturn cs) \<and>
      (\<forall>r \<in> set rs. isReturnTrip r) \<and>
      (\<exists>rs'. generateReturnCourses (cs @ rs) = Inr rs' \<and>
         map (\<lambda>r. r\<lparr>trip_id := 0\<rparr>) rs' = map (\<lambda>r. r\<lparr>trip_id := 0\<rparr>) rs))"
proof (intro conjI impI)
  assume "(duration t = Some 0 \<or> duration t = None) \<and> \<not> truthy (returnTime t)"
  then have "\<not> needsReturn t"
    by (auto simp: needsReturn_def hasValidDuration_def hasValidReturnTime_def)
  then show "generateReturnCourses [t] = Inr []" by (simp add: generateReturnCourses_def)
next
  obtain rs where g: "generateReturnCourses cs = Inr rs"
    using assms returnCoursesFrom_defined[of cs "foldr max (map trip_id cs) 0"]
    by (auto simp: generateReturnCourses_def)
  then have f: "returnCoursesFrom (foldr max (map trip_id cs) 0) cs = Inr rs"
    by (simp add: generateReturnCourses_def)
  have sh: "map originalCourseId rs = map (\<lambda>c. Some (trip_id c)) (filter needsReturn cs) \<and>
      (\<forall>r \<in> set rs. isReturnTrip r)"
    by (rule returnCoursesFrom_shape[OF f])
  then have ret: "\<forall>r \<in> set rs. isReturnTrip r" by simp
  have "length (map originalCourseId rs) = length (map (\<lambda>c. Some (trip_id c)) (filter needsReturn cs))"
    using sh by simp
  then have len: "length rs = length (filter needsReturn cs)" by simp
  have "generateReturnCourses (cs @ rs) =
      returnCoursesFrom (foldr max (map trip_id (cs @ rs)) 0) cs"
    using ret by (simp add: generateReturnCourses_def returnCoursesFrom_append)
  then have "\<exists>rs'. generateReturnCourses (cs @ rs) = Inr rs' \<and>
         map (\<lambda>r. r\<lparr>trip_id := 0\<rparr>) rs' = map (\<lambda>r. r\<lparr>trip_id := 0\<rparr>) rs"
    using returnCoursesFrom_other_start[OF f, of "foldr max (map trip_id (cs @ rs)) 0"] by simp
  then show "\<exists>rs. generateReturnCourses cs = Inr rs \<and>
      length rs = length (filter needsReturn cs) \<and>
      map originalCourseId rs = map (\<lambda>c. Some (trip_id c)) (filter needsReturn cs) \<and>
      (\<forall>r \<in> set rs. isReturnTrip r) \<and>
      (\<exists>rs'. generateReturnCourses (cs @ rs) = Inr rs' \<and>
         map (\<lambda>r. r\<lparr>trip_id := 0\<rparr>) rs' = map (\<lambda>r. r\<lparr>trip_id := 0\<rparr>) rs)"
    using g len sh by blast
qed

theorem generateReturnCourses_idempotent_witness:
  "generateReturnCourses [exampleTrip\<lparr>duration := Some 0\<rparr>] = Inr [] \<and>
   (\<exists>rs rs'. generateReturnCourses [exampleTrip] = Inr rs \<and> length rs = 1 \<and>
      map originalCourseId rs = [Some 1] \<and>
      generateReturnCourses ([exampleTrip] @ rs) = Inr rs' \<and> length rs' = 1)"
proof -
  have n: "needsReturn exampleTrip"
    by (simp add: needsReturn_def hasValidDuration_def exampleTrip_def)
  have b: "\<forall>c \<in> set [exampleTrip]. needsReturn c \<longrightarrow>
        coordinates c \<noteq> None \<and> destinationCoords c \<noteq> None \<and>
        (truthy (returnTime c) \<or> appointmentTime c \<noteq> None)"
    by (simp add: exampleTrip_def)
  note th = generateReturnCourses_idempotent[OF b, of "exampleTrip\<lparr>duration := Some 0\<rparr>"]
  have a: "(duration (exampleTrip\<lparr>duration := Some 0\<rparr>) = Some 0 \<or>
      duration (exampleTrip\<lparr>duration := Some 0\<rparr>) = None) \<and>
      \<not> truthy (returnTime (exampleTrip\<lparr>duration := Some 0\<rparr>))"
    by (simp add: exampleTrip_def truthy_def)
  from th a have e: "generateReturnCourses [exampleTrip\<lparr>duration := Some 0\<rparr>] = Inr []"
    by blast
  from th obtain rs rs' where rs: "generateReturnCourses [exampleTrip] = Inr rs"
    "length rs = length (filter needsReturn [exampleTrip])"
    "map originalCourseId rs = map (\<lambda>c. Some (trip_id c)) (filter needsReturn [exampleTrip])"
    "generateReturnCourses ([exampleTrip] @ rs) = Inr rs'"
    "map (\<lambda>r. r\<lparr>trip_id := 0\<rparr>) rs' = map (\<lambda>r. r\<lparr>trip_id := 0\<rparr>) rs"
    by blast
  have "length (map (\<lambda>r. r\<lparr>trip_id := 0\<rparr>) rs') = length (map (\<lambda>r. r\<lparr>trip_id := 0\<rparr>) rs)"
    using rs(5) by simp
  then have "length rs' = length rs" by simp
  moreover have "map originalCourseId rs = [Some 1]" using rs(3) n by (simp add: exampleTrip_def)
  ultimately show ?thesis using e rs n by auto
qed

text \<open>
  Claim C5 as first stated promises one return course for every course that meets the
  generation condition. It fails on such a course without its coordinate array: spreading
  the missing array throws, the loop has no \<open>catch\<close>, and the call yields no return course
  at all, not even for the complete course before it.
\<close>

theorem generateReturnCourses_throws:
  "needsReturn withoutCoordinates \<and> needsReturn exampleTrip \<and>
   generateReturnCourses [withoutCoordinates] = Inl TypeError \<and>
   generateReturnCourses [exampleTrip, withoutCoordinates] = Inl TypeError"
  by code_simp

section \<open>Properties of the fallback solver\<close>

subsection \<open>The conflict check\<close>

lemma checkTimeOverlap_commute:
  "checkTimeOverlap time1 time2 cfg = checkTimeOverlap time2 time1 cfg"
  by (auto simp: checkTimeOverlap_def Let_def)

lemma checkTimeConflicts_single:
  "hasConflict (checkTimeConflicts a [b] cfg) =
   (case (getTimeBounds a, getTimeBounds b) of
      (Some ta, Some tb) \<Rightarrow> checkTimeOverlap ta tb cfg
    | _ \<Rightarrow> False)"
  by (simp add: checkTimeConflicts_def split: option.splits)

text \<open>
  Claim C6. The conflict check of the fallback solver is symmetric: for any two trips and any
  time-window configuration (or none), \<open>checkTimeConflicts(A, [B], config)\<close> reports a conflict
  exactly when \<open>checkTimeConflicts(B, [A], config)\<close> does.
\<close>

theorem checkTimeConflicts_symmetric:
  "hasConflict (checkTimeConflicts a [b] cfg) = hasConflict (checkTimeConflicts b [a] cfg)"
  by (simp add: checkTimeConflicts_single checkTimeOverlap_commute[of _ _ cfg] split: option.splits)

text \<open>Two appointments of 30 minutes at 09:00 and 09:30 conflict, in either order; at 09:00
  and 11:00 they do not.\<close>

lemma checkTimeConflicts_examples:
  "hasConflict (checkTimeConflicts (tripAt 1 ''09:00'') [tripAt 2 ''09:30''] None) \<and>
   hasConflict (checkTimeConflicts (tripAt 2 ''09:30'') [tripAt 1 ''09:00''] None) \<and>
   \<not> hasConflict (checkTimeConflicts (tripAt 1 ''09:00'') [tripAt 2 ''11:00''] None)"
  by code_simp

subsection \<open>Vehicles in maintenance\<close>

lemma map_set_entry:
  "(k', a) \<in> set (map_set k v m) \<Longrightarrow> (k' = k \<and> a = v) \<or> (k', a) \<in> set m"
  by (induction m) (auto split: if_splits)

lemma initialAssignments_fold_ok:
  assumes "\<forall>(k, a) \<in> set m0. okVehicle vehicles (va_vehicle a)" "set vs \<subseteq> set vehicles"
  shows "\<forall>(k, a) \<in> set (foldl (\<lambda>m v. if vehicle_status v \<noteq> Some ''maintenance''
                   then map_set (vehicle_id v)
                          \<lparr>va_vehicle = v, va_trips = [], va_totalDistance = Num 0,
                           va_totalDuration = Num 0, va_route = []\<rparr> m
                   else m) m0 vs). okVehicle vehicles (va_vehicle a)"
  using assms
proof (induction vs arbitrary: m0)
  case Nil
  then show ?case by simp
next
  case (Cons v vs)
  let ?new = "\<lparr>va_vehicle = v, va_trips = [], va_totalDistance = Num 0,
               va_totalDuration = Num 0, va_route = []\<rparr>"
  let ?m1 = "if vehicle_status v \<noteq> Some ''maintenance'' then map_set (vehicle_id v) ?new m0 else m0"
  have "\<forall>(k, a) \<in> set ?m1. okVehicle vehicles (va_vehicle a)"
  proof (cases "vehicle_status v \<noteq> Some ''maintenance''")
    case True
    then have "okVehicle vehicles (va_vehicle ?new)" using Cons.prems by (simp add: okVehicle_def)
    then show ?thesis using True Cons.prems(1) map_set_entry[of _ _ "vehicle_id v" ?new m0]
      by fastforce
  next
    case False
    then show ?thesis using Cons.prems by simp
  qed
  moreover have "set vs \<subseteq> set vehicles" using Cons.prems by simp
  ultimately show ?case using Cons.IH[of ?m1] by simp
qed

lemma initialAssignments_ok:
  "\<forall>(k, a) \<in> set (initialAssignments vehicles). okVehicle vehicles (va_vehicle a)"
  using initialAssignments_fold_ok[of "[]" vehicles vehicles]
  by (simp add: initialAssignments_def)

lemma considerAttempt_cases:
  assumes "considerAttempt t dm durm cfg best entry = Inr best'"
  shows "best' = best \<or> (\<exists>m s. best' = \<lparr>bestVehicle = Some (fst entry, m), bestScore = s\<rparr>)"
  using assms
  by (auto simp: considerAttempt_def Let_def bind_Inr_iff split: if_splits option.splits)

lemma considerVehicle_cases:
  "considerVehicle t dm durm cfg best entry = best \<or>
   (\<exists>m s. considerVehicle t dm durm cfg best entry = \<lparr>bestVehicle = Some (fst entry, m), bestScore = s\<rparr>)"
  using considerAttempt_cases[of t dm durm cfg best entry]
  by (auto simp: considerVehicle_def split: sum.splits)

lemma considerVehicle_keyIn:
  assumes "keyIn K best"
  shows "keyIn (insert (fst entry) K) (considerVehicle t dm durm cfg best entry)"
  using assms considerVehicle_cases[of t dm durm cfg best entry]
  by (auto simp: keyIn_def split: option.splits)

lemma foldl_considerVehicle_keyIn:
  "keyIn K best \<Longrightarrow>
   keyIn (K \<union> fst ` set vas) (foldl (considerVehicle t dm durm cfg) best vas)"
proof (induction vas arbitrary: K best)
  case Nil
  then show ?case by simp
next
  case (Cons e vas)
  have "keyIn (insert (fst e) K) (considerVehicle t dm durm cfg best e)"
    using Cons.prems by (rule considerVehicle_keyIn)
  from Cons.IH[OF this] show ?case by (simp add: Un_commute insert_commute)
qed

lemma findBestVehicleForTrip_Found:
  assumes "findBestVehicleForTrip t vas dm durm cfg = Found vid sc m"
  shows "vid \<in> fst ` set vas"
proof -
  let ?best = "foldl (considerVehicle t dm durm cfg) \<lparr>bestVehicle = None, bestScore = Num (- 1)\<rparr> vas"
  have "keyIn {} \<lparr>bestVehicle = None, bestScore = Num (- 1)\<rparr>" by (simp add: keyIn_def)
  then have k: "keyIn ({} \<union> fst ` set vas) ?best" by (rule foldl_considerVehicle_keyIn)
  have "bestVehicle ?best = Some (vid, m)" using assms
    by (simp add: findBestVehicleForTrip_def Let_def split: option.splits if_splits prod.splits)
  then show ?thesis using k by (simp add: keyIn_def)
qed

lemma assignTrip_ok:
  assumes "okState vehicles state"
  shows "\<exists>state'. assignTrip dm durm config state t = Inr state' \<and> okState vehicles state' \<and>
           map fst (fst state') = map fst (fst state) \<and> length (snd state') = Suc (length (snd state))"
proof (cases "findBestVehicleForTrip t (fst state) dm durm (Some config)")
  case (NotFound b)
  then show ?thesis using assms by (simp add: assignTrip_def okState_def)
next
  case (Found vid sc m)
  then have "vid \<in> fst ` set (fst state)" by (rule findBestVehicleForTrip_Found)
  then obtain a where a: "map_of (fst state) vid = Some a"
    by (metis map_of_eq_None_iff not_None_eq)
  then have "(vid, a) \<in> set (fst state)" by (rule map_of_SomeD)
  then have ok: "okVehicle vehicles (va_vehicle a)" using assms by (auto simp: okState_def)
  show ?thesis using Found a ok assms
    by (auto simp: assignTrip_def okState_def Let_def comp_def intro!: map_idI)
qed

lemma assignTrips_ok:
  "okState vehicles state \<Longrightarrow>
   \<exists>state'. assignTrips dm durm config state ts = Inr state' \<and> okState vehicles state' \<and>
     length (snd state') = length (snd state) + length ts"
proof (induction ts arbitrary: state)
  case Nil
  then show ?case by simp
next
  case (Cons t ts)
  from assignTrip_ok[OF Cons.prems, of dm durm config t] obtain s1 where
    s1: "assignTrip dm durm config state t = Inr s1" "okState vehicles s1"
      "length (snd s1) = Suc (length (snd state))"
    by blast
  from Cons.IH[OF s1(2)] obtain s2 where
    "assignTrips dm durm config s1 ts = Inr s2" "okState vehicles s2"
    "length (snd s2) = length (snd s1) + length ts"
    by blast
  then show ?case using s1 by simp
qed

lemma improveRoutes_vehicles:
  "map (\<lambda>e. va_vehicle (snd e)) (improveRoutes rng dm k vas) = map (\<lambda>e. va_vehicle (snd e)) vas"
  by (induction vas arbitrary: k) (simp_all add: Let_def)

lemma improveRoutes_ok:
  "\<forall>e \<in> set vas. okVehicle vehicles (va_vehicle (snd e)) \<Longrightarrow>
   \<forall>e \<in> set (improveRoutes rng dm k0 vas). okVehicle vehicles (va_vehicle (snd e))"
  by (induction vas arbitrary: k0) (simp_all add: Let_def)

lemma fallbackVRPSolver_ok:
  "\<exists>sol. fallbackVRPSolver rng trips vehicles dm durm cfg = Inr sol \<and>
     (\<forall>a \<in> set (sol_vehicleAssignments sol). okVehicle vehicles (va_vehicle a)) \<and>
     (\<forall>r \<in> set (sol_results sol). \<forall>a. sr_assignment r = Some a \<longrightarrow>
        okVehicle vehicles (fa_vehicle a)) \<and>
     length (sol_results sol) = length trips"
proof -
  let ?config = "case cfg of None \<Rightarrow> solverDefaults | Some c \<Rightarrow> c"
  have "okState vehicles (initialAssignments vehicles, [])"
    using initialAssignments_ok[of vehicles] by (simp add: okState_def)
  from assignTrips_ok[OF this, of dm durm ?config "sort_by compareSolverTrips trips"]
  obtain st where st: "assignTrips dm durm ?config (initialAssignments vehicles, [])
        (sort_by compareSolverTrips trips) = Inr st"
      "okState vehicles st" "length (snd st) = length trips"
    by (auto simp: length_sort_by)
  have "\<forall>e \<in> set (fst st). okVehicle vehicles (va_vehicle (snd e))"
    using st(2) by (auto simp: okState_def)
  then have "\<forall>e \<in> set (improveRoutes rng dm 0 (fst st)). okVehicle vehicles (va_vehicle (snd e))"
    by (rule improveRoutes_ok)
  then show ?thesis using st by (simp add: fallbackVRPSolver_def Let_def okState_def)
qed

text \<open>
  The assignment resolver and the fallback solver skip the vehicles in maintenance: neither
  the recommended vehicle nor an alternative of \<open>findBestVehicleAssignment\<close> is in
  maintenance; the assignment map of \<open>fallbackVRPSolver\<close> holds no vehicle in maintenance
  from the start, the solver returns, and neither the vehicles that end up holding the trips
  nor any vehicle named by an assigned result is in maintenance.
\<close>

lemma resolver_and_solver_skip_maintenance:
  "(\<forall>ev. recommended (findBestVehicleAssignment t vehicles) = Some ev \<or>
         ev \<in> set (alternatives (findBestVehicleAssignment t vehicles)) \<longrightarrow>
         vehicle_status (ev_vehicle ev) \<noteq> Some ''maintenance'') \<and>
   (\<forall>e \<in> set (initialAssignments vehicles).
      vehicle_status (va_vehicle (snd e)) \<noteq> Some ''maintenance'') \<and>
   (\<exists>sol. fallbackVRPSolver rng trips vehicles dm durm cfg = Inr sol \<and>
      (\<forall>a \<in> set (sol_vehicleAssignments sol).
         vehicle_status (va_vehicle a) \<noteq> Some ''maintenance'') \<and>
      (\<forall>r \<in> set (sol_results sol). \<forall>a. sr_assignment r = Some a \<longrightarrow>
         vehicle_status (fa_vehicle a) \<noteq> Some ''maintenance''))"
proof (intro conjI)
  show "\<forall>ev. recommended (findBestVehicleAssignment t vehicles) = Some ev \<or>
         ev \<in> set (alternatives (findBestVehicleAssignment t vehicles)) \<longrightarrow>
         vehicle_status (ev_vehicle ev) \<noteq> Some ''maintenance''"
    using findBest_members[of t vehicles] sortedEvaluations_member[of _ t vehicles] by blast
  show "\<forall>e \<in> set (initialAssignments vehicles).
      vehicle_status (va_vehicle (snd e)) \<noteq> Some ''maintenance''"
    using initialAssignments_ok[of vehicles] by (auto simp: okVehicle_def)
  from fallbackVRPSolver_ok[of rng trips vehicles dm durm cfg]
  show "\<exists>sol. fallbackVRPSolver rng trips vehicles dm durm cfg = Inr sol \<and>
      (\<forall>a \<in> set (sol_vehicleAssignments sol).
         vehicle_status (va_vehicle a) \<noteq> Some ''maintenance'') \<and>
      (\<forall>r \<in> set (sol_results sol). \<forall>a. sr_assignment r = Some a \<longrightarrow>
         vehicle_status (fa_vehicle a) \<noteq> Some ''maintenance'')"
    by (auto simp: okVehicle_def)
qed

lemma resolver_and_solver_skip_maintenance_example:
  "(\<exists>ev. recommended (findBestVehicleAssignment exampleTrip fleetWithMaintenance) = Some ev \<and>
      vehicle_status (ev_vehicle ev) \<noteq> Some ''maintenance'') \<and>
   (\<exists>sol. fallbackVRPSolver randomB [exampleTrip] fleetWithMaintenance [] [] None = Inr sol \<and>
      list_all (\<lambda>a. vehicle_status (va_vehicle a) \<noteq> Some ''maintenance'')
        (sol_vehicleAssignments sol))"
proof -
  note th = resolver_and_solver_skip_maintenance[of exampleTrip fleetWithMaintenance randomB
      "[exampleTrip]" "[]" "[]" None]
  have "filter (\<lambda>v. vehicle_status v \<noteq> Some ''maintenance'') fleetWithMaintenance \<noteq> []"
    by (simp add: fleetWithMaintenance_def exampleVehicle_def)
  then obtain best rest where "sortedEvaluations exampleTrip fleetWithMaintenance = best # rest"
    using sortedEvaluations_empty[of exampleTrip fleetWithMaintenance]
    by (cases "sortedEvaluations exampleTrip fleetWithMaintenance") auto
  then have "recommended (findBestVehicleAssignment exampleTrip fleetWithMaintenance) = Some best"
    using findBest_some by simp
  then have a: "\<exists>ev. recommended (findBestVehicleAssignment exampleTrip fleetWithMaintenance) = Some ev \<and>
      vehicle_status (ev_vehicle ev) \<noteq> Some ''maintenance''"
    using th by blast
  from th obtain sol where
    "fallbackVRPSolver randomB [exampleTrip] fleetWithMaintenance [] [] None = Inr sol"
    "\<forall>a \<in> set (sol_vehicleAssignments sol). vehicle_status (va_vehicle a) \<noteq> Some ''maintenance''"
    by blast
  then show ?thesis using a by (auto simp: list_all_iff)
qed

text \<open>With vehicle 2 in maintenance and vehicle 1 available, the map holds vehicle 1 only and
  the trip goes to it.\<close>

lemma solver_example_fleet:
  "map_sum id (\<lambda>sol. (map (\<lambda>a. vehicle_id (va_vehicle a)) (sol_vehicleAssignments sol),
                       map (\<lambda>r. map_option (\<lambda>a. vehicle_id (fa_vehicle a)) (sr_assignment r))
                         (sol_results sol)))
     (fallbackVRPSolver randomB [exampleTrip] fleetWithMaintenance [] [] None) = Inr ([1], [Some 1])"
  by code_simp

subsection \<open>The solver and \<open>Math.random()\<close>\<close>

text \<open>
  Claim C8 states that two runs of \<open>fallbackVRPSolver\<close> on the same trips, vehicles,
  matrices and configuration return the same result. The code does not have this property:
  \<open>calculateRouteDistance\<close> adds \<open>Math.random() * 5\<close> to the length of a route, and the
  2-opt pass keeps a reversal when its distance is smaller. On three appointments that fit
  one vehicle, a run whose random values are 0.9 then 0.1 reorders the route to 1, 3, 2 with
  total distance 30.5, and a run whose values are all 0.5 keeps 1, 2, 3 with distance 33.
\<close>

theorem fallbackVRPSolver_depends_on_random:
  "map_sum id (\<lambda>sol. map (\<lambda>a. (map trip_id (va_trips a), va_totalDistance a))
                       (sol_vehicleAssignments sol))
     (fallbackVRPSolver randomA threeTrips [exampleVehicle] [] [] None) =
     Inr [([1, 3, 2], Num (61 / 2))] \<and>
   map_sum id (\<lambda>sol. map (\<lambda>a. (map trip_id (va_trips a), va_totalDistance a))
                       (sol_vehicleAssignments sol))
     (fallbackVRPSolver randomB threeTrips [exampleVehicle] [] [] None) =
     Inr [([1, 2, 3], Num 33)] \<and>
   fallbackVRPSolver randomA threeTrips [exampleVehicle] [] [] None \<noteq>
   fallbackVRPSolver randomB threeTrips [exampleVehicle] [] [] None"
proof -
  have a: "map_sum id (\<lambda>sol. map (\<lambda>a. (map trip_id (va_trips a), va_totalDistance a))
                       (sol_vehicleAssignments sol))
     (fallbackVRPSolver randomA threeTrips [exampleVehicle] [] [] None) =
     Inr [([1, 3, 2], Num (61 / 2))]"
    by code_simp
  have b: "map_sum id (\<lambda>sol. map (\<lambda>a. (map trip_id (va_trips a), va_totalDistance a))
                       (sol_vehicleAssignments sol))
     (fallbackVRPSolver randomB threeTrips [exampleVehicle] [] [] None) =
     Inr [([1, 2, 3], Num 33)]"
    by code_simp
  from a b show ?thesis by auto
qed

text \<open>The random values are read for routes of more than two trips only.\<close>

lemma improveRoutes_short:
  "\<forall>e \<in> set vas. length (va_trips (snd e)) \<le> 2 \<Longrightarrow> improveRoutes rng dm k vas = vas"
  by (induction vas arbitrary: k) (simp_all add: Let_def)

section \<open>Properties of the batch optimizer\<close>

lemma score_failed:
  assumes "pickup t = None \<or> destination t = None"
  shows "calculateOptimizationScore t v ex =
     \<lparr>score = Num 0,
      opt_details = ErrorDetails (Literal ''Failed to calculate route optimization''),
      originalScore = None\<rparr>"
proof -
  obtain e where "scoreAttempt t v ex = Inl e"
    using assms scoreAttempt_error_iff[of t v ex] by blast
  then show ?thesis by (simp add: calculateOptimizationScore_def)
qed

lemma evaluateVehicle_failed:
  assumes "pickup t = None \<or> destination t = None"
  shows "conflictsLength (ev_optimization (evaluateVehicle t v)) = Inl TypeError"
proof (cases "evaluateAttempt t v")
  case (Inl e)
  then show ?thesis by (simp add: evaluateVehicle_def errorEvaluation_def conflictsLength_def)
next
  case (Inr ev)
  then show ?thesis using score_failed[OF assms, of v "tripsOf v"]
    by (auto simp: evaluateVehicle_def evaluateAttempt_def Let_def conflictsLength_def bind_Inr_iff)
qed

lemma firstPassStep_throws:
  assumes "pickup t = None \<or> destination t = None"
    and "\<exists>v \<in> set vehicles. vehicle_status v \<noteq> Some ''maintenance''"
  shows "firstPassStep vehicles st t = Inl TypeError"
proof -
  let ?vs = "updatedVehicles vehicles (lists st)"
  have "filter (\<lambda>v. vehicle_status v \<noteq> Some ''maintenance'') ?vs \<noteq> []"
    using assms(2) by (auto simp: updatedVehicles_def filter_empty_conv)
  then obtain best rest where c: "sortedEvaluations t ?vs = best # rest"
    using sortedEvaluations_empty[of t ?vs] by (cases "sortedEvaluations t ?vs") auto
  then have "best \<in> set (sortedEvaluations t ?vs)" by simp
  then obtain v where "best = evaluateVehicle t v"
    by (auto simp: sortedEvaluations_def set_sort_by)
  then have "conflictsLength (ev_optimization best) = Inl TypeError"
    using evaluateVehicle_failed[OF assms(1)] by simp
  then show ?thesis using findBest_some[OF c]
    by (simp add: firstPassStep_def Let_def bind_def)
qed

lemma optimizeMultipleTrips_throws:
  assumes "pickup t = None \<or> destination t = None"
    and "\<exists>v \<in> set vehicles. vehicle_status v \<noteq> Some ''maintenance''"
  shows "optimizeMultipleTrips [t] vehicles = Inl TypeError"
  using firstPassStep_throws[OF assms]
  by (simp add: optimizeMultipleTrips_def sort_by_single bind_def)

text \<open>
  Claim C1 states that \<open>optimizeMultipleTrips\<close> never throws, even on a malformed trip,
  and returns one result per trip. The code does not have the first property: a trip without
  a pickup (or destination) makes \<open>calculateOptimizationScore\<close> return score 0 with
  \<open>details = { error }\<close>; \<open>findBestVehicleAssignment\<close> still recommends a vehicle (the enhanced
  score is at least 10), and the first pass then reads \<open>details.conflicts.length\<close>, which
  throws a \<open>TypeError\<close> that nothing catches. When the function does return, the results are
  one per trip, each assigned or unassigned (\<open>optimizeMultipleTrips_conservation\<close> below),
  and it returns when every trip has a pickup, a destination and a vehicle type that names
  no member inherited by every object (\<open>optimizeMultipleTrips_total\<close>).
\<close>

theorem optimizeMultipleTrips_throws_example:
  "optimizeMultipleTrips [tripWithoutPickup] [exampleVehicle] = Inl TypeError"
proof -
  have "pickup tripWithoutPickup = None \<or> destination tripWithoutPickup = None"
    by (simp add: tripWithoutPickup_def)
  moreover have "\<exists>v \<in> set [exampleVehicle]. vehicle_status v \<noteq> Some ''maintenance''"
    by (simp add: exampleVehicle_def)
  ultimately show ?thesis by (rule optimizeMultipleTrips_throws)
qed

text \<open>Every round of the first pass adds one result or one deferred trip, and every round of
  the second pass one result.\<close>

lemma firstPassStep_count:
  assumes "firstPassStep vehicles st t = Inr st'" "list_all statusOk (results st)"
  shows "length (results st') + length (unresolvableConflicts st') =
         Suc (length (results st) + length (unresolvableConflicts st)) \<and>
         list_all statusOk (results st')"
  using assms
  by (auto simp: firstPassStep_def Let_def bind_Inr_iff statusOk_def
      split: if_splits option.splits)

lemma firstPass_count:
  "firstPass vehicles st ts = Inr st' \<Longrightarrow> list_all statusOk (results st) \<Longrightarrow>
   length (results st') + length (unresolvableConflicts st') =
     length (results st) + length (unresolvableConflicts st) + length ts \<and>
   list_all statusOk (results st')"
proof (induction ts arbitrary: st)
  case Nil
  then show ?case by simp
next
  case (Cons t ts)
  from Cons.prems(1) obtain s1 where s1: "firstPassStep vehicles st t = Inr s1"
      "firstPass vehicles s1 ts = Inr st'"
    by (auto simp: bind_Inr_iff)
  from firstPassStep_count[OF s1(1) Cons.prems(2)] Cons.IH[OF s1(2)]
  show ?case by simp
qed

lemma secondPassStep_count:
  assumes "secondPassStep vehicles trips st t = Inr st'" "list_all statusOk (results st)"
  shows "length (results st') = Suc (length (results st)) \<and> list_all statusOk (results st')"
proof -
  let ?vs = "updatedVehicles vehicles (lists st)"
  from assms(1) obtain strategies where
    r: "resolveConflicts t ?vs trips = Inr strategies"
    by (auto simp: secondPassStep_def Let_def bind_Inr_iff)
  show ?thesis
  proof (cases strategies)
    case Nil
    then show ?thesis using assms r
      by (auto simp: secondPassStep_def Let_def bind_Inr statusOk_def)
  next
    case (Cons s others)
    then obtain applied where
      a: "applyResolutionStrategy t s ?vs (lists st) = Inr applied"
      using assms(1) r by (auto simp: secondPassStep_def Let_def bind_Inr bind_Inr_iff)
    show ?thesis
    proof (cases "snd applied")
      case NotApplied
      then show ?thesis using assms r a Cons
        by (auto simp: secondPassStep_def Let_def bind_Inr statusOk_def)
    next
      case (Applied v opt resolved)
      then show ?thesis using assms r a Cons
        by (auto simp: secondPassStep_def Let_def bind_Inr statusOk_def)
    qed
  qed
qed

lemma secondPass_count:
  "secondPass vehicles trips st ts = Inr st' \<Longrightarrow> list_all statusOk (results st) \<Longrightarrow>
   length (results st') = length (results st) + length ts \<and> list_all statusOk (results st')"
proof (induction ts arbitrary: st)
  case Nil
  then show ?case by simp
next
  case (Cons t ts)
  from Cons.prems(1) obtain s1 where s1: "secondPassStep vehicles trips st t = Inr s1"
      "secondPass vehicles trips s1 ts = Inr st'"
    by (auto simp: bind_Inr_iff)
  from secondPassStep_count[OF s1(1) Cons.prems(2)] Cons.IH[OF s1(2)]
  show ?case by simp
qed

lemma optimizeMultipleTrips_conservation:
  assumes "optimizeMultipleTrips trips vehicles = Inr r"
  shows "length (br_results r) = length trips \<and> list_all statusOk (br_results r)"
proof -
  let ?st0 = "\<lparr>lists = initialLists vehicles, results = [], unresolvableConflicts = []\<rparr>"
  from assms obtain st1 st2 where
    p1: "firstPass vehicles ?st0 (sort_by compareBatchTrips trips) = Inr st1"
    and p2: "secondPass vehicles trips st1 (unresolvableConflicts st1) = Inr st2"
    and r: "r = \<lparr>br_results = results st2, br_summary = batchSummary trips st2\<rparr>"
    by (auto simp: optimizeMultipleTrips_def Let_def bind_Inr_iff)
  have a: "length (results st1) + length (unresolvableConflicts st1) = length trips \<and>
      list_all statusOk (results st1)"
    using firstPass_count[OF p1] by (simp add: length_sort_by)
  then have "length (results st2) = length (results st1) + length (unresolvableConflicts st1) \<and>
      list_all statusOk (results st2)"
    using secondPass_count[OF p2] by simp
  then show ?thesis using a r by simp
qed

subsection \<open>The batch returns on well-formed trips\<close>

lemma score_cases:
  "(\<exists>d. opt_details (calculateOptimizationScore t v ex) = Details d) \<or>
   score (calculateOptimizationScore t v ex) = Num 0"
  by (auto simp: calculateOptimizationScore_def scoreAttempt_def Let_def bind_def split: sum.splits)

lemma nestedGet_total:
  assumes "literalGet ([] :: (string \<times> real) list) k1 = Missing"
  shows "\<exists>x. nestedGet table k1 k2 = Inr x"
  by (simp add: nestedGet_def literalGet_plain[OF assms] split: option.splits)

lemma score_wf:
  assumes "wfTrip t"
  shows "\<exists>d. opt_details (calculateOptimizationScore t v ex) = Details d"
proof -
  have "\<exists>x. getVehicleTypeScore (vehicleType t) (vehicle_type v) = Inr x"
    using assms nestedGet_total[of "vehicleType t" compatibility "vehicle_type v"]
    by (cases "vehicleType t = vehicle_type v") (auto simp: getVehicleTypeScore_def wfTrip_def)
  then have "\<not> (\<exists>e. scoreAttempt t v ex = Inl e)"
    using assms scoreAttempt_error_iff[of t v ex] by (auto simp: wfTrip_def)
  then obtain r where r: "scoreAttempt t v ex = Inr r" by (cases "scoreAttempt t v ex") auto
  then show ?thesis
    by (auto simp: calculateOptimizationScore_def scoreAttempt_def Let_def bind_def
        split: sum.splits)
qed

lemma scoreAboveNoConflict_total:
  assumes "0 \<le> n"
  shows "\<exists>b. scoreAboveNoConflict n (calculateOptimizationScore t v ex) = Inr b"
  using assms score_cases[of t v ex]
  by (auto simp: scoreAboveNoConflict_def conflictsLength_def bind_def)

lemma conflictsLength_total:
  assumes "Num n < score (calculateOptimizationScore t v ex)" "0 \<le> n"
  shows "\<exists>k. conflictsLength (calculateOptimizationScore t v ex) = Inr k"
  using assms score_cases[of t v ex] by (auto simp: conflictsLength_def)

lemma collect_total:
  "(\<And>x. x \<in> set xs \<Longrightarrow> \<exists>ys. f x = Inr ys) \<Longrightarrow> \<exists>zs. collect f xs = Inr zs"
proof (induction xs)
  case Nil
  then show ?case by simp
next
  case (Cons x xs)
  obtain ys where "f x = Inr ys" using Cons.prems[of x] by auto
  moreover obtain zs where "collect f xs = Inr zs" using Cons by auto
  ultimately show ?case by (simp add: bind_def)
qed

lemma timeOptionFor_total: "\<exists>ys. timeOptionFor t slot v = Inr ys"
  using scoreAboveNoConflict_total[of 0 "atTime t slot" v "tripsOf v"]
  by (auto simp: timeOptionFor_def Let_def bind_def)

lemma findAlternativeTimeSlots_total: "\<exists>r. findAlternativeTimeSlots t vehicles = Inr r"
proof -
  have "\<exists>zs. collect (\<lambda>timeSlot. if timeSlot = tripTime t then Inr []
             else collect (timeOptionFor t timeSlot) vehicles) timeSlots = Inr zs"
  proof (rule collect_total)
    fix slot
    obtain ys where "collect (timeOptionFor t slot) vehicles = Inr ys"
      using collect_total[of vehicles "timeOptionFor t slot"] timeOptionFor_total by blast
    then show "\<exists>ys. (if slot = tripTime t then Inr []
             else collect (timeOptionFor t slot) vehicles) = Inr ys" by simp
  qed
  then show ?thesis by (auto simp: findAlternativeTimeSlots_def bind_def)
qed

lemma vehicleOptionFor_total: "\<exists>ys. vehicleOptionFor t v = Inr ys"
proof (cases "Num 30 < score (calculateOptimizationScore t v (tripsOf v))")
  case True
  then obtain k where "conflictsLength (calculateOptimizationScore t v (tripsOf v)) = Inr k"
    using conflictsLength_total[of 30 t v "tripsOf v"] by auto
  then show ?thesis by (simp add: vehicleOptionFor_def Let_def bind_def)
next
  case False
  then show ?thesis by (simp add: vehicleOptionFor_def Let_def)
qed

lemma findAlternativeVehicles_total: "\<exists>r. findAlternativeVehicles t vehicles = Inr r"
proof -
  obtain zs where "collect (vehicleOptionFor t) vehicles = Inr zs"
    using collect_total[of vehicles "vehicleOptionFor t"] vehicleOptionFor_total by blast
  then show ?thesis by (simp add: findAlternativeVehicles_def bind_def)
qed

lemma rescheduleOptionFor_total: "\<exists>ys. rescheduleOptionFor newTrip v i slot = Inr ys"
proof -
  let ?rem = "take i (tripsOf v) @ drop (Suc i) (tripsOf v)"
  let ?re = "atTime (tripsOf v ! i) slot"
  obtain b where b: "scoreAboveNoConflict 60 (calculateOptimizationScore ?re v ?rem) = Inr b"
    using scoreAboveNoConflict_total[of 60 ?re v ?rem] by auto
  obtain b' where b': "scoreAboveNoConflict 60
      (calculateOptimizationScore newTrip v (?rem @ [?re])) = Inr b'"
    using scoreAboveNoConflict_total[of 60 newTrip v "?rem @ [?re]"] by auto
  show ?thesis using b b' by (simp add: rescheduleOptionFor_def Let_def bind_def)
qed

lemma suggestRescheduling_total: "\<exists>r. suggestRescheduling newTrip vehicles ex = Inr r"
proof -
  have slots: "\<exists>ys. collect (rescheduleOptionFor newTrip v i) rescheduleSlots = Inr ys" for v i
    using collect_total[of rescheduleSlots "rescheduleOptionFor newTrip v i"]
      rescheduleOptionFor_total by blast
  have trips: "\<exists>ys. collect (\<lambda>i.
               if priority (tripsOf v ! i) = Some ''urgent'' then Inr []
               else collect (rescheduleOptionFor newTrip v i) rescheduleSlots)
               [0 ..< length (tripsOf v)] = Inr ys" for v
  proof (rule collect_total)
    fix i
    show "\<exists>ys. (if priority (tripsOf v ! i) = Some ''urgent'' then Inr []
               else collect (rescheduleOptionFor newTrip v i) rescheduleSlots) = Inr ys"
      using slots[of v i] by simp
  qed
  have "\<exists>zs. collect (\<lambda>v.
        if tripsOf v = [] then Inr []
        else collect (\<lambda>i.
               if priority (tripsOf v ! i) = Some ''urgent'' then Inr []
               else collect (rescheduleOptionFor newTrip v i) rescheduleSlots)
               [0 ..< length (tripsOf v)]) vehicles = Inr zs"
  proof (rule collect_total)
    fix v
    show "\<exists>ys. (if tripsOf v = [] then Inr []
        else collect (\<lambda>i.
               if priority (tripsOf v ! i) = Some ''urgent'' then Inr []
               else collect (rescheduleOptionFor newTrip v i) rescheduleSlots)
               [0 ..< length (tripsOf v)]) = Inr ys"
      using trips[of v] by simp
  qed
  then show ?thesis by (auto simp: suggestRescheduling_def bind_def)
qed

lemma nearbyTrip_total:
  assumes "wfTrip t" "wfTrip other"
  shows "\<exists>ys. nearbyTrip t other = Inr ys"
  using assms by (auto simp: nearbyTrip_def lowerPickup_def wfTrip_def bind_def)

lemma suggestTripOptimizations_total:
  assumes "wfTrip t" "\<forall>other \<in> set allTrips. wfTrip other"
  shows "\<exists>r. suggestTripOptimizations t vehicles allTrips = Inr r"
proof -
  have "\<exists>zs. collect (nearbyTrip t)
      (filter (\<lambda>other. trip_id other \<noteq> trip_id t \<and> trip_status other \<noteq> Some ''completed'')
         allTrips) = Inr zs"
    by (rule collect_total) (use assms nearbyTrip_total in auto)
  then show ?thesis
    by (auto simp: suggestTripOptimizations_def findNearbyTrips_def bind_def Let_def)
qed

lemma resolveConflicts_options:
  assumes "resolveConflicts t vehicles allTrips = Inr strategies"
  shows "list_all hasOption strategies"
  using assms by (auto simp: resolveConflicts_def bind_Inr_iff hasOption_def)

lemma resolveConflicts_total:
  assumes "wfTrip t" "\<forall>other \<in> set allTrips. wfTrip other"
  shows "\<exists>r. resolveConflicts t vehicles allTrips = Inr r"
proof -
  obtain a where a: "findAlternativeTimeSlots t vehicles = Inr a"
    using findAlternativeTimeSlots_total by blast
  obtain b where b: "findAlternativeVehicles t vehicles = Inr b"
    using findAlternativeVehicles_total by blast
  obtain c where c: "suggestRescheduling t vehicles allTrips = Inr c"
    using suggestRescheduling_total by blast
  obtain d where d: "suggestTripOptimizations t vehicles allTrips = Inr d"
    using suggestTripOptimizations_total[OF assms] by blast
  show ?thesis by (simp add: resolveConflicts_def a b c d bind_def)
qed

lemma map_of_map_set: "map_of (map_set k v m) k' = (if k' = k then Some v else map_of m k')"
  by (induction m) auto

lemma keysOk_map_set: "keysOk vehicles m \<Longrightarrow> keysOk vehicles (map_set k v m)"
  by (simp add: keysOk_def map_of_map_set)

lemma keysOk_initial: "keysOk vehicles (initialLists vehicles)"
proof -
  have "\<forall>v \<in> set ws \<union> set vs. map_of (foldl (\<lambda>m v. map_set (vehicle_id v) (tripsOf v) m) m0 vs)
      (vehicle_id v) \<noteq> None"
    if "\<forall>v \<in> set ws. map_of m0 (vehicle_id v) \<noteq> None" for ws vs m0
    using that
  proof (induction vs arbitrary: ws m0)
    case Nil
    then show ?case by simp
  next
    case (Cons x xs)
    have "\<forall>v \<in> set (x # ws). map_of (map_set (vehicle_id x) (tripsOf x) m0) (vehicle_id v) \<noteq> None"
      using Cons.prems by (simp add: map_of_map_set)
    from Cons.IH[OF this] show ?case by simp
  qed
  from this[of "[]" "[]" vehicles] show ?thesis by (simp add: keysOk_def initialLists_def)
qed

lemma updatedVehicles_id:
  assumes "v \<in> set (updatedVehicles vehicles m)"
  shows "\<exists>w \<in> set vehicles. vehicle_id v = vehicle_id w"
  using assms by (auto simp: updatedVehicles_def)

lemma pushTrip_total:
  assumes "keysOk vehicles m" "v \<in> set (updatedVehicles vehicles m)"
  shows "\<exists>m'. pushTrip (vehicle_id v) t m = Inr m' \<and> keysOk vehicles m'"
proof -
  obtain w where "w \<in> set vehicles" "vehicle_id v = vehicle_id w"
    using updatedVehicles_id[OF assms(2)] by blast
  then obtain ts where "map_of m (vehicle_id v) = Some ts"
    using assms(1) by (auto simp: keysOk_def)
  then show ?thesis using assms(1) by (simp add: pushTrip_def keysOk_map_set)
qed

lemma find_member: "find p xs = Some x \<Longrightarrow> x \<in> set xs"
  by (induction xs) (auto split: if_splits)

lemma applyTimeAdjustment_total:
  assumes "keysOk vehicles m"
  shows "\<exists>m' r. applyTimeAdjustment t opt (updatedVehicles vehicles m) m = Inr (m', r) \<and>
           keysOk vehicles m'"
proof (cases "find (\<lambda>v. vehicle_name v = to_vehicle opt) (updatedVehicles vehicles m)")
  case None
  then show ?thesis using assms by (simp add: applyTimeAdjustment_def)
next
  case (Some target)
  let ?o = "calculateOptimizationScore (atTime t (newTime opt)) target
      (currentTripsOf m (vehicle_id target))"
  obtain b where b: "scoreAboveNoConflict 60 ?o = Inr b"
    using scoreAboveNoConflict_total[of 60 "atTime t (newTime opt)" target
        "currentTripsOf m (vehicle_id target)"] by auto
  obtain m' where m': "pushTrip (vehicle_id target)
      (withDuration (atTime t (newTime opt)) (tripDurationHours ?o)) m = Inr m'" "keysOk vehicles m'"
    using pushTrip_total[OF assms find_member[OF Some]] by blast
  show ?thesis using Some b m' assms
    by (cases b) (simp_all add: applyTimeAdjustment_def Let_def bind_def)
qed

lemma applyVehicleChange_total:
  assumes "keysOk vehicles m"
  shows "\<exists>m' r. applyVehicleChange t opt (updatedVehicles vehicles m) m = Inr (m', r) \<and>
           keysOk vehicles m'"
proof (cases "find (\<lambda>v. vehicle_name v = vo_vehicle opt) (updatedVehicles vehicles m)")
  case None
  then show ?thesis using assms by (simp add: applyVehicleChange_def)
next
  case (Some target)
  let ?o = "calculateOptimizationScore t target (currentTripsOf m (vehicle_id target))"
  obtain m' where m': "pushTrip (vehicle_id target) (withDuration t (tripDurationHours ?o)) m = Inr m'"
      "keysOk vehicles m'"
    using pushTrip_total[OF assms find_member[OF Some]] by blast
  show ?thesis
  proof (cases "Num 30 < score ?o")
    case True
    then obtain k where "conflictsLength ?o = Inr k"
      using conflictsLength_total[of 30 t target "currentTripsOf m (vehicle_id target)"] by auto
    then show ?thesis using Some True m'
      by (simp add: applyVehicleChange_def Let_def bind_def)
  next
    case False
    then show ?thesis using Some assms by (simp add: applyVehicleChange_def Let_def)
  qed
qed

lemma applyRescheduling_total:
  assumes "keysOk vehicles m"
  shows "\<exists>m' r. applyRescheduling t opt (updatedVehicles vehicles m) m = Inr (m', r) \<and>
           keysOk vehicles m'"
proof (cases "find (\<lambda>v. vehicle_name v = ro_vehicle opt) (updatedVehicles vehicles m)")
  case None
  then show ?thesis using assms by (simp add: applyRescheduling_def)
next
  case (Some target)
  obtain w where "w \<in> set vehicles" "vehicle_id target = vehicle_id w"
    using updatedVehicles_id[OF find_member[OF Some]] by blast
  then obtain ts where ts: "map_of m (vehicle_id target) = Some ts"
    using assms by (auto simp: keysOk_def)
  show ?thesis using Some ts assms
    by (cases "firstIndex (\<lambda>x. patient x = ro_patient opt) ts")
      (simp_all add: applyRescheduling_def Let_def keysOk_map_set)
qed

lemma applyTripOptimization_total:
  assumes "keysOk vehicles m"
  shows "\<exists>m' r. applyTripOptimization t opt (updatedVehicles vehicles m) m = Inr (m', r) \<and>
           keysOk vehicles m'"
proof (cases opt)
  case (MultiVehicle a b)
  then show ?thesis using assms by (simp add: applyTripOptimization_def)
next
  case (CombineTrips p n e sv)
  show ?thesis
  proof (cases "find (\<lambda>v. vehicle_name v = n) (updatedVehicles vehicles m)")
    case None
    then show ?thesis using assms CombineTrips by (simp add: applyTripOptimization_def)
  next
    case (Some target)
    obtain m' where m': "pushTrip (vehicle_id target)
        (withDuration t (Num (real_of_int e / 60))) m = Inr m'" "keysOk vehicles m'"
      using pushTrip_total[OF assms find_member[OF Some]] by blast
    show ?thesis using Some CombineTrips m' assms
      by (simp add: applyTripOptimization_def Let_def bind_def)
  qed
qed

lemma applyResolutionStrategy_total:
  assumes "keysOk vehicles m" "hasOption s"
  shows "\<exists>m' r. applyResolutionStrategy t s (updatedVehicles vehicles m) m = Inr (m', r) \<and>
           keysOk vehicles m'"
proof (cases s)
  case (TimeAdjustment os)
  then obtain opt rest where "os = opt # rest" using assms(2) by (cases os) (auto simp: hasOption_def)
  then show ?thesis using TimeAdjustment applyTimeAdjustment_total[OF assms(1), of t opt]
    by (simp add: applyResolutionStrategy_def)
next
  case (VehicleChange os)
  then obtain opt rest where "os = opt # rest" using assms(2) by (cases os) (auto simp: hasOption_def)
  then show ?thesis using VehicleChange applyVehicleChange_total[OF assms(1), of t opt]
    by (simp add: applyResolutionStrategy_def)
next
  case (RescheduleExisting os)
  then obtain opt rest where "os = opt # rest" using assms(2) by (cases os) (auto simp: hasOption_def)
  then show ?thesis using RescheduleExisting applyRescheduling_total[OF assms(1), of t opt]
    by (simp add: applyResolutionStrategy_def)
next
  case (TripOptimization os)
  then obtain opt rest where "os = opt # rest" using assms(2) by (cases os) (auto simp: hasOption_def)
  then show ?thesis using TripOptimization applyTripOptimization_total[OF assms(1), of t opt]
    by (simp add: applyResolutionStrategy_def)
qed

lemma evaluateVehicle_wf:
  assumes "wfTrip t"
  shows "\<exists>k. conflictsLength (ev_optimization (evaluateVehicle t v)) = Inr k"
proof -
  have plain: "literalGet ([] :: (string \<times> real) list) (vehicleType t) = Missing"
    using assms by (simp add: wfTrip_def)
  obtain d where d: "opt_details (calculateOptimizationScore t v (tripsOf v)) = Details d"
    using score_wf[OF assms] by blast
  obtain x where x: "getVehicleTypeScore (vehicleType t) (vehicle_type v) = Inr x"
    using nestedGet_total[OF plain, of compatibility "vehicle_type v"]
    by (cases "vehicleType t = vehicle_type v") (auto simp: getVehicleTypeScore_def)
  obtain c where c: "crossTypeFactor (vehicleType t) (vehicle_type v) = Inr c"
    using nestedGet_total[OF plain, of crossTypeCompatibility "vehicle_type v"]
    by (auto simp: crossTypeFactor_def)
  obtain s where s: "calculateEnhancedCompatibilityScore t v
      (score (calculateOptimizationScore t v (tripsOf v))) = Inr s"
    by (cases "vehicleType t = vehicle_type v")
      (simp_all add: calculateEnhancedCompatibilityScore_def Let_def c)
  show ?thesis
    by (simp add: evaluateVehicle_def evaluateAttempt_def Let_def conflictsLength_def
        getCompatibilityDetails_def s x d)
qed

lemma firstPassStep_total:
  assumes "wfTrip t" "keysOk vehicles (lists st)"
  shows "\<exists>st'. firstPassStep vehicles st t = Inr st' \<and> keysOk vehicles (lists st') \<and>
           set (unresolvableConflicts st') \<subseteq> insert t (set (unresolvableConflicts st))"
proof (cases "sortedEvaluations t (updatedVehicles vehicles (lists st))")
  case Nil
  then have "filter (\<lambda>v. vehicle_status v \<noteq> Some ''maintenance'')
      (updatedVehicles vehicles (lists st)) = []"
    using sortedEvaluations_empty by simp
  from findBest_none[OF this, of t] show ?thesis using assms(2)
    by (auto simp: firstPassStep_def Let_def)
next
  case (Cons best rest)
  let ?vs = "updatedVehicles vehicles (lists st)"
  have "best \<in> set (sortedEvaluations t ?vs)" using Cons by simp
  then obtain v where v: "v \<in> set ?vs" "best = evaluateVehicle t v"
    by (auto simp: sortedEvaluations_def set_sort_by)
  then have bv: "ev_vehicle best = v" using evaluateVehicle_vehicle[of t v] by simp
  obtain k where k: "conflictsLength (ev_optimization best) = Inr k"
    using evaluateVehicle_wf[OF assms(1), of v] v by auto
  obtain m' where m': "pushTrip (vehicle_id (ev_vehicle best))
      (withDuration t (tripDurationHours (ev_optimization best))) (lists st) = Inr m'"
      "keysOk vehicles m'"
    using pushTrip_total[OF assms(2) v(1)] bv by blast
  show ?thesis using findBest_some[OF Cons] k m' assms(2)
    by (cases "k = 0") (auto simp: firstPassStep_def Let_def bind_def)
qed

lemma firstPass_total:
  "\<forall>t \<in> set ts. wfTrip t \<Longrightarrow> keysOk vehicles (lists st) \<Longrightarrow>
   \<exists>st'. firstPass vehicles st ts = Inr st' \<and> keysOk vehicles (lists st') \<and>
     set (unresolvableConflicts st') \<subseteq> set ts \<union> set (unresolvableConflicts st)"
proof (induction ts arbitrary: st)
  case Nil
  then show ?case by simp
next
  case (Cons t ts)
  have "wfTrip t" using Cons.prems(1) by simp
  from firstPassStep_total[OF this Cons.prems(2)] obtain s1 where
    s1: "firstPassStep vehicles st t = Inr s1" "keysOk vehicles (lists s1)"
      "set (unresolvableConflicts s1) \<subseteq> insert t (set (unresolvableConflicts st))"
    by blast
  have "\<forall>t \<in> set ts. wfTrip t" using Cons.prems(1) by simp
  from Cons.IH[OF this s1(2)] obtain s2 where
    s2: "firstPass vehicles s1 ts = Inr s2" "keysOk vehicles (lists s2)"
      "set (unresolvableConflicts s2) \<subseteq> set ts \<union> set (unresolvableConflicts s1)"
    by blast
  show ?case using s1 s2 by (auto simp: bind_def)
qed

lemma secondPassStep_total:
  assumes "wfTrip t" "\<forall>other \<in> set trips. wfTrip other" "keysOk vehicles (lists st)"
  shows "\<exists>st'. secondPassStep vehicles trips st t = Inr st' \<and> keysOk vehicles (lists st')"
proof -
  let ?vs = "updatedVehicles vehicles (lists st)"
  obtain strategies where r: "resolveConflicts t ?vs trips = Inr strategies"
    using resolveConflicts_total[OF assms(1,2)] by blast
  show ?thesis
  proof (cases strategies)
    case Nil
    then show ?thesis using r assms(3) by (simp add: secondPassStep_def Let_def bind_def)
  next
    case (Cons s others)
    then have "hasOption s" using resolveConflicts_options[OF r] by simp
    from applyResolutionStrategy_total[OF assms(3) this, of t] obtain m' res where
      a: "applyResolutionStrategy t s ?vs (lists st) = Inr (m', res)" "keysOk vehicles m'"
      by blast
    show ?thesis using r Cons a
      by (cases res) (simp_all add: secondPassStep_def Let_def bind_def)
  qed
qed

lemma secondPass_total:
  "\<forall>t \<in> set ts. wfTrip t \<Longrightarrow> \<forall>other \<in> set trips. wfTrip other \<Longrightarrow>
   keysOk vehicles (lists st) \<Longrightarrow> \<exists>st'. secondPass vehicles trips st ts = Inr st'"
proof (induction ts arbitrary: st)
  case Nil
  then show ?case by simp
next
  case (Cons t ts)
  have "wfTrip t" using Cons.prems(1) by simp
  from secondPassStep_total[OF this Cons.prems(2,3)] obtain s1 where
    s1: "secondPassStep vehicles trips st t = Inr s1" "keysOk vehicles (lists s1)"
    by blast
  have "\<forall>t \<in> set ts. wfTrip t" using Cons.prems(1) by simp
  from Cons.IH[OF this Cons.prems(2) s1(2)] show ?case using s1 by (auto simp: bind_def)
qed

text \<open>When every trip is well formed, the batch returns, with one result per trip.\<close>

lemma optimizeMultipleTrips_total:
  assumes "\<forall>t \<in> set trips. wfTrip t"
  shows "\<exists>r. optimizeMultipleTrips trips vehicles = Inr r \<and>
           length (br_results r) = length trips \<and> list_all statusOk (br_results r)"
proof -
  let ?st0 = "\<lparr>lists = initialLists vehicles, results = [], unresolvableConflicts = []\<rparr>"
  have "\<forall>t \<in> set (sort_by compareBatchTrips trips). wfTrip t"
    using assms by (simp add: set_sort_by)
  moreover have "keysOk vehicles (lists ?st0)" by (simp add: keysOk_initial)
  ultimately obtain st1 where
    st1: "firstPass vehicles ?st0 (sort_by compareBatchTrips trips) = Inr st1"
      "keysOk vehicles (lists st1)"
      "set (unresolvableConflicts st1) \<subseteq> set (sort_by compareBatchTrips trips) \<union>
         set (unresolvableConflicts ?st0)"
    using firstPass_total[of "sort_by compareBatchTrips trips" vehicles ?st0] by blast
  have "\<forall>t \<in> set (unresolvableConflicts st1). wfTrip t"
    using st1(3) assms by (auto simp: set_sort_by)
  from secondPass_total[OF this assms st1(2)] obtain st2 where
    "secondPass vehicles trips st1 (unresolvableConflicts st1) = Inr st2" by blast
  then have "\<exists>r. optimizeMultipleTrips trips vehicles = Inr r"
    using st1(1) by (simp add: optimizeMultipleTrips_def Let_def bind_def)
  then show ?thesis using optimizeMultipleTrips_conservation by blast
qed

subsection \<open>A trip assigned to a vehicle in maintenance\<close>

lemma collect_nil: "(\<And>x. x \<in> set xs \<Longrightarrow> f x = Inr []) \<Longrightarrow> collect f xs = Inr []"
  by (induction xs) simp_all

text \<open>With every vehicle in maintenance and without trips, the first pass defers every trip
  and the first three strategies of the second pass have no option.\<close>

lemma firstPassStep_defers:
  assumes "\<forall>v \<in> set vehicles. vehicle_status v = Some ''maintenance''"
  shows "firstPassStep vehicles st t =
     Inr (st\<lparr>unresolvableConflicts := unresolvableConflicts st @ [t]\<rparr>)"
proof -
  have "filter (\<lambda>v. vehicle_status v \<noteq> Some ''maintenance'')
      (updatedVehicles vehicles (lists st)) = []"
    using assms by (auto simp: updatedVehicles_def filter_empty_conv)
  from findBest_none[OF this, of t] show ?thesis by (simp add: firstPassStep_def Let_def)
qed

lemma findAlternativeTimeSlots_maintenance:
  assumes "\<forall>v \<in> set vehicles. vehicle_status v = Some ''maintenance''"
  shows "findAlternativeTimeSlots t vehicles = Inr []"
proof -
  have "collect (timeOptionFor t slot) vehicles = Inr []" for slot
    by (rule collect_nil) (use assms in \<open>simp add: timeOptionFor_def Let_def\<close>)
  then have "collect (\<lambda>timeSlot. if timeSlot = tripTime t then Inr []
             else collect (timeOptionFor t timeSlot) vehicles) timeSlots = Inr []"
    by (intro collect_nil) simp
  then show ?thesis by (simp add: findAlternativeTimeSlots_def sort_by_def)
qed

lemma findAlternativeVehicles_maintenance:
  assumes "\<forall>v \<in> set vehicles. vehicle_status v = Some ''maintenance''"
  shows "findAlternativeVehicles t vehicles = Inr []"
proof -
  have "collect (vehicleOptionFor t) vehicles = Inr []"
    by (rule collect_nil) (use assms in \<open>simp add: vehicleOptionFor_def\<close>)
  then show ?thesis by (simp add: findAlternativeVehicles_def sort_by_def)
qed

lemma suggestRescheduling_no_trips:
  assumes "\<forall>v \<in> set vehicles. tripsOf v = []"
  shows "suggestRescheduling t vehicles ex = Inr []"
proof -
  have "collect (\<lambda>v.
        if tripsOf v = [] then Inr []
        else collect (\<lambda>i.
               if priority (tripsOf v ! i) = Some ''urgent'' then Inr []
               else collect (rescheduleOptionFor t v i) rescheduleSlots)
               [0 ..< length (tripsOf v)]) vehicles = Inr []"
    by (rule collect_nil) (use assms in simp)
  then show ?thesis by (simp add: suggestRescheduling_def sort_by_def)
qed

text \<open>The score of a trip with its two addresses, on a vehicle of its type, is above 40
  whatever the distances and the other trips of the vehicle.\<close>

lemma score_matching_type:
  assumes "pickup t \<noteq> None" "destination t \<noteq> None" "vehicleType t = vehicle_type v"
    and "literalGet ([] :: (string \<times> real) list) (priority t) = Missing"
  shows "Num 40 < score (calculateOptimizationScore t v ex)"
proof -
  have g: "getVehicleTypeScore (vehicleType t) (vehicle_type v) = Inr (Numeric (Num 100))"
    using assms(3) by (simp add: getVehicleTypeScore_def)
  then have "\<not> (\<exists>e. scoreAttempt t v ex = Inl e)"
    using assms(1,2) scoreAttempt_error_iff[of t v ex] by simp
  then obtain r where r: "scoreAttempt t v ex = Inr r" by (cases "scoreAttempt t v ex") auto
  obtain p where p: "getPriorityScore (priority t) = Numeric (Num (real_of_int p))" "40 \<le> p"
    using getPriorityScore_plain[OF assms(4)] by blast
  let ?tss = "calculateTimeSlotScore t v ex"
  obtain d where s: "score r = round_num (finalScore (Numeric (Num 100)) ?tss
      (calculateDistanceScore d) (Numeric (Num (real_of_int p))))"
    using r g p(1) by (auto simp: scoreAttempt_def Let_def bind_def split: sum.splits)
  define x where "x = 100 * (3 / 10) + real_of_int ?tss * (25 / 100) +
      real_of_int (calculateDistanceScore d) * (25 / 100) + real_of_int p * (2 / 10)"
  have f: "finalScore (Numeric (Num 100)) ?tss (calculateDistanceScore d)
      (Numeric (Num (real_of_int p))) = Num x"
    by (simp add: finalScore_def toNumber_def x_def)
  have "10 \<le> ?tss" using calculateTimeSlotScore_range[of t v ex] by simp
  moreover have "20 \<le> calculateDistanceScore d" using calculateDistanceScore_range[of d] by simp
  ultimately have "real_of_int 41 \<le> x" using p(2) by (simp add: x_def)
  then have "41 \<le> \<lfloor>x + 1 / 2\<rfloor>" by (simp add: le_floor_iff)
  then have "Num 40 < score r" by (simp add: s f Math_round_def)
  then show ?thesis using r by (simp add: calculateOptimizationScore_def)
qed

lemma secondPassStep_results:
  assumes "secondPassStep vehicles trips st t = Inr st'"
  shows "\<exists>e. results st' = results st @ [e]"
proof -
  let ?vs = "updatedVehicles vehicles (lists st)"
  from assms obtain strategies where
    r: "resolveConflicts t ?vs trips = Inr strategies"
    by (auto simp: secondPassStep_def Let_def bind_Inr_iff)
  show ?thesis
  proof (cases strategies)
    case Nil
    then show ?thesis using assms r by (auto simp: secondPassStep_def Let_def)
  next
    case (Cons s others)
    then obtain applied where
      a: "applyResolutionStrategy t s ?vs (lists st) = Inr applied"
      using assms r by (auto simp: secondPassStep_def Let_def bind_Inr_iff)
    show ?thesis using assms r a Cons
      by (cases "snd applied") (auto simp: secondPassStep_def Let_def)
  qed
qed

lemma secondPass_results:
  "secondPass vehicles trips st ts = Inr st' \<Longrightarrow> \<exists>es. results st' = results st @ es"
proof (induction ts arbitrary: st)
  case Nil
  then show ?case by simp
next
  case (Cons t ts)
  from Cons.prems obtain s1 where s1: "secondPassStep vehicles trips st t = Inr s1"
      "secondPass vehicles trips s1 ts = Inr st'"
    by (auto simp: bind_Inr_iff)
  from secondPassStep_results[OF s1(1)] Cons.IH[OF s1(2)] show ?case by auto
qed

text \<open>The example: the only vehicle is in maintenance, the two trips leave Toulon at 09:00
  and 09:10.\<close>

lemma maintenance_fleet:
  "initialLists [maintenanceVehicle] = [(1, [])] \<and>
   updatedVehicles [maintenanceVehicle] [(1, [])] =
     [maintenanceVehicle\<lparr>vehicle_trips := Some []\<rparr>]"
  by code_simp

lemma maintenance_resolveConflicts:
  "resolveConflicts exampleTrip [maintenanceVehicle\<lparr>vehicle_trips := Some []\<rparr>]
     [exampleTrip, laterTrip] =
   Inr [TripOptimization [CombineTrips (Some ''Patient B'') (Some ''VSL 1'') 90 15]]"
proof -
  let ?vs = "[maintenanceVehicle\<lparr>vehicle_trips := Some []\<rparr>]"
  have m: "\<forall>v \<in> set ?vs. vehicle_status v = Some ''maintenance''"
    by (simp add: maintenanceVehicle_def)
  have e: "\<forall>v \<in> set ?vs. tripsOf v = []" by (simp add: tripsOf_def)
  have o: "suggestTripOptimizations exampleTrip ?vs [exampleTrip, laterTrip] =
      Inr [CombineTrips (Some ''Patient B'') (Some ''VSL 1'') 90 15]"
    by code_simp
  show ?thesis
    unfolding resolveConflicts_def findAlternativeTimeSlots_maintenance[OF m]
      findAlternativeVehicles_maintenance[OF m] suggestRescheduling_no_trips[OF e] o
    by simp
qed

lemma maintenance_secondPassStep:
  "\<exists>opt. secondPassStep [maintenanceVehicle] [exampleTrip, laterTrip]
     \<lparr>lists = [(1, [])], results = [], unresolvableConflicts = [exampleTrip, laterTrip]\<rparr>
     exampleTrip =
   Inr \<lparr>lists = [(1, [withDuration exampleTrip (Num (90 / 60))])],
        results = [\<lparr>be_trip = exampleTrip,
                    be_assignment = Some (Resolved (maintenanceVehicle\<lparr>vehicle_trips := Some []\<rparr>) opt),
                    be_status = ''assigned'',
                    resolutionApplied = Some ''trip_optimization'',
                    resolutionDetails = Some (TripsOptimized
                      (CombineTrips (Some ''Patient B'') (Some ''VSL 1'') 90 15)),
                    availableStrategies = []\<rparr>],
        unresolvableConflicts = [exampleTrip, laterTrip]\<rparr>"
proof -
  let ?v = "maintenanceVehicle\<lparr>vehicle_trips := Some []\<rparr>"
  let ?opt = "calculateOptimizationScore exampleTrip ?v []"
  have u: "updatedVehicles [maintenanceVehicle] [(1, [])] = [?v]"
    using maintenance_fleet by simp
  have "literalGet ([] :: (string \<times> real) list) (priority exampleTrip) = Missing" by code_simp
  then have sc: "Num 40 < score ?opt"
    by (intro score_matching_type) (simp_all add: exampleTrip_def maintenanceVehicle_def exampleVehicle_def)
  have f: "vehicle_name maintenanceVehicle = Some ''VSL 1''"
    by (simp add: maintenanceVehicle_def exampleVehicle_def)
  have id: "vehicle_id maintenanceVehicle = 1"
    by (simp add: maintenanceVehicle_def exampleVehicle_def)
  have a: "applyTripOptimization exampleTrip (CombineTrips (Some ''Patient B'') (Some ''VSL 1'') 90 15)
      [?v] [(1, [])] =
      Inr ([(1, [withDuration exampleTrip (Num (90 / 60))])],
           Applied ?v ?opt (TripsOptimized (CombineTrips (Some ''Patient B'') (Some ''VSL 1'') 90 15)))"
    using sc by (simp add: applyTripOptimization_def f id currentTripsOf_def pushTrip_def Let_def)
  show ?thesis
    by (rule exI[of _ ?opt])
      (simp add: secondPassStep_def Let_def u maintenance_resolveConflicts
        applyResolutionStrategy_def a strategyType_def)
qed

text \<open>
  Claim C7 states that no core operation assigns a trip to a vehicle in maintenance. This
  holds for \<open>findBestVehicleAssignment\<close> and \<open>fallbackVRPSolver\<close>
  (\<open>resolver_and_solver_skip_maintenance\<close>), but not for \<open>optimizeMultipleTrips\<close>: in its
  second pass, \<open>evaluateCombinedTrips\<close> picks the first vehicle of the trip's type whatever
  its status, and \<open>applyTripOptimization\<close> assigns the trip to it when the score is above 40,
  while the sibling strategy \<open>findAlternativeVehicles\<close> does skip the vehicles in maintenance.
  With a fleet of one VSL in maintenance and two VSL trips leaving Toulon at 09:00 and 09:10,
  the first pass defers both trips (\<open>findBestVehicleAssignment\<close> has no candidate) and the
  second pass assigns the first trip to the vehicle in maintenance.
\<close>

theorem optimizeMultipleTrips_assigns_maintenance:
  "vehicle_status maintenanceVehicle = Some ''maintenance'' \<and>
   \<not> success (findBestVehicleAssignment exampleTrip [maintenanceVehicle]) \<and>
   (\<exists>r e v opt. optimizeMultipleTrips [exampleTrip, laterTrip] [maintenanceVehicle] = Inr r \<and>
      length (br_results r) = 2 \<and> br_results r ! 0 = e \<and>
      be_trip e = exampleTrip \<and> be_status e = ''assigned'' \<and>
      resolutionApplied e = Some ''trip_optimization'' \<and>
      be_assignment e = Some (Resolved v opt) \<and>
      vehicle_id v = vehicle_id maintenanceVehicle \<and>
      vehicle_name v = vehicle_name maintenanceVehicle \<and>
      vehicle_status v = Some ''maintenance'')"
proof -
  let ?vs = "[maintenanceVehicle]"
  let ?ts = "[exampleTrip, laterTrip]"
  let ?v = "maintenanceVehicle\<lparr>vehicle_trips := Some []\<rparr>"
  have st: "vehicle_status maintenanceVehicle = Some ''maintenance''"
    by (simp add: maintenanceVehicle_def)
  then have m: "\<forall>v \<in> set ?vs. vehicle_status v = Some ''maintenance''" by simp
  have nb: "\<not> success (findBestVehicleAssignment exampleTrip ?vs)"
    using st by (simp add: findBest_none)
  have srt: "sort_by compareBatchTrips ?ts = ?ts" by code_simp
  have il: "initialLists ?vs = [(1, [])]" using maintenance_fleet by simp
  have p1: "firstPass ?vs \<lparr>lists = initialLists ?vs, results = [], unresolvableConflicts = []\<rparr>
      (sort_by compareBatchTrips ?ts) =
      Inr \<lparr>lists = [(1, [])], results = [], unresolvableConflicts = ?ts\<rparr>"
    by (simp add: srt il firstPassStep_defers[OF m])
  obtain opt where s1: "secondPassStep ?vs ?ts
      \<lparr>lists = [(1, [])], results = [], unresolvableConflicts = ?ts\<rparr> exampleTrip =
      Inr \<lparr>lists = [(1, [withDuration exampleTrip (Num (90 / 60))])],
        results = [\<lparr>be_trip = exampleTrip, be_assignment = Some (Resolved ?v opt),
                    be_status = ''assigned'',
                    resolutionApplied = Some ''trip_optimization'',
                    resolutionDetails = Some (TripsOptimized
                      (CombineTrips (Some ''Patient B'') (Some ''VSL 1'') 90 15)),
                    availableStrategies = []\<rparr>],
        unresolvableConflicts = ?ts\<rparr>"
    using maintenance_secondPassStep by blast
  define e where "e = \<lparr>be_trip = exampleTrip, be_assignment = Some (Resolved ?v opt),
                    be_status = ''assigned'',
                    resolutionApplied = Some ''trip_optimization'',
                    resolutionDetails = Some (TripsOptimized
                      (CombineTrips (Some ''Patient B'') (Some ''VSL 1'') 90 15)),
                    availableStrategies = []\<rparr>"
  define st2 where "st2 = \<lparr>lists = [(1, [withDuration exampleTrip (Num (90 / 60))])],
        results = [e], unresolvableConflicts = ?ts\<rparr>"
  have s1': "secondPassStep ?vs ?ts
      \<lparr>lists = [(1, [])], results = [], unresolvableConflicts = ?ts\<rparr> exampleTrip = Inr st2"
    using s1 by (simp add: st2_def e_def)
  have w: "wfTrip laterTrip" "\<forall>other \<in> set ?ts. wfTrip other" by code_simp+
  have k: "keysOk ?vs (lists st2)"
    by (simp add: keysOk_def st2_def maintenanceVehicle_def exampleVehicle_def)
  from secondPassStep_total[OF w k] obtain st3 where
    s2: "secondPassStep ?vs ?ts st2 laterTrip = Inr st3" by blast
  from secondPassStep_results[OF s2] obtain e2 where e2: "results st3 = [e, e2]"
    by (auto simp: st2_def)
  have r: "optimizeMultipleTrips ?ts ?vs =
      Inr \<lparr>br_results = results st3, br_summary = batchSummary ?ts st3\<rparr>"
    unfolding optimizeMultipleTrips_def Let_def p1 by (simp add: s1' s2)
  have "vehicle_id ?v = vehicle_id maintenanceVehicle \<and>
      vehicle_name ?v = vehicle_name maintenanceVehicle \<and>
      vehicle_status ?v = Some ''maintenance''"
    using st by simp
  then have "\<exists>r e v opt. optimizeMultipleTrips ?ts ?vs = Inr r \<and>
      length (br_results r) = 2 \<and> br_results r ! 0 = e \<and>
      be_trip e = exampleTrip \<and> be_status e = ''assigned'' \<and>
      resolutionApplied e = Some ''trip_optimization'' \<and>
      be_assignment e = Some (Resolved v opt) \<and>
      vehicle_id v = vehicle_id maintenanceVehicle \<and>
      vehicle_name v = vehicle_name maintenanceVehicle \<and>
      vehicle_status v = Some ''maintenance''"
    using r e2 by (simp add: e_def)
  then show ?thesis using st nb by blast
qed

end
